(* ===== verification/Medalhas_Prelude.thy ===== *)
theory Medalhas_Prelude
  imports Main "HOL-Library.Multiset" "HOL-Library.Sublist" "HOL-Library.Product_Lexorder"
begin

text \<open>
  Shared vocabulary of the development: the exceptions the program can end with, as
  values of the type \<open>erro\<close>; results that may be an exception (\<open>erro + 'a\<close>, \<open>Inl\<close>
  the exception); Python's list subscript for reading (\<open>py_get\<close>) and for assignment
  (\<open>py_set\<close>), with negative indices and \<open>IndexError\<close>; the loop
  \<open>for x in xs: out.append(f(x))\<close> over a body that may raise (\<open>map_res\<close>); and
  the list of first occurrences (\<open>primeiros\<close>), which is the order in which a linear
  search-or-append table meets its keys. The lemmas of this theory are the ones the
  component theories share; the collections \<open>medalhas_defs\<close> (definitions to unfold
  when a closed term is evaluated) and \<open>medalhas_inv\<close> (invariant preservation facts)
  are filled by the components.
\<close>

section \<open>Collections\<close>

named_theorems medalhas_defs "definitions unfolded to evaluate the model on a closed input"
named_theorems medalhas_inv "preservation of the table invariants by the operations"

section \<open>Exceptions and results\<close>

datatype erro = IndexError | TypeError | RecursionError | SystemExit int

type_synonym 'a resultado = "erro + 'a"

definition py_get :: "'a list \<Rightarrow> int \<Rightarrow> 'a resultado" where
  "py_get xs i =
     (let n = int (length xs)
      in if 0 \<le> i \<and> i < n then Inr (xs ! nat i)
         else if - n \<le> i \<and> i < 0 then Inr (xs ! nat (n + i))
         else Inl IndexError)"

definition py_set :: "'a list \<Rightarrow> int \<Rightarrow> 'a \<Rightarrow> 'a list resultado" where
  "py_set xs i v =
     (let n = int (length xs)
      in if 0 \<le> i \<and> i < n then Inr (xs[nat i := v])
         else if - n \<le> i \<and> i < 0 then Inr (xs[nat (n + i) := v])
         else Inl IndexError)"

fun map_res :: "('a \<Rightarrow> 'b resultado) \<Rightarrow> 'a list \<Rightarrow> 'b list resultado" where
  "map_res f [] = Inr []"
| "map_res f (x # xs) =
     (case f x of
        Inl e \<Rightarrow> Inl e
      | Inr y \<Rightarrow> (case map_res f xs of Inl e \<Rightarrow> Inl e | Inr ys \<Rightarrow> Inr (y # ys)))"

section \<open>First occurrences\<close>

fun primeiros :: "'a list \<Rightarrow> 'a list" where
  "primeiros [] = []"
| "primeiros (x # xs) = x # filter (\<lambda>y. y \<noteq> x) (primeiros xs)"

section \<open>Subscripts\<close>

lemma py_get_nat [simp]:
  "n < length xs \<Longrightarrow> py_get xs (int n) = Inr (xs ! n)"
  by (simp add: py_get_def)

lemma py_get_beyond [simp]:
  "int (length xs) \<le> i \<Longrightarrow> py_get xs i = Inl IndexError"
  by (simp add: py_get_def Let_def)

lemma py_get_numeral [simp]:
  "py_get xs (numeral k) =
     (if numeral k < length xs then Inr (xs ! numeral k) else Inl IndexError)"
  by (simp add: py_get_def Let_def)

lemma py_get_0 [simp]:
  "py_get xs 0 = (if xs = [] then Inl IndexError else Inr (hd xs))"
  by (cases xs) (simp_all add: py_get_def)

lemma py_get_1 [simp]:
  "py_get xs 1 = (if 1 < length xs then Inr (xs ! 1) else Inl IndexError)"
  by (simp add: py_get_def Let_def)

lemma py_get_Inr_iff:
  "(\<exists>v. py_get xs i = Inr v) \<longleftrightarrow> - int (length xs) \<le> i \<and> i < int (length xs)"
  by (auto simp: py_get_def Let_def)

lemma py_get_in_set:
  "py_get xs i = Inr v \<Longrightarrow> v \<in> set xs"
  by (auto simp: py_get_def Let_def split: if_splits)

lemma py_get_append_hole [simp]:
  "py_get (pre @ x # rest) (int (length pre)) = Inr x"
  by (simp add: py_get_def Let_def)

lemma py_get_append_last [simp]:
  "py_get (pre @ y # x # rest) (int (length pre)) = Inr y"
  by (simp add: py_get_def Let_def)

lemma py_set_nat [simp]:
  "n < length xs \<Longrightarrow> py_set xs (int n) v = Inr (xs[n := v])"
  by (simp add: py_set_def)

lemma py_set_beyond [simp]:
  "int (length xs) \<le> i \<Longrightarrow> py_set xs i v = Inl IndexError"
  by (simp add: py_set_def Let_def)

lemma py_set_append_hole [simp]:
  "py_set (pre @ x # rest) (int (length pre)) v = Inr (pre @ v # rest)"
  by (simp add: py_set_def Let_def)

lemma py_set_append_next [simp]:
  "py_set (pre @ y # x # rest) (int (length pre) + 1) v = Inr (pre @ y # v # rest)"
  using py_set_append_hole [of "pre @ [y]" x rest v] by (simp add: add.commute)

lemma py_set_length:
  "py_set xs i v = Inr ys \<Longrightarrow> length ys = length xs"
  by (auto simp: py_set_def Let_def split: if_splits)

section \<open>Loops that may raise\<close>

lemma map_res_Inr_iff:
  "map_res f xs = Inr ys \<longleftrightarrow> map f xs = map Inr ys"
proof (induction xs arbitrary: ys)
  case Nil
  show ?case by auto
next
  case (Cons x xs)
  show ?case
    by (cases ys) (auto simp: Cons.IH [symmetric] split: sum.splits)
qed

lemma map_res_all_Inr:
  "(\<And>x. x \<in> set xs \<Longrightarrow> f x = Inr (g x)) \<Longrightarrow> map_res f xs = Inr (map g xs)"
  by (simp add: map_res_Inr_iff)

lemma map_res_length:
  "map_res f xs = Inr ys \<Longrightarrow> length ys = length xs"
  by (auto simp: map_res_Inr_iff dest: arg_cong [where f = length])

lemma map_res_Inl:
  "map_res f xs = Inl e \<Longrightarrow> \<exists>x \<in> set xs. f x = Inl e"
  by (induction xs) (auto split: sum.splits)

lemma map_res_Inl_intro:
  "x \<in> set xs \<Longrightarrow> f x = Inl e \<Longrightarrow> \<exists>e'. map_res f xs = Inl e'"
  by (induction xs) (auto split: sum.splits)

lemma map_res_append:
  "map_res f (xs @ ys) =
     (case map_res f xs of
        Inl e \<Rightarrow> Inl e
      | Inr us \<Rightarrow> (case map_res f ys of Inl e \<Rightarrow> Inl e | Inr vs \<Rightarrow> Inr (us @ vs)))"
  by (induction xs) (auto split: sum.splits)

section \<open>First occurrences\<close>

lemma set_primeiros [simp]: "set (primeiros xs) = set xs"
  by (induction xs) auto

lemma primeiros_eq_Nil [simp]: "primeiros xs = [] \<longleftrightarrow> xs = []"
  by (cases xs) simp_all

lemma distinct_primeiros [simp]: "distinct (primeiros xs)"
  by (induction xs) auto

lemma primeiros_distinct_id: "distinct xs \<Longrightarrow> primeiros xs = xs"
  by (induction xs) (auto simp: filter_id_conv)

lemma primeiros_idem [simp]: "primeiros (primeiros xs) = primeiros xs"
  by (simp add: primeiros_distinct_id)

lemma filter_primeiros:
  "filter P (primeiros xs) = primeiros (filter P xs)"
proof (induction xs)
  case Nil
  show ?case by simp
next
  case (Cons a xs)
  have swap: "filter P (filter (\<lambda>y. y \<noteq> a) (primeiros xs)) =
      filter (\<lambda>y. y \<noteq> a) (primeiros (filter P xs))"
    by (simp add: Cons.IH [symmetric] conj_commute)
  show ?case
  proof (cases "P a")
    case True
    with swap show ?thesis by simp
  next
    case False
    then have "filter (\<lambda>y. y \<noteq> a) (primeiros (filter P xs)) = primeiros (filter P xs)"
      by (auto simp: filter_id_conv)
    with False swap show ?thesis by simp
  qed
qed

lemma primeiros_snoc:
  "primeiros (xs @ [x]) = (if x \<in> set xs then primeiros xs else primeiros xs @ [x])"
proof (induction xs)
  case Nil
  show ?case by simp
next
  case (Cons y ys)
  then show ?case by auto
qed

lemma primeiros_append:
  "primeiros (xs @ ys) = primeiros xs @ filter (\<lambda>y. y \<notin> set xs) (primeiros ys)"
proof (induction xs)
  case Nil
  show ?case by simp
next
  case (Cons x xs)
  then show ?case by (simp add: conj_commute)
qed

lemma length_primeiros_card: "length (primeiros xs) = card (set xs)"
  by (metis distinct_card distinct_primeiros set_primeiros)

section \<open>Permutations\<close>

lemma length_filter_mset:
  assumes "mset xs = mset ys"
  shows "length (filter P xs) = length (filter P ys)"
proof -
  from assms have "mset (filter P xs) = mset (filter P ys)" by simp
  then show ?thesis by (rule mset_eq_length)
qed

lemma mset_primeiros: "mset (primeiros xs) = mset_set (set xs)"
  by (simp add: mset_set_set [symmetric])

text \<open>A stable sort leaves a list whose keys are all equal as it is.\<close>

lemma sort_key_chaves_iguais:
  assumes "\<And>x. x \<in> set xs \<Longrightarrow> f x = c"
  shows "sort_key f xs = xs"
proof -
  from assms have "map f xs = replicate (length xs) c"
    by (simp add: map_replicate_const [symmetric] cong: map_cong)
  then have "sorted (map f xs)" by (simp add: sorted_replicate)
  then show ?thesis by (rule sort_key_id_if_sorted)
qed

end
