(* ===== verification/Texto.thy ===== *)
theory Texto
  imports Medalhas_Prelude
begin

text \<open>
  The operations on text of the source language that \<^verbatim>\<open>src/medalhas.py\<close> calls, as
  functions on strings. A character of the model is a code point below 256, which
  covers every literal of the program. \<open>readlines\<close> cuts a text after every line feed
  and keeps the line feed in the line, as \<^verbatim>\<open>f.readlines()\<close> does on a file opened in
  text mode; \<open>split\<close> is \<^verbatim>\<open>str.split\<close> with a one-character separator; \<open>str_int\<close> is
  the decimal text of an integer, as formatting writes it; \<open>ljust\<close> is the format
  \<^verbatim>\<open><n\<close>: the text followed by spaces up to the width, never cut. \<open>junta\<close> and
  \<open>int_str\<close> are the inverses the round trips are stated with.
\<close>

section \<open>Definitions\<close>

abbreviation LF :: char where
  "LF \<equiv> CHR 0x0A"

fun readlines :: "string \<Rightarrow> string list" where
  "readlines [] = []"
| "readlines (c # cs) =
     (if c = LF then [c] # readlines cs
      else (case readlines cs of [] \<Rightarrow> [[c]] | l # ls \<Rightarrow> (c # l) # ls))"

fun split :: "char \<Rightarrow> string \<Rightarrow> string list" where
  "split sep [] = [[]]"
| "split sep (c # cs) =
     (if c = sep then [] # split sep cs
      else (case split sep cs of [] \<Rightarrow> [[c]] | w # ws \<Rightarrow> (c # w) # ws))"

fun digitos :: "nat \<Rightarrow> string" where
  "digitos n =
     (if n < 10 then [char_of (48 + n)] else digitos (n div 10) @ [char_of (48 + n mod 10)])"

declare digitos.simps [simp del]

definition str_int :: "int \<Rightarrow> string" where
  "str_int i = (if i < 0 then CHR ''-'' # digitos (nat (- i)) else digitos (nat i))"

definition ljust :: "nat \<Rightarrow> string \<Rightarrow> string" where
  "ljust n s = s @ replicate (n - length s) CHR '' ''"

text \<open>
  What a sequence of calls of \<^verbatim>\<open>print\<close> writes to the standard output: each call writes
  its argument and a line feed.
\<close>

definition escreve :: "string list \<Rightarrow> string" where
  "escreve linhas = concat (map (\<lambda>l. l @ [LF]) linhas)"

text \<open>The inverses.\<close>

fun junta :: "char \<Rightarrow> string list \<Rightarrow> string" where
  "junta sep [] = []"
| "junta sep [w] = w"
| "junta sep (w # v # ws) = w @ sep # junta sep (v # ws)"

definition valor_digitos :: "string \<Rightarrow> nat" where
  "valor_digitos s = foldl (\<lambda>acc c. 10 * acc + (of_char c - 48)) 0 s"

definition int_str :: "string \<Rightarrow> int" where
  "int_str s =
     (case s of
        [] \<Rightarrow> 0
      | c # cs \<Rightarrow> if c = CHR ''-'' then - int (valor_digitos cs) else int (valor_digitos s))"

lemmas texto_defs [medalhas_defs] = str_int_def ljust_def

section \<open>Lines of a text\<close>

lemma concat_readlines [simp]: "concat (readlines s) = s"
  by (induction s) (auto split: list.splits)

lemma readlines_eq_Nil [simp]: "readlines s = [] \<longleftrightarrow> s = []"
  by (cases s) (auto split: list.splits)

lemma readlines_nonempty: "l \<in> set (readlines s) \<Longrightarrow> l \<noteq> []"
  by (induction s arbitrary: l) (auto split: list.splits if_splits)

lemma readlines_newline_last:
  "l \<in> set (readlines s) \<Longrightarrow> LF \<notin> set (butlast l)"
proof (induction s arbitrary: l)
  case Nil
  then show ?case by simp
next
  case (Cons c cs)
  show ?case
  proof (cases "c = LF")
    case True
    with Cons show ?thesis by auto
  next
    case False
    show ?thesis
    proof (cases "readlines cs")
      case Nil
      with False Cons.prems show ?thesis by auto
    next
      case (Cons l' ls)
      then have "l' \<noteq> []" using readlines_nonempty [of l' cs] by simp
      with False Cons Cons.prems Cons.IH [of l'] Cons.IH [of l] show ?thesis by auto
    qed
  qed
qed

lemma readlines_butlast_terminated:
  "l \<in> set (butlast (readlines s)) \<Longrightarrow> last l = LF"
proof (induction s arbitrary: l)
  case Nil
  then show ?case by simp
next
  case (Cons c cs)
  show ?case
  proof (cases "c = LF")
    case True
    with Cons show ?thesis by (auto split: if_splits)
  next
    case False
    show ?thesis
    proof (cases "readlines cs")
      case Nil
      with False Cons.prems show ?thesis by auto
    next
      case (Cons l' ls)
      then have "l' \<noteq> []" using readlines_nonempty [of l' cs] by simp
      with False Cons Cons.prems Cons.IH [of l'] Cons.IH [of l] show ?thesis
        by (auto split: if_splits)
    qed
  qed
qed

lemma readlines_last_line:
  assumes "s \<noteq> []"
  shows "last (last (readlines s)) = last s"
proof -
  from assms have ne: "readlines s \<noteq> []" by simp
  then have "last (readlines s) \<in> set (readlines s)" by simp
  then have l: "last (readlines s) \<noteq> []" by (rule readlines_nonempty)
  have "s = concat (butlast (readlines s)) @ last (readlines s)"
    using ne concat_readlines [of s]
    by (metis append_butlast_last_id concat.simps(1) concat.simps(2) concat_append append_Nil2)
  then have "last s = last (concat (butlast (readlines s)) @ last (readlines s))" by simp
  with l show ?thesis by simp
qed

lemma readlines_terminated:
  assumes "s \<noteq> []" and "last s = LF" and "l \<in> set (readlines s)"
  shows "last l = LF"
proof -
  from assms(1) have ne: "readlines s \<noteq> []" by simp
  then have "set (readlines s) = set (butlast (readlines s)) \<union> {last (readlines s)}"
    by (metis append_butlast_last_id set_append list.simps(15) empty_set)
  with assms(3) consider "l \<in> set (butlast (readlines s))" | "l = last (readlines s)" by auto
  then show ?thesis
  proof cases
    case 1
    then show ?thesis by (rule readlines_butlast_terminated)
  next
    case 2
    with assms(1,2) show ?thesis by (simp add: readlines_last_line)
  qed
qed

lemma length_readlines:
  "length (readlines s) =
     length (filter (\<lambda>c. c = LF) s) + (if s \<noteq> [] \<and> last s \<noteq> LF then 1 else 0)"
proof (induction s)
  case Nil
  show ?case by simp
next
  case (Cons c cs)
  then show ?case by (cases "readlines cs") (auto split: if_splits)
qed

section \<open>Fields of a line\<close>

lemma split_nonempty [simp]: "split sep s \<noteq> []"
  by (induction s) (auto split: list.splits)

lemma junta_Cons:
  "ws \<noteq> [] \<Longrightarrow> junta sep (w # ws) = w @ sep # junta sep ws"
  by (cases ws) simp_all

lemma junta_Cons_char:
  "ws \<noteq> [] \<Longrightarrow> junta sep ((c # hd ws) # tl ws) = c # junta sep ws"
  by (cases ws; cases "tl ws") auto

lemma junta_split [simp]: "junta sep (split sep s) = s"
proof (induction s)
  case Nil
  show ?case by simp
next
  case (Cons c cs)
  show ?case
  proof (cases "c = sep")
    case True
    with Cons show ?thesis by (simp add: junta_Cons)
  next
    case False
    obtain w ws where ws: "split sep cs = w # ws"
      by (cases "split sep cs") auto
    with False Cons junta_Cons_char [of "split sep cs" sep c] show ?thesis by simp
  qed
qed

lemma split_sem_separador: "w \<in> set (split sep s) \<Longrightarrow> sep \<notin> set w"
  by (induction s arbitrary: w) (auto split: list.splits if_splits)

lemma length_split: "length (split sep s) = Suc (length (filter (\<lambda>c. c = sep) s))"
  by (induction s) (auto split: list.splits)

lemma split_junta:
  "ws \<noteq> [] \<Longrightarrow> \<forall>w \<in> set ws. sep \<notin> set w \<Longrightarrow> split sep (junta sep ws) = ws"
proof (induction ws rule: junta.induct)
  case (1 sep)
  then show ?case by simp
next
  case (2 sep w)
  then show ?case by (induction w) (auto split: list.splits)
next
  case (3 sep w v ws)
  then have rest: "split sep (junta sep (v # ws)) = v # ws" by simp
  from 3 have "sep \<notin> set w" by simp
  then show ?case using rest by (induction w) (auto split: list.splits)
qed

lemma split_Cons:
  "split sep (c # cs) =
     (if c = sep then [] # split sep cs else (c # hd (split sep cs)) # tl (split sep cs))"
  by (cases "split sep cs") auto

lemma split_snoc:
  "split sep (s @ [c]) =
     (if c = sep then split sep s @ [[]]
      else butlast (split sep s) @ [last (split sep s) @ [c]])"
proof (induction s)
  case Nil
  show ?case by simp
next
  case (Cons a s)
  obtain w ws where ws: "split sep s = w # ws"
    by (cases "split sep s") auto
  show ?case
  proof (cases "c = sep")
    case True
    with Cons ws show ?thesis by (simp add: split_Cons del: split.simps)
  next
    case False
    with Cons ws show ?thesis
      by (cases ws) (simp_all add: split_Cons del: split.simps)
  qed
qed

lemma last_split:
  "last (split sep (s @ [c])) = (if c = sep then [] else last (split sep s) @ [c])"
  by (simp add: split_snoc)

lemma split_sem_sep [simp]: "sep \<notin> set w \<Longrightarrow> split sep w = [w]"
  by (induction w) auto

lemma split_append_sep:
  "sep \<notin> set w \<Longrightarrow> split sep (w @ sep # s) = w # split sep s"
  by (induction w) auto

lemma split_replicate_sep:
  "split sep (replicate k sep @ s) = replicate k [] @ split sep s"
  by (induction k) auto

section \<open>Decimal text\<close>

lemma valor_digitos_snoc:
  "valor_digitos (s @ [c]) = 10 * valor_digitos s + (of_char c - 48)"
  by (simp add: valor_digitos_def)

lemma valor_digitos_digitos [simp]: "valor_digitos (digitos n) = n"
proof (induction n rule: digitos.induct)
  case (1 n)
  show ?case
  proof (cases "n < 10")
    case True
    then show ?thesis by (simp add: digitos.simps [of n] valor_digitos_def)
  next
    case False
    with 1 have "valor_digitos (digitos (n div 10)) = n div 10" by simp
    with False show ?thesis
      by (simp add: digitos.simps [of n] valor_digitos_snoc)
  qed
qed

lemma digitos_nonempty [simp]: "digitos n \<noteq> []"
  by (subst digitos.simps) simp

lemma digitos_algarismos:
  "c \<in> set (digitos n) \<Longrightarrow> c \<in> char_of ` {48 ..< 58::nat}"
proof (induction n rule: digitos.induct)
  case (1 n)
  show ?case
  proof (cases "n < 10")
    case True
    with "1.prems" show ?thesis by (auto simp: digitos.simps [of n])
  next
    case False
    have "n mod 10 < 10" by simp
    then have "48 + n mod 10 \<in> {48 ..< 58}" by auto
    with False 1 show ?thesis by (auto simp: digitos.simps [of n])
  qed
qed

lemma digitos_sem_sinal: "CHR ''-'' \<notin> set (digitos n)"
proof
  assume "CHR ''-'' \<in> set (digitos n)"
  then obtain k :: nat where "48 \<le> k" "k < 58" "CHR ''-'' = char_of k"
    by (auto dest!: digitos_algarismos)
  then have "of_char (CHR ''-'') = (of_char (char_of k :: char) :: nat)" by simp
  with \<open>48 \<le> k\<close> \<open>k < 58\<close> show False by simp
qed

lemma int_str_str_int [simp]: "int_str (str_int i) = i"
proof (cases "i < 0")
  case True
  then show ?thesis by (simp add: int_str_def str_int_def)
next
  case False
  obtain c cs where d: "digitos (nat i) = c # cs"
    by (cases "digitos (nat i)") auto
  with digitos_sem_sinal [of "nat i"] have "c \<noteq> CHR ''-''" by auto
  with False d valor_digitos_digitos [of "nat i"] show ?thesis
    by (simp add: int_str_def str_int_def)
qed

lemma str_int_inj: "str_int i = str_int j \<longleftrightarrow> i = j"
  by (metis int_str_str_int)

lemma str_int_nonempty [simp]: "str_int i \<noteq> []"
  by (simp add: str_int_def)

lemma length_digitos_le: "0 < k \<Longrightarrow> length (digitos n) \<le> k \<longleftrightarrow> n < 10 ^ k"
proof (induction n arbitrary: k rule: digitos.induct)
  case (1 n)
  show ?case
  proof (cases "n < 10")
    case True
    have "(10::nat) ^ 1 \<le> 10 ^ k" using 1(2) by (intro power_increasing) simp_all
    with True have "n < 10 ^ k" by simp
    with True 1(2) show ?thesis by (simp add: digitos.simps [of n] Suc_le_eq)
  next
    case False
    show ?thesis
    proof (cases k)
      case 0
      with 1(2) show ?thesis by simp
    next
      case (Suc m)
      show ?thesis
      proof (cases m)
        case 0
        with False Suc show ?thesis by (simp add: digitos.simps [of n])
      next
        case (Suc m')
        then have "length (digitos (n div 10)) \<le> m \<longleftrightarrow> n div 10 < 10 ^ m"
          using 1(1) [OF False, of m] by simp
        moreover have "n div 10 < 10 ^ m \<longleftrightarrow> n < 10 ^ Suc m"
          by (simp add: div_less_iff_less_mult mult.commute)
        ultimately show ?thesis using False \<open>k = Suc m\<close>
          by (simp add: digitos.simps [of n])
      qed
    qed
  qed
qed

section \<open>Padding\<close>

lemma length_ljust [simp]: "length (ljust n s) = max n (length s)"
  by (simp add: ljust_def)

lemma ljust_prefix: "prefix s (ljust n s)"
  by (simp add: ljust_def)

lemma ljust_id: "n \<le> length s \<Longrightarrow> ljust n s = s"
  by (simp add: ljust_def)

lemma ljust_pad: "set (drop (length s) (ljust n s)) \<subseteq> {CHR '' ''}"
  by (auto simp: ljust_def)

section \<open>Evaluation on closed inputs\<close>

lemma char_of_algarismo: "n < 10 \<Longrightarrow> char_of (48 + n) = ''0123456789'' ! n"
proof -
  have "\<forall>n \<in> set [0..<10]. (char_of (48 + n) :: char) = ''0123456789'' ! n"
    by code_simp
  then show "n < 10 \<Longrightarrow> char_of (48 + n) = ''0123456789'' ! n"
    by simp
qed

lemma digitos_menor: "n < 10 \<Longrightarrow> digitos n = [''0123456789'' ! n]"
  by (simp add: digitos.simps [of n] char_of_algarismo)

lemma digitos_maior:
  "10 \<le> n \<Longrightarrow> digitos n = digitos (n div 10) @ [''0123456789'' ! (n mod 10)]"
  by (simp add: digitos.simps [of n] char_of_algarismo)

lemma replicate_numeral: "replicate (numeral k) x = x # replicate (pred_numeral k) x"
  by (simp add: numeral_eq_Suc)

lemmas texto_eval [medalhas_defs] = digitos_menor digitos_maior replicate_numeral

section \<open>Printed lines\<close>

lemma readlines_linha:
  "LF \<notin> set l \<Longrightarrow> readlines (l @ LF # s) = (l @ [LF]) # readlines s"
  by (induction l) auto

lemma readlines_escreve:
  "list_all (\<lambda>l. LF \<notin> set l) linhas \<Longrightarrow> readlines (escreve linhas) = map (\<lambda>l. l @ [LF]) linhas"
  by (induction linhas) (simp_all add: escreve_def readlines_linha)

lemma escreve_append [simp]: "escreve (xs @ ys) = escreve xs @ escreve ys"
  by (simp add: escreve_def)

lemma sem_LF_ljust [simp]: "LF \<in> set (ljust n s) \<longleftrightarrow> LF \<in> set s"
  by (auto simp: ljust_def)

lemma sem_LF_str_int [simp]: "LF \<notin> set (str_int i)"
proof -
  have "LF \<notin> set (digitos n)" for n
  proof
    assume "LF \<in> set (digitos n)"
    then have "LF \<in> char_of ` {48 ..< 58::nat}" by (rule digitos_algarismos)
    then obtain k :: nat where "48 \<le> k" "k < 58" "LF = char_of k" by auto
    then have "of_char LF = (of_char (char_of k :: char) :: nat)" by simp
    with \<open>48 \<le> k\<close> \<open>k < 58\<close> show False by simp
  qed
  then show ?thesis by (simp add: str_int_def)
qed

section \<open>Fields that are not the last\<close>

lemma split_campos_internos:
  "w \<in> set (butlast (split sep l)) \<Longrightarrow> set w \<subseteq> set (butlast l)"
proof (induction l arbitrary: w)
  case Nil
  then show ?case by simp
next
  case (Cons c cs)
  have ne: "cs \<noteq> []" if "butlast (split sep cs) \<noteq> []"
    using that by (cases cs) auto
  show ?case
  proof (cases "c = sep")
    case True
    with Cons.prems have "w = [] \<or> w \<in> set (butlast (split sep cs))" by simp
    then show ?thesis
    proof
      assume "w = []" then show ?thesis by simp
    next
      assume w: "w \<in> set (butlast (split sep cs))"
      then have "cs \<noteq> []" using ne by auto
      with Cons.IH [OF w] show ?thesis by auto
    qed
  next
    case False
    obtain w0 ws where s: "split sep cs = w0 # ws"
      by (cases "split sep cs") simp_all
    show ?thesis
    proof (cases "ws = []")
      case True
      with False s Cons.prems show ?thesis by simp
    next
      case ws: False
      with s have w0: "w0 \<in> set (butlast (split sep cs))" by simp
      then have cs: "cs \<noteq> []" using ne by auto
      from ws False s Cons.prems have "w = c # w0 \<or> w \<in> set (butlast ws)" by simp
      then show ?thesis
      proof
        assume "w = c # w0"
        with Cons.IH [OF w0] cs show ?thesis by auto
      next
        assume "w \<in> set (butlast ws)"
        then have "w \<in> set (butlast (split sep cs))" using s ws by simp
        from Cons.IH [OF this] cs show ?thesis by auto
      qed
    qed
  qed
qed

text \<open>The fields of a line hold characters of the line only, and the last line of a
  text that does not end with a line feed holds none.\<close>

lemma split_campos: "w \<in> set (split sep l) \<Longrightarrow> set w \<subseteq> set l"
proof (induction l arbitrary: w)
  case Nil
  then show ?case by simp
next
  case (Cons c cs)
  obtain x xs where x: "split sep cs = x # xs"
    by (cases "split sep cs") auto
  with Cons.IH [of x] Cons.IH [of w] Cons.prems show ?case
    by (auto split: if_splits)
qed

lemma readlines_ultima_sem_LF:
  assumes "s \<noteq> []" and "last s \<noteq> LF"
  shows "LF \<notin> set (last (readlines s))"
proof -
  let ?l = "last (readlines s)"
  from assms(1) have m: "?l \<in> set (readlines s)" by simp
  then have ne: "?l \<noteq> []" by (rule readlines_nonempty)
  from m have "LF \<notin> set (butlast ?l)" by (rule readlines_newline_last)
  moreover have "last ?l \<noteq> LF" using assms by (simp add: readlines_last_line)
  moreover from ne have "set ?l = insert (last ?l) (set (butlast ?l))"
    by (cases ?l rule: rev_cases) simp_all
  ultimately show ?thesis by simp
qed

end
