(* ===== verification/Leitor.thy ===== *)
theory Leitor
  imports Texto
begin

text \<open>
  The record reader, \<^verbatim>\<open>le_arquivo\<close> of \<^verbatim>\<open>src/medalhas.py\<close>. The file system is a
  parameter of the model: a function from a file name to the text of the file, after
  the translation of line ends that the text mode of the source language does, or to
  the error number and message of the \<^verbatim>\<open>IOError\<close> that opening or reading raises.
  \<open>le_linhas\<close> is the loop over \<^verbatim>\<open>range(1, len(linhas))\<close>, which skips the header
  and splits every other line on commas; \<open>erro_leitura\<close> is the message of the
  handler; \<open>le_arquivo\<close> returns what was printed together with the table or, after
  an \<^verbatim>\<open>IOError\<close>, the exit with status 1. The error number is an integer and the
  message a string, as they are when a system call fails, which is how opening and
  reading raise; a text that cannot be decoded raises another exception, which the
  handler does not catch, and is not a value of the file system here.
\<close>

section \<open>Definitions\<close>

type_synonym arquivos = "string \<Rightarrow> (int \<times> string) + string"

definition le_linhas :: "string list \<Rightarrow> string list list" where
  "le_linhas linhas = map (\<lambda>i. split CHR '','' (linhas ! i)) [1..<length linhas]"

definition erro_leitura :: "string \<Rightarrow> int \<Rightarrow> string \<Rightarrow> string" where
  "erro_leitura nome errno strerror =
     ''Erro na leitura do arquivo '' @ [CHR 0x22] @ nome @ [CHR 0x22] @ '': '' @
     str_int errno @ '' - '' @ strerror @ ''.''"

definition le_arquivo :: "arquivos \<Rightarrow> string \<Rightarrow> string list \<times> string list list resultado" where
  "le_arquivo fs nome =
     (case fs nome of
        Inr texto \<Rightarrow> ([], Inr (le_linhas (readlines texto)))
      | Inl (errno, strerror) \<Rightarrow> ([erro_leitura nome errno strerror], Inl (SystemExit 1)))"

lemmas leitor_defs [medalhas_defs] = le_arquivo_def le_linhas_def erro_leitura_def

section \<open>The loop over the lines\<close>

lemma le_linhas_tl: "le_linhas linhas = map (split CHR '','') (tl linhas)"
proof (cases linhas)
  case Nil
  then show ?thesis by (simp add: le_linhas_def)
next
  case (Cons l ls)
  have "map (\<lambda>i. split CHR '','' ((l # ls) ! i)) [1..<length (l # ls)] =
      map (\<lambda>i. split CHR '','' (ls ! i)) [0..<length ls]"
    by (simp add: map_Suc_upt [symmetric] del: upt_Suc)
  also have "\<dots> = map (split CHR '','') (map (nth ls) [0..<length ls])"
    by simp
  also have "\<dots> = map (split CHR '','') ls"
    by (simp only: map_nth)
  finally show ?thesis by (simp add: le_linhas_def Cons)
qed

lemma length_le_linhas [simp]: "length (le_linhas linhas) = length linhas - 1"
  by (simp add: le_linhas_def)

lemma le_linhas_campos: "linha \<in> set (le_linhas linhas) \<Longrightarrow> linha \<noteq> [] \<and> (\<forall>c \<in> set linha. CHR '','' \<notin> set c)"
  by (auto simp: le_linhas_tl dest: split_sem_separador)

lemma junta_le_linhas:
  "map (junta CHR '','') (le_linhas linhas) = tl linhas"
  by (simp add: le_linhas_tl comp_def)

section \<open>The function\<close>

lemma le_arquivo_Inr:
  "fs nome = Inr texto \<Longrightarrow> le_arquivo fs nome = ([], Inr (map (split CHR '','') (tl (readlines texto))))"
  by (simp add: le_arquivo_def le_linhas_tl)

lemma le_arquivo_Inl:
  "fs nome = Inl (errno, strerror) \<Longrightarrow>
   le_arquivo fs nome = ([erro_leitura nome errno strerror], Inl (SystemExit 1))"
  by (simp add: le_arquivo_def)

lemma ultimo_campo_com_fim_de_linha:
  assumes "l \<noteq> []" and "last l = LF"
  shows "last (split CHR '','' l) \<noteq> [] \<and> last (last (split CHR '','' l)) = LF"
proof -
  from assms obtain s where "l = s @ [LF]"
    by (metis append_butlast_last_id)
  then show ?thesis by (simp add: last_split)
qed

lemma le_linhas_sem_LF:
  assumes "linha \<in> set (le_linhas (readlines texto))" and "Suc k < length linha"
  shows "LF \<notin> set (linha ! k)"
proof -
  from assms(1) obtain l where l: "l \<in> set (tl (readlines texto))" and
    linha: "linha = split CHR '','' l"
    by (auto simp: le_linhas_tl)
  from l have "l \<in> set (readlines texto)"
    by (cases "readlines texto") simp_all
  then have n: "LF \<notin> set (butlast l)" by (rule readlines_newline_last)
  from assms(2) have "linha ! k \<in> set (butlast linha)"
    using nth_mem [of k "butlast linha"] by (simp add: nth_butlast)
  then have "set (linha ! k) \<subseteq> set (butlast l)"
    unfolding linha by (rule split_campos_internos)
  with n show ?thesis by auto
qed

text \<open>
  The last field of the rows when the text does not end with a line feed: the last
  field of the last row holds no line feed, and the last field of every row before it
  ends with one.
\<close>

lemma le_linhas_ultima:
  assumes "texto \<noteq> []" and "last texto \<noteq> LF"
    and "tabela = map (split CHR '','') (tl (readlines texto))" and "tabela \<noteq> []"
  shows "LF \<notin> set (last (last tabela))"
proof -
  from assms(3,4) have "last tabela = split CHR '','' (last (readlines texto))"
    by (simp add: last_map last_tl)
  moreover have "last (split CHR '','' l) \<in> set (split CHR '','' l)" for l by simp
  then have "set (last (split CHR '','' l)) \<subseteq> set l" for l by (rule split_campos)
  ultimately have "set (last (last tabela)) \<subseteq> set (last (readlines texto))"
    by simp
  with readlines_ultima_sem_LF [OF assms(1,2)] show ?thesis by auto
qed

lemma le_linhas_anteriores:
  assumes "tabela = map (split CHR '','') (tl (readlines texto))" and "item \<in> set (butlast tabela)"
  shows "last item \<noteq> [] \<and> last (last item) = LF"
proof -
  from assms obtain l where l: "l \<in> set (butlast (tl (readlines texto)))"
    and item: "item = split CHR '','' l"
    by (auto simp: map_butlast [symmetric])
  from l have "l \<in> set (butlast (readlines texto))"
    by (cases "readlines texto") (auto split: if_splits)
  then have "last l = LF" and "l \<noteq> []"
    by (auto dest: readlines_butlast_terminated in_set_butlastD readlines_nonempty)
  then show ?thesis unfolding item by (intro ultimo_campo_com_fim_de_linha)
qed

section \<open>Properties of the reader\<close>

text \<open>
  C10. Reading is the inverse of writing the rows back: when the file can be read,
  \<^verbatim>\<open>le_arquivo\<close> prints nothing and returns one row for every line after the first,
  joining the fields of a row with commas gives that line again, character by
  character, and no field holds a comma.
\<close>

theorem le_arquivo_reconstroi:
  assumes "fs nome = Inr texto"
  shows "\<exists>tabela. le_arquivo fs nome = ([], Inr tabela) \<and>
     map (junta CHR '','') tabela = tl (readlines texto) \<and>
     length tabela = length (readlines texto) - 1 \<and>
     (\<forall>linha \<in> set tabela. linha \<noteq> [] \<and> (\<forall>c \<in> set linha. CHR '','' \<notin> set c))"
proof -
  have "le_arquivo fs nome = ([], Inr (le_linhas (readlines texto)))"
    using assms by (simp add: le_arquivo_def)
  moreover have "\<forall>linha \<in> set (le_linhas (readlines texto)).
      linha \<noteq> [] \<and> (\<forall>c \<in> set linha. CHR '','' \<notin> set c)"
    using le_linhas_campos by blast
  ultimately show ?thesis by (simp add: junta_le_linhas)
qed

theorem le_arquivo_reconstroi_witness:
  "\<exists>tabela. le_arquivo (\<lambda>n. Inr (''a,b'' @ [LF] @ ''1,BRA'' @ [LF] @ ''2,USA'')) ''m.csv'' =
       ([], Inr tabela) \<and>
     map (junta CHR '','') tabela =
       tl (readlines (''a,b'' @ [LF] @ ''1,BRA'' @ [LF] @ ''2,USA'')) \<and>
     length tabela = length (readlines (''a,b'' @ [LF] @ ''1,BRA'' @ [LF] @ ''2,USA'')) - 1 \<and>
     (\<forall>linha \<in> set tabela. linha \<noteq> [] \<and> (\<forall>c \<in> set linha. CHR '','' \<notin> set c))"
  using le_arquivo_reconstroi
    [of "\<lambda>n. Inr (''a,b'' @ [LF] @ ''1,BRA'' @ [LF] @ ''2,USA'')" "''m.csv''"
      "''a,b'' @ [LF] @ ''1,BRA'' @ [LF] @ ''2,USA''"]
  by simp

text \<open>
  C33. The line feed stays in the table: when the text of the file ends with a line
  feed, the last field of every row that \<^verbatim>\<open>le_arquivo\<close> returns ends with a line feed,
  because \<^verbatim>\<open>readlines\<close> keeps the line ends and the rows are not stripped.
\<close>

theorem le_arquivo_fim_de_linha:
  assumes "fs nome = Inr texto" and "texto \<noteq> []" and "last texto = LF"
  shows "\<exists>tabela. le_arquivo fs nome = ([], Inr tabela) \<and>
     (\<forall>linha \<in> set tabela. last linha \<noteq> [] \<and> last (last linha) = LF)"
proof -
  have "last (split CHR '','' l) \<noteq> [] \<and> last (last (split CHR '','' l)) = LF"
    if "l \<in> set (tl (readlines texto))" for l
  proof -
    from that have l: "l \<in> set (readlines texto)" by (cases "readlines texto") simp_all
    then have "l \<noteq> []" by (rule readlines_nonempty)
    moreover from assms(2,3) l have "last l = LF" by (rule readlines_terminated)
    ultimately show ?thesis by (rule ultimo_campo_com_fim_de_linha)
  qed
  with assms(1) show ?thesis by (auto simp: le_arquivo_Inr)
qed

theorem le_arquivo_fim_de_linha_witness:
  "\<exists>tabela. le_arquivo (\<lambda>n. Inr (''a,b'' @ [LF] @ ''1,BRA'' @ [LF])) ''m.csv'' = ([], Inr tabela) \<and>
     (\<forall>linha \<in> set tabela. last linha \<noteq> [] \<and> last (last linha) = LF)"
  using le_arquivo_fim_de_linha
    [of "\<lambda>n. Inr (''a,b'' @ [LF] @ ''1,BRA'' @ [LF])" "''m.csv''" "''a,b'' @ [LF] @ ''1,BRA'' @ [LF]"]
  by simp

text \<open>
  The example of the docstring of \<^verbatim>\<open>le_arquivo\<close>, on the file of three lines
  that it shows: the rows are the ones of the docstring except that the last field
  of each row ends with the line feed of its line, which the docstring does not show.
\<close>

lemma le_arquivo_exemplo_docstring:
  "le_arquivo
     (\<lambda>n. Inr (''tipo,cor,ano'' @ [LF] @ ''carro,verde,2010'' @ [LF] @ ''moto,branca,1995'' @ [LF]))
     ''exemplo.csv'' =
   ([], Inr [[''carro'', ''verde'', ''2010'' @ [LF]], [''moto'', ''branca'', ''1995'' @ [LF]]])"
  by (simp add: le_arquivo_Inr)

end
