(* ===== verification/Modelo.thy ===== *)
theory Modelo
  imports Medalhas_Prelude
begin

text \<open>
  The data model of \<^verbatim>\<open>src/medalhas.py\<close>: the enumeration \<^verbatim>\<open>Medalha\<close> with the
  codes it carries, and the dataclass \<^verbatim>\<open>Pais\<close> as a record with the fields in the
  order of the class. The field \<^verbatim>\<open>generos\<close> defaults to \<^verbatim>\<open>None\<close> in the source, so it
  is an \<open>option\<close> here. \<open>Pais_init\<close> is the constructor call with the defaults of the
  dataclass. The invariants of one accumulator (\<open>pais_ok\<close>) and of a whole table
  (\<open>quadro_ok\<close>) are bool-valued functions; \<open>chave\<close> is the sorting key that the
  ranking compares, and \<open>menor\<close> and \<open>antes\<close> are the comparison of the sorting loop
  and the order the ranking promises.
\<close>

section \<open>Medal codes\<close>

datatype Medalha = BRONZE | PRATA | OURO

fun Medalha_value :: "Medalha \<Rightarrow> string" where
  "Medalha_value BRONZE = ''3''"
| "Medalha_value PRATA = ''2''"
| "Medalha_value OURO = ''1''"

section \<open>Country accumulators\<close>

record Pais =
  nome :: string
  quant_bronze :: int
  quant_prata :: int
  quant_ouro :: int
  quant_total :: int
  generos :: "string list option"

definition Pais_init :: "string \<Rightarrow> string list option \<Rightarrow> Pais" where
  "Pais_init n gs =
     \<lparr>nome = n, quant_bronze = 0, quant_prata = 0, quant_ouro = 0, quant_total = 0,
      generos = gs\<rparr>"

text \<open>
  The constructor called by position and with every field by keyword, as the examples
  of the source do.
\<close>

abbreviation Pais_kw :: "string \<Rightarrow> int \<Rightarrow> int \<Rightarrow> int \<Rightarrow> int \<Rightarrow> string list \<Rightarrow> Pais" where
  "Pais_kw n qb qp qo qt gs \<equiv>
     \<lparr>nome = n, quant_bronze = qb, quant_prata = qp, quant_ouro = qo, quant_total = qt,
      generos = Some gs\<rparr>"

abbreviation Pais_pos :: "string \<Rightarrow> int \<Rightarrow> int \<Rightarrow> int \<Rightarrow> int \<Rightarrow> Pais" where
  "Pais_pos n qb qp qo qt \<equiv>
     \<lparr>nome = n, quant_bronze = qb, quant_prata = qp, quant_ouro = qo, quant_total = qt,
      generos = None\<rparr>"

text \<open>
  Two views of an accumulator that do not depend on the order of the rows: its name
  with the four counters, and the set of its genders.
\<close>

definition contagens :: "Pais \<Rightarrow> string \<times> int \<times> int \<times> int \<times> int" where
  "contagens p = (nome p, quant_bronze p, quant_prata p, quant_ouro p, quant_total p)"

definition conjunto_generos :: "Pais \<Rightarrow> string set" where
  "conjunto_generos p = (case generos p of None \<Rightarrow> {} | Some gs \<Rightarrow> set gs)"

definition reconhecida :: "string \<Rightarrow> bool" where
  "reconhecida medal_code \<longleftrightarrow> medal_code \<in> set (map Medalha_value [BRONZE, PRATA, OURO])"

section \<open>Invariants\<close>

definition total_ok :: "Pais \<Rightarrow> bool" where
  "total_ok p \<longleftrightarrow> quant_total p = quant_bronze p + quant_prata p + quant_ouro p"

definition generos_ok :: "Pais \<Rightarrow> bool" where
  "generos_ok p \<longleftrightarrow> (case generos p of None \<Rightarrow> False | Some gs \<Rightarrow> gs \<noteq> [] \<and> distinct gs)"

definition pais_ok :: "Pais \<Rightarrow> bool" where
  "pais_ok p \<longleftrightarrow>
     total_ok p \<and> generos_ok p \<and> 0 \<le> quant_bronze p \<and> 0 \<le> quant_prata p \<and> 0 \<le> quant_ouro p"

definition quadro_ok :: "Pais list \<Rightarrow> bool" where
  "quadro_ok ps \<longleftrightarrow> list_all pais_ok ps \<and> distinct (map nome ps)"

section \<open>The order of the ranking\<close>

definition menor :: "Pais \<Rightarrow> Pais \<Rightarrow> bool" where
  "menor a b \<longleftrightarrow>
     quant_ouro a < quant_ouro b \<or>
     quant_ouro a = quant_ouro b \<and>
       (quant_prata a < quant_prata b \<or>
        quant_prata a = quant_prata b \<and> quant_bronze a < quant_bronze b)"

definition antes :: "Pais \<Rightarrow> Pais \<Rightarrow> bool" where
  "antes a b \<longleftrightarrow>
     quant_ouro a > quant_ouro b \<or>
     quant_ouro a = quant_ouro b \<and> quant_prata a > quant_prata b \<or>
     quant_ouro a = quant_ouro b \<and> quant_prata a = quant_prata b \<and>
       quant_bronze a \<ge> quant_bronze b"

definition chave :: "Pais \<Rightarrow> int \<times> int \<times> int" where
  "chave p = (- quant_ouro p, - quant_prata p, - quant_bronze p)"

section \<open>Facts about the data model\<close>

lemma Medalha_value_inj: "Medalha_value a = Medalha_value b \<longleftrightarrow> a = b"
  by (cases a; cases b) simp_all

lemma reconhecida_iff:
  "reconhecida mc \<longleftrightarrow> mc = ''3'' \<or> mc = ''2'' \<or> mc = ''1''"
  by (auto simp: reconhecida_def)

lemma reconhecida_Medalha_value [simp]: "reconhecida (Medalha_value m)"
  by (cases m) (simp_all add: reconhecida_def)

lemma Pais_init_sel [simp]:
  "nome (Pais_init n gs) = n"
  "quant_bronze (Pais_init n gs) = 0"
  "quant_prata (Pais_init n gs) = 0"
  "quant_ouro (Pais_init n gs) = 0"
  "quant_total (Pais_init n gs) = 0"
  "generos (Pais_init n gs) = gs"
  by (simp_all add: Pais_init_def)

lemma generos_ok_Some: "generos_ok p \<Longrightarrow> \<exists>gs. generos p = Some gs \<and> gs \<noteq> [] \<and> distinct gs"
  by (auto simp: generos_ok_def split: option.splits)

lemma quadro_ok_Nil [simp]: "quadro_ok []"
  by (simp add: quadro_ok_def)

lemma quadro_ok_member: "quadro_ok ps \<Longrightarrow> p \<in> set ps \<Longrightarrow> pais_ok p"
  by (simp add: quadro_ok_def list_all_iff)

lemma quadro_ok_mset: "mset ps = mset qs \<Longrightarrow> quadro_ok ps = quadro_ok qs"
proof -
  assume eq: "mset ps = mset qs"
  then have "set ps = set qs" by (rule mset_eq_setD)
  moreover from eq have "mset (map nome ps) = mset (map nome qs)" by simp
  then have "distinct (map nome ps) = distinct (map nome qs)"
    by (rule mset_eq_imp_distinct_iff)
  ultimately show ?thesis by (simp add: quadro_ok_def list_all_iff)
qed

text \<open>The three ways of writing the order agree.\<close>

lemma menor_chave: "menor a b \<longleftrightarrow> chave b < chave a"
  by (auto simp: menor_def chave_def)

lemma antes_chave: "antes a b \<longleftrightarrow> chave a \<le> chave b"
  by (auto simp: antes_def chave_def)

lemma antes_not_menor: "antes a b \<longleftrightarrow> \<not> menor a b"
  by (auto simp: antes_chave menor_chave)

lemma chave_eq_iff:
  "chave a = chave b \<longleftrightarrow>
     quant_ouro a = quant_ouro b \<and> quant_prata a = quant_prata b \<and>
     quant_bronze a = quant_bronze b"
  by (auto simp: chave_def)

lemma antes_refl [simp]: "antes a a"
  by (simp add: antes_chave)

lemma antes_trans: "antes a b \<Longrightarrow> antes b c \<Longrightarrow> antes a c"
  by (simp add: antes_chave)

lemma antes_total: "antes a b \<or> antes b a"
  by (auto simp: antes_chave)

lemma menor_irrefl [simp]: "\<not> menor a a"
  by (simp add: menor_chave)

lemma menor_trans: "menor a b \<Longrightarrow> menor b c \<Longrightarrow> menor a c"
  by (simp add: menor_chave)

lemma sorted_wrt_antes_chave: "sorted_wrt antes ps \<longleftrightarrow> sorted (map chave ps)"
  by (simp add: sorted_wrt_map antes_chave [abs_def])

end
