(* ===== verification/Projetor.thy ===== *)
theory Projetor
  imports Modelo
begin

text \<open>
  The field projector, \<^verbatim>\<open>filtro_tabela\<close> of \<^verbatim>\<open>src/medalhas.py\<close>. The source builds,
  for every row, the tuple \<^verbatim>\<open>item[1], item[4], item[5]\<close> and appends it to a new
  table; a row with fewer than six fields raises \<^verbatim>\<open>IndexError\<close> at the first
  subscript that is out of range. \<open>filtro_item\<close> is the body of the loop and
  \<open>filtro_tabela\<close> is the loop. A projected row is kept as the list of its three
  fields, since the aggregator reads it by subscript.
\<close>

section \<open>Definitions\<close>

definition filtro_item :: "string list \<Rightarrow> string list resultado" where
  "filtro_item item =
     (case py_get item 1 of
        Inl e \<Rightarrow> Inl e
      | Inr a \<Rightarrow>
          (case py_get item 4 of
             Inl e \<Rightarrow> Inl e
           | Inr b \<Rightarrow>
               (case py_get item 5 of
                  Inl e \<Rightarrow> Inl e
                | Inr c \<Rightarrow> Inr [a, b, c])))"

text \<open>The projection of a row that is long enough.\<close>

definition projeta :: "string list \<Rightarrow> string list" where
  "projeta item = [item ! 1, item ! 4, item ! 5]"

definition filtro_tabela :: "string list list \<Rightarrow> string list list resultado" where
  "filtro_tabela tabela = map_res filtro_item tabela"

lemmas projetor_defs [medalhas_defs] = filtro_tabela_def projeta_def

section \<open>One row\<close>

lemma filtro_item_eq:
  "filtro_item item =
     (if 6 \<le> length item then Inr (projeta item) else Inl IndexError)"
  by (simp add: filtro_item_def projeta_def)

lemma length_projeta [simp]: "length (projeta item) = 3"
  by (simp add: projeta_def)

lemma filtro_item_ok [simp]:
  "6 \<le> length item \<Longrightarrow> filtro_item item = Inr (projeta item)"
  by (simp add: filtro_item_eq)

lemma filtro_item_curto [simp]:
  "length item < 6 \<Longrightarrow> filtro_item item = Inl IndexError"
  by (simp add: filtro_item_eq)

lemma filtro_item_Inl: "filtro_item item = Inl e \<Longrightarrow> e = IndexError \<and> length item < 6"
  by (simp add: filtro_item_eq split: if_splits)

section \<open>The whole table\<close>

lemma filtro_tabela_Nil [simp]: "filtro_tabela [] = Inr []"
  by (simp add: filtro_tabela_def)

lemma filtro_tabela_Cons:
  "filtro_tabela (item # tabela) =
     (case filtro_item item of
        Inl e \<Rightarrow> Inl e
      | Inr y \<Rightarrow> (case filtro_tabela tabela of Inl e \<Rightarrow> Inl e | Inr ys \<Rightarrow> Inr (y # ys)))"
  unfolding filtro_tabela_def by simp

lemma filtro_tabela_bem_formada:
  "list_all (\<lambda>item. 6 \<le> length item) tabela \<Longrightarrow>
   filtro_tabela tabela = Inr (map projeta tabela)"
  unfolding filtro_tabela_def
  by (rule map_res_all_Inr) (simp add: list_all_iff)

lemma filtro_tabela_Inr_linhas:
  assumes "filtro_tabela tabela = Inr nova"
  shows "list_all (\<lambda>item. 6 \<le> length item) tabela"
proof -
  have "6 \<le> length item" if "item \<in> set tabela" for item
  proof (rule ccontr)
    assume "\<not> 6 \<le> length item"
    then have "filtro_item item = Inl IndexError" by simp
    with that have "\<exists>e. map_res filtro_item tabela = Inl e"
      by (rule map_res_Inl_intro)
    with assms show False by (auto simp: filtro_tabela_def)
  qed
  then show ?thesis by (simp add: list_all_iff)
qed

lemma filtro_tabela_Inl:
  "filtro_tabela tabela = Inl e \<Longrightarrow> e = IndexError"
  unfolding filtro_tabela_def
  by (auto dest!: map_res_Inl filtro_item_Inl)

text \<open>
  The projector in closed form: a table exactly when every row has at least six
  fields, \<open>IndexError\<close> otherwise.
\<close>

lemma filtro_tabela_eq:
  "filtro_tabela tabela =
     (if list_all (\<lambda>item. 6 \<le> length item) tabela
      then Inr (map projeta tabela)
      else Inl IndexError)"
proof (cases "list_all (\<lambda>item. 6 \<le> length item) tabela")
  case True
  then show ?thesis by (simp add: filtro_tabela_bem_formada)
next
  case False
  show ?thesis
  proof (cases "filtro_tabela tabela")
    case (Inl e)
    then have "e = IndexError" by (rule filtro_tabela_Inl)
    with False Inl show ?thesis by simp
  next
    case (Inr nova)
    then have "list_all (\<lambda>item. 6 \<le> length item) tabela"
      by (rule filtro_tabela_Inr_linhas)
    with False show ?thesis by simp
  qed
qed

text \<open>
  Every row of a projected table has exactly three fields, so the aggregator's
  subscripts 0, 1 and 2 are in range on it.
\<close>

lemma filtro_tabela_tres:
  "filtro_tabela tabela = Inr nova \<Longrightarrow> list_all (\<lambda>linha. length linha = 3) nova"
  by (auto simp: filtro_tabela_eq list_all_iff split: if_splits)

lemma filtro_tabela_length:
  "filtro_tabela tabela = Inr nova \<Longrightarrow> length nova = length tabela"
  by (auto simp: filtro_tabela_eq split: if_splits)

text \<open>
  C15. The projector returns a table \<open>nova\<close> exactly when every row of the input has
  at least six fields, and \<open>nova\<close> then holds, row by row and in the order of the
  input, the fields 1, 4 and 5 of the row; it raises exactly when some row is
  shorter, and the exception is \<open>IndexError\<close>.
\<close>

theorem filtro_tabela_correto:
  "(filtro_tabela tabela = Inr nova \<longleftrightarrow>
      list_all (\<lambda>item. 6 \<le> length item) tabela \<and>
      nova = map projeta tabela) \<and>
   (filtro_tabela tabela = Inl e \<longleftrightarrow>
      (\<exists>item \<in> set tabela. length item < 6) \<and> e = IndexError)"
  by (auto simp: filtro_tabela_eq list_all_iff not_le)

theorem filtro_tabela_correto_witness:
  "filtro_tabela [[''a'', ''1'', ''c'', ''d'', ''BRA'', ''M'']] = Inr [[''1'', ''BRA'', ''M'']] \<and>
   filtro_tabela [[''a'', ''1'', ''c'', ''d'', ''BRA'', ''M''], [''x'', ''2'']] = Inl IndexError"
  using filtro_tabela_correto
      [of "[[''a'', ''1'', ''c'', ''d'', ''BRA'', ''M'']]" "[[''1'', ''BRA'', ''M'']]" IndexError]
    filtro_tabela_correto
      [of "[[''a'', ''1'', ''c'', ''d'', ''BRA'', ''M''], [''x'', ''2'']]" "[]" IndexError]
  by (simp add: projeta_def)

text \<open>
  The example in the docstring of \<^verbatim>\<open>filtro_tabela\<close> does not run: its rows have
  three fields, and the function raises \<open>IndexError\<close> on them at the subscript 4.
\<close>

lemma filtro_tabela_exemplo_docstring:
  "filtro_tabela
     [[''1'', ''BRA'', ''M''], [''2'', ''USA'', ''F''], [''3'', ''BRA'', ''M''],
      [''1'', ''FRA'', ''M'']] = Inl IndexError"
  by (simp add: filtro_tabela_eq)

end
