(* ===== verification/Agregador.thy ===== *)
theory Agregador
  imports Modelo
begin

text \<open>
  The aggregator, \<^verbatim>\<open>quadro\<close> of \<^verbatim>\<open>src/medalhas.py\<close>. The source keeps a list of
  \<^verbatim>\<open>Pais\<close> objects; for every row it reads the medal code, the country and the
  gender by subscript, searches the list from the front for the country, updates the
  first object with that name in place and stops, or appends a new object when the
  search found none. The definitions follow the code from the inside out:
  \<open>conta_medalha\<close> is the \<^verbatim>\<open>if/elif\<close> chain over the medal code followed by the
  recomputation of the total, \<open>registra_genero\<close> the update of the gender list,
  \<open>atualiza_pais\<close> the inner \<^verbatim>\<open>for\<close> loop with its \<^verbatim>\<open>break\<close> (the flag it
  returns is \<^verbatim>\<open>pais_encontrado\<close>), \<open>novo_pais\<close> the object built when the flag is
  false, \<open>quadro_linha\<close> the body of the outer loop, \<open>quadro_laco\<close> the outer loop over
  the list it has built so far, and \<open>quadro\<close> the function. The lemmas give the
  invariant of the list (\<open>quadro_ok\<close>) and the closed form of the result: one
  accumulator per country in the order of first appearance, each the summary
  (\<open>resumo\<close>) of the rows of its country.
\<close>

section \<open>Definitions\<close>

definition conta_medalha :: "string \<Rightarrow> Pais \<Rightarrow> Pais" where
  "conta_medalha medal_code item =
     (let item' =
        (if medal_code = Medalha_value BRONZE
           then item\<lparr>quant_bronze := quant_bronze item + 1\<rparr>
         else if medal_code = Medalha_value PRATA
           then item\<lparr>quant_prata := quant_prata item + 1\<rparr>
         else if medal_code = Medalha_value OURO
           then item\<lparr>quant_ouro := quant_ouro item + 1\<rparr>
         else item)
      in item'\<lparr>quant_total := quant_bronze item' + quant_prata item' + quant_ouro item'\<rparr>)"

definition registra_genero :: "string \<Rightarrow> Pais \<Rightarrow> Pais" where
  "registra_genero genero_atleta item =
     (let gs = (case generos item of None \<Rightarrow> [] | Some gs \<Rightarrow> gs)
      in if genero_atleta \<notin> set gs
         then item\<lparr>generos := Some (gs @ [genero_atleta])\<rparr>
         else item\<lparr>generos := Some gs\<rparr>)"

fun atualiza_pais :: "string \<Rightarrow> string \<Rightarrow> string \<Rightarrow> Pais list \<Rightarrow> bool \<times> Pais list" where
  "atualiza_pais medal_code nome_pais genero_atleta [] = (False, [])"
| "atualiza_pais medal_code nome_pais genero_atleta (item # resto) =
     (if nome item = nome_pais
      then (True, registra_genero genero_atleta (conta_medalha medal_code item) # resto)
      else (case atualiza_pais medal_code nome_pais genero_atleta resto of
              (pais_encontrado, resto') \<Rightarrow> (pais_encontrado, item # resto')))"

definition novo_pais :: "string \<Rightarrow> string \<Rightarrow> string \<Rightarrow> Pais" where
  "novo_pais medal_code nome_pais genero_atleta =
     (let novo = Pais_init nome_pais (Some [genero_atleta]);
          novo' =
            (if medal_code = Medalha_value BRONZE then novo\<lparr>quant_bronze := 1\<rparr>
             else if medal_code = Medalha_value PRATA then novo\<lparr>quant_prata := 1\<rparr>
             else if medal_code = Medalha_value OURO then novo\<lparr>quant_ouro := 1\<rparr>
             else novo)
      in novo'\<lparr>quant_total := quant_bronze novo' + quant_prata novo' + quant_ouro novo'\<rparr>)"

definition quadro_linha :: "Pais list \<Rightarrow> string list \<Rightarrow> Pais list resultado" where
  "quadro_linha paises_list linha =
     (case py_get linha 0 of
        Inl e \<Rightarrow> Inl e
      | Inr medal_code \<Rightarrow>
          (case py_get linha 1 of
             Inl e \<Rightarrow> Inl e
           | Inr nome_pais \<Rightarrow>
               (case py_get linha 2 of
                  Inl e \<Rightarrow> Inl e
                | Inr genero_atleta \<Rightarrow>
                    (case atualiza_pais medal_code nome_pais genero_atleta paises_list of
                       (True, paises_list') \<Rightarrow> Inr paises_list'
                     | (False, _) \<Rightarrow>
                         Inr (paises_list @ [novo_pais medal_code nome_pais genero_atleta])))))"

fun quadro_laco :: "Pais list \<Rightarrow> string list list \<Rightarrow> Pais list resultado" where
  "quadro_laco paises_list [] = Inr paises_list"
| "quadro_laco paises_list (linha # tabela) =
     (case quadro_linha paises_list linha of
        Inl e \<Rightarrow> Inl e
      | Inr paises_list' \<Rightarrow> quadro_laco paises_list' tabela)"

definition quadro :: "string list list \<Rightarrow> Pais list resultado" where
  "quadro tabela = quadro_laco [] tabela"

text \<open>
  The three fields of a row that has them (\<open>medalha_de\<close>, \<open>pais_de\<close>,
  \<open>genero_de\<close>: the reads \<^verbatim>\<open>linha[0]\<close>, \<^verbatim>\<open>linha[1]\<close>, \<^verbatim>\<open>linha[2]\<close> where they
  are in range), and what the table should hold for one country: the number of its
  rows with each of the three codes, their sum, and its genders in the order of first
  appearance.
\<close>

definition medalha_de :: "string list \<Rightarrow> string" where
  "medalha_de linha = linha ! 0"

definition pais_de :: "string list \<Rightarrow> string" where
  "pais_de linha = linha ! 1"

definition genero_de :: "string list \<Rightarrow> string" where
  "genero_de linha = linha ! 2"

definition conta :: "string list list \<Rightarrow> string \<Rightarrow> Medalha \<Rightarrow> int" where
  "conta tabela n m =
     int (length (filter (\<lambda>linha. pais_de linha = n \<and> medalha_de linha = Medalha_value m) tabela))"

definition resumo :: "string list list \<Rightarrow> string \<Rightarrow> Pais" where
  "resumo tabela n =
     \<lparr>nome = n,
      quant_bronze = conta tabela n BRONZE,
      quant_prata = conta tabela n PRATA,
      quant_ouro = conta tabela n OURO,
      quant_total = conta tabela n BRONZE + conta tabela n PRATA + conta tabela n OURO,
      generos = Some (primeiros (map genero_de (filter (\<lambda>linha. pais_de linha = n) tabela)))\<rparr>"

definition quadro_spec :: "string list list \<Rightarrow> Pais list" where
  "quadro_spec tabela = map (resumo tabela) (primeiros (map pais_de tabela))"

lemmas agregador_defs [medalhas_defs] =
  quadro_def quadro_linha_def novo_pais_def registra_genero_def conta_medalha_def Pais_init_def
  quadro_spec_def resumo_def conta_def medalha_de_def pais_de_def genero_de_def

section \<open>One accumulator\<close>

lemma conta_medalha_sel [simp]:
  "nome (conta_medalha mc p) = nome p"
  "generos (conta_medalha mc p) = generos p"
  "quant_bronze (conta_medalha mc p) = quant_bronze p + (if mc = Medalha_value BRONZE then 1 else 0)"
  "quant_prata (conta_medalha mc p) = quant_prata p + (if mc = Medalha_value PRATA then 1 else 0)"
  "quant_ouro (conta_medalha mc p) = quant_ouro p + (if mc = Medalha_value OURO then 1 else 0)"
  "quant_total (conta_medalha mc p) =
     quant_bronze (conta_medalha mc p) + quant_prata (conta_medalha mc p) +
     quant_ouro (conta_medalha mc p)"
  by (auto simp: conta_medalha_def Let_def)

lemma registra_genero_sel [simp]:
  "nome (registra_genero g p) = nome p"
  "quant_bronze (registra_genero g p) = quant_bronze p"
  "quant_prata (registra_genero g p) = quant_prata p"
  "quant_ouro (registra_genero g p) = quant_ouro p"
  "quant_total (registra_genero g p) = quant_total p"
  by (simp_all add: registra_genero_def Let_def)

lemma registra_genero_generos:
  "generos (registra_genero g p) =
     Some (case generos p of
             None \<Rightarrow> [g]
           | Some gs \<Rightarrow> if g \<in> set gs then gs else gs @ [g])"
  by (simp add: registra_genero_def Let_def split: option.splits)

lemma novo_pais_atualiza:
  "novo_pais mc n g = registra_genero g (conta_medalha mc (Pais_init n (Some [])))"
  by (simp add: novo_pais_def registra_genero_def conta_medalha_def Pais_init_def Let_def)

lemma novo_pais_sel [simp]:
  "nome (novo_pais mc n g) = n"
  "generos (novo_pais mc n g) = Some [g]"
  by (simp_all add: novo_pais_atualiza registra_genero_generos)

lemma total_ok_conta_medalha [simp]: "total_ok (conta_medalha mc p)"
  by (simp add: total_ok_def)

lemma pais_ok_conta_medalha: "pais_ok p \<Longrightarrow> pais_ok (conta_medalha mc p)"
  by (simp add: pais_ok_def generos_ok_def total_ok_def)

lemma generos_ok_registra_genero:
  "generos p = None \<or> generos_ok p \<Longrightarrow> generos_ok (registra_genero g p)"
  by (auto simp: generos_ok_def registra_genero_generos split: option.splits)

lemma pais_ok_registra_genero: "pais_ok p \<Longrightarrow> pais_ok (registra_genero g p)"
  by (simp add: pais_ok_def generos_ok_registra_genero total_ok_def)

lemma pais_ok_novo_pais: "pais_ok (novo_pais mc n g)"
  by (simp add: pais_ok_def generos_ok_def total_ok_def novo_pais_atualiza
      registra_genero_generos)

section \<open>The search loop\<close>

lemma atualiza_pais_fst:
  "fst (atualiza_pais mc n g ps) \<longleftrightarrow> n \<in> nome ` set ps"
  by (induction ps) (auto split: prod.splits)

lemma atualiza_pais_ausente:
  "n \<notin> nome ` set ps \<Longrightarrow> atualiza_pais mc n g ps = (False, ps)"
  by (induction ps) auto

lemma atualiza_pais_presente:
  "atualiza_pais mc n g (pre @ item # resto) =
     (if n \<in> nome ` set pre
      then (True, snd (atualiza_pais mc n g pre) @ item # resto)
      else if nome item = n
      then (True, pre @ registra_genero g (conta_medalha mc item) # resto)
      else (fst (atualiza_pais mc n g resto), pre @ item # snd (atualiza_pais mc n g resto)))"
  by (induction pre) (auto split: prod.splits simp: atualiza_pais_fst [symmetric])

lemma map_if_nome_ausente:
  "n \<notin> nome ` set ps \<Longrightarrow> map (\<lambda>p. if nome p = n then f p else p) ps = ps"
  by (induction ps) auto

lemma atualiza_pais_distinct:
  "distinct (map nome ps) \<Longrightarrow>
   atualiza_pais mc n g ps =
     (n \<in> nome ` set ps,
      map (\<lambda>p. if nome p = n then registra_genero g (conta_medalha mc p) else p) ps)"
proof (induction ps)
  case Nil
  show ?case by simp
next
  case (Cons item resto)
  then show ?case by (auto simp: map_if_nome_ausente)
qed

lemma atualiza_pais_nomes [simp]:
  "map nome (snd (atualiza_pais mc n g ps)) = map nome ps"
  by (induction ps) (auto split: prod.splits)

lemma atualiza_pais_length [simp]:
  "length (snd (atualiza_pais mc n g ps)) = length ps"
  by (metis atualiza_pais_nomes length_map)

lemma atualiza_pais_ok:
  "list_all pais_ok ps \<Longrightarrow> list_all pais_ok (snd (atualiza_pais mc n g ps))"
  by (induction ps)
     (auto split: prod.splits simp: pais_ok_registra_genero pais_ok_conta_medalha)

lemma quadro_ok_atualiza_pais [medalhas_inv]:
  "quadro_ok ps \<Longrightarrow> quadro_ok (snd (atualiza_pais mc n g ps))"
  by (simp add: quadro_ok_def atualiza_pais_ok)

section \<open>One row\<close>

lemma quadro_linha_curta [simp]:
  "length linha < 3 \<Longrightarrow> quadro_linha ps linha = Inl IndexError"
  by (cases linha rule: list.exhaust; cases "tl linha")
     (auto simp: quadro_linha_def split: sum.splits)

lemma quadro_linha_eq:
  "3 \<le> length linha \<Longrightarrow>
   quadro_linha ps linha =
     Inr (if pais_de linha \<in> nome ` set ps
          then snd (atualiza_pais (medalha_de linha) (pais_de linha) (genero_de linha) ps)
          else ps @ [novo_pais (medalha_de linha) (pais_de linha) (genero_de linha)])"
  unfolding medalha_de_def pais_de_def genero_de_def
  by (cases "atualiza_pais (linha ! 0) (linha ! 1) (linha ! 2) ps")
     (use atualiza_pais_fst [of "linha ! 0" "linha ! 1" "linha ! 2" ps] in
       \<open>auto simp: quadro_linha_def hd_conv_nth\<close>)

lemma quadro_linha_Inl:
  "quadro_linha ps linha = Inl e \<Longrightarrow> e = IndexError \<and> length linha < 3"
  by (cases "3 \<le> length linha") (auto simp: quadro_linha_eq)

lemma quadro_linha_Inr:
  "quadro_linha ps linha = Inr ps' \<Longrightarrow> 3 \<le> length linha"
  by (cases "3 \<le> length linha") auto

lemma quadro_linha_nomes:
  "quadro_linha ps linha = Inr ps' \<Longrightarrow>
   map nome ps' =
     (if pais_de linha \<in> nome ` set ps then map nome ps else map nome ps @ [pais_de linha])"
  by (cases "3 \<le> length linha") (auto simp: quadro_linha_eq)

lemma quadro_ok_quadro_linha [medalhas_inv]:
  "quadro_ok ps \<Longrightarrow> quadro_linha ps linha = Inr ps' \<Longrightarrow> quadro_ok ps'"
  by (cases "3 \<le> length linha")
     (auto simp: quadro_linha_eq quadro_ok_atualiza_pais split: if_splits,
      auto simp: quadro_ok_def pais_ok_novo_pais)

section \<open>The outer loop\<close>

lemma quadro_laco_append:
  "quadro_laco ps (xs @ ys) =
     (case quadro_laco ps xs of Inl e \<Rightarrow> Inl e | Inr ps' \<Rightarrow> quadro_laco ps' ys)"
  by (induction xs arbitrary: ps) (auto split: sum.splits)

lemma quadro_laco_snoc:
  "quadro_laco ps (xs @ [linha]) =
     (case quadro_laco ps xs of Inl e \<Rightarrow> Inl e | Inr ps' \<Rightarrow> quadro_linha ps' linha)"
  by (simp add: quadro_laco_append split: sum.splits)

lemma quadro_laco_Inl:
  "quadro_laco ps tabela = Inl e \<Longrightarrow> e = IndexError \<and> (\<exists>linha \<in> set tabela. length linha < 3)"
proof (induction tabela arbitrary: ps)
  case Nil
  then show ?case by simp
next
  case (Cons linha tabela)
  show ?case
  proof (cases "quadro_linha ps linha")
    case (Inl e')
    with Cons.prems have "e' = e" by simp
    with Inl show ?thesis by (auto dest: quadro_linha_Inl)
  next
    case (Inr ps')
    with Cons.prems have "quadro_laco ps' tabela = Inl e" by simp
    then show ?thesis by (auto dest: Cons.IH)
  qed
qed

lemma quadro_laco_Inr:
  "quadro_laco ps tabela = Inr ps' \<Longrightarrow> list_all (\<lambda>linha. 3 \<le> length linha) tabela"
proof (induction tabela arbitrary: ps)
  case Nil
  show ?case by simp
next
  case (Cons linha tabela)
  from Cons.prems obtain ps1 where 1: "quadro_linha ps linha = Inr ps1"
    and 2: "quadro_laco ps1 tabela = Inr ps'"
    by (auto split: sum.splits)
  from 1 have "3 \<le> length linha" by (rule quadro_linha_Inr)
  with Cons.IH [OF 2] show ?case by simp
qed

lemma quadro_ok_quadro_laco [medalhas_inv]:
  "quadro_ok ps \<Longrightarrow> quadro_laco ps tabela = Inr ps' \<Longrightarrow> quadro_ok ps'"
proof (induction tabela arbitrary: ps)
  case Nil
  then show ?case by simp
next
  case (Cons linha tabela)
  from Cons.prems(2) obtain ps1 where 1: "quadro_linha ps linha = Inr ps1"
    and 2: "quadro_laco ps1 tabela = Inr ps'"
    by (auto split: sum.splits)
  from Cons.prems(1) 1 have "quadro_ok ps1" by (rule quadro_ok_quadro_linha)
  then show ?case using 2 by (rule Cons.IH)
qed

section \<open>The summary of a country\<close>

lemma conta_Nil [simp]: "conta [] n m = 0"
  by (simp add: conta_def)

lemma conta_snoc:
  "conta (tabela @ [linha]) n m =
     conta tabela n m +
     (if pais_de linha = n \<and> medalha_de linha = Medalha_value m then 1 else 0)"
  by (simp add: conta_def)

lemma conta_nonneg [simp]: "0 \<le> conta tabela n m"
  by (simp add: conta_def)

lemma conta_soma_le:
  "conta tabela n BRONZE + conta tabela n PRATA + conta tabela n OURO \<le> int (length tabela)"
  by (induction tabela) (auto simp: conta_def)

lemma conta_le: "conta tabela n m \<le> int (length tabela)"
  by (simp add: conta_def)

lemma conta_ausente: "n \<notin> pais_de ` set tabela \<Longrightarrow> conta tabela n m = 0"
  by (auto simp: conta_def filter_empty_conv)

lemma conta_mset: "mset tabela = mset tabela' \<Longrightarrow> conta tabela n m = conta tabela' n m"
  by (simp add: conta_def length_filter_mset [of tabela tabela'])

lemma resumo_sel [simp]:
  "nome (resumo tabela n) = n"
  "quant_bronze (resumo tabela n) = conta tabela n BRONZE"
  "quant_prata (resumo tabela n) = conta tabela n PRATA"
  "quant_ouro (resumo tabela n) = conta tabela n OURO"
  "quant_total (resumo tabela n) =
     conta tabela n BRONZE + conta tabela n PRATA + conta tabela n OURO"
  "generos (resumo tabela n) =
     Some (primeiros (map genero_de (filter (\<lambda>linha. pais_de linha = n) tabela)))"
  by (simp_all add: resumo_def)

lemma resumo_Nil: "resumo [] n = Pais_init n (Some [])"
  by (simp add: resumo_def Pais_init_def)

lemma resumo_snoc:
  "resumo (tabela @ [linha]) n =
     (if pais_de linha = n
      then registra_genero (genero_de linha) (conta_medalha (medalha_de linha) (resumo tabela n))
      else resumo tabela n)"
  by (intro Pais.equality) (simp_all add: conta_snoc registra_genero_generos primeiros_snoc)

lemma resumo_ausente:
  assumes "n \<notin> pais_de ` set tabela"
  shows "resumo tabela n = Pais_init n (Some [])"
proof -
  from assms have "filter (\<lambda>linha. pais_de linha = n) tabela = []"
    by (auto simp: filter_empty_conv)
  then show ?thesis
    by (simp add: resumo_def Pais_init_def conta_ausente [OF assms])
qed

section \<open>The closed form of the table\<close>

lemma quadro_spec_Nil [simp]: "quadro_spec [] = []"
  by (simp add: quadro_spec_def)

lemma nome_quadro_spec [simp]: "map nome (quadro_spec tabela) = primeiros (map pais_de tabela)"
  by (simp add: quadro_spec_def comp_def)

lemma quadro_spec_snoc_presente:
  assumes "pais_de linha \<in> pais_de ` set tabela"
  shows "quadro_spec (tabela @ [linha]) =
     snd (atualiza_pais (medalha_de linha) (pais_de linha) (genero_de linha) (quadro_spec tabela))"
proof -
  have "distinct (map nome (quadro_spec tabela))" by simp
  then have "snd (atualiza_pais (medalha_de linha) (pais_de linha) (genero_de linha)
        (quadro_spec tabela)) =
      map (\<lambda>p. if nome p = pais_de linha
                 then registra_genero (genero_de linha) (conta_medalha (medalha_de linha) p)
                 else p) (quadro_spec tabela)"
    by (simp add: atualiza_pais_distinct)
  also have "\<dots> = map (resumo (tabela @ [linha])) (primeiros (map pais_de tabela))"
    by (simp add: quadro_spec_def resumo_snoc eq_commute)
  also from assms have "\<dots> = quadro_spec (tabela @ [linha])"
    by (simp add: quadro_spec_def primeiros_snoc)
  finally show ?thesis by simp
qed

lemma quadro_spec_snoc_ausente:
  assumes "pais_de linha \<notin> pais_de ` set tabela"
  shows "quadro_spec (tabela @ [linha]) =
     quadro_spec tabela @ [novo_pais (medalha_de linha) (pais_de linha) (genero_de linha)]"
proof -
  from assms have "map (resumo (tabela @ [linha])) (primeiros (map pais_de tabela)) =
      map (resumo tabela) (primeiros (map pais_de tabela))"
    by (auto simp: resumo_snoc)
  moreover from assms have "resumo (tabela @ [linha]) (pais_de linha) =
      novo_pais (medalha_de linha) (pais_de linha) (genero_de linha)"
    by (simp add: resumo_snoc resumo_ausente novo_pais_atualiza)
  ultimately show ?thesis
    using assms by (simp add: quadro_spec_def primeiros_snoc)
qed

lemma quadro_linha_spec:
  "3 \<le> length linha \<Longrightarrow>
   quadro_linha (quadro_spec tabela) linha = Inr (quadro_spec (tabela @ [linha]))"
proof (cases "pais_de linha \<in> pais_de ` set tabela")
  case True
  moreover assume "3 \<le> length linha"
  moreover have "nome ` set (quadro_spec tabela) = pais_de ` set tabela"
    by (simp flip: set_map)
  ultimately show ?thesis
    by (simp add: quadro_linha_eq quadro_spec_snoc_presente)
next
  case False
  moreover assume "3 \<le> length linha"
  moreover have "nome ` set (quadro_spec tabela) = pais_de ` set tabela"
    by (simp flip: set_map)
  ultimately show ?thesis
    by (simp add: quadro_linha_eq quadro_spec_snoc_ausente)
qed

lemma quadro_eq_spec:
  "list_all (\<lambda>linha. 3 \<le> length linha) tabela \<Longrightarrow> quadro tabela = Inr (quadro_spec tabela)"
proof (induction tabela rule: rev_induct)
  case Nil
  show ?case by (simp add: quadro_def)
next
  case (snoc linha tabela)
  then show ?case
    by (simp add: quadro_def quadro_laco_snoc quadro_linha_spec)
qed

lemma quadro_eq:
  "quadro tabela =
     (if list_all (\<lambda>linha. 3 \<le> length linha) tabela then Inr (quadro_spec tabela)
      else Inl IndexError)"
proof (cases "list_all (\<lambda>linha. 3 \<le> length linha) tabela")
  case True
  then show ?thesis by (simp add: quadro_eq_spec)
next
  case False
  show ?thesis
  proof (cases "quadro tabela")
    case (Inl e)
    then have "e = IndexError" unfolding quadro_def by (rule quadro_laco_Inl [THEN conjunct1])
    with Inl False show ?thesis by simp
  next
    case (Inr ps)
    then have "list_all (\<lambda>linha. 3 \<le> length linha) tabela"
      unfolding quadro_def by (rule quadro_laco_Inr)
    with False show ?thesis by simp
  qed
qed

section \<open>Properties of the aggregator\<close>


text \<open>
  C2. Refinement of the summary: \<open>quadro\<close> returns a table exactly when every row has
  at least three fields, and the table is then \<open>quadro_spec\<close> of the rows, that is, one
  accumulator for each country in the order in which the countries first appear,
  holding the number of rows of the country with code '3', '2' and '1', their sum, and
  the genders of the country's rows without repetition in the order of first appearance.
\<close>

theorem quadro_refina_spec:
  "quadro tabela = Inr ps \<longleftrightarrow>
     list_all (\<lambda>linha. 3 \<le> length linha) tabela \<and> ps = quadro_spec tabela"
  by (auto simp: quadro_eq)

theorem quadro_refina_spec_witness:
  "quadro [[''1'', ''BRA'', ''M''], [''2'', ''USA'', ''F''], [''3'', ''BRA'', ''M''],
           [''1'', ''FRA'', ''M'']] =
     Inr [Pais_kw ''BRA'' 1 0 1 2 [''M''],
          Pais_kw ''USA'' 0 1 0 1 [''F''],
          Pais_kw ''FRA'' 0 0 1 1 [''M'']]"
  using quadro_refina_spec
    [of "[[''1'', ''BRA'', ''M''], [''2'', ''USA'', ''F''], [''3'', ''BRA'', ''M''],
          [''1'', ''FRA'', ''M'']]"
        "quadro_spec [[''1'', ''BRA'', ''M''], [''2'', ''USA'', ''F''], [''3'', ''BRA'', ''M''],
          [''1'', ''FRA'', ''M'']]"]
  by (simp add: quadro_spec_def resumo_def conta_def medalha_de_def pais_de_def genero_de_def)

text \<open>
  C4. The table invariant holds of every table \<open>quadro\<close> returns: in each
  accumulator the total is the sum of the three counts, no count is negative, the
  gender list is present, not empty and without repetition; and no two accumulators
  have the same name.
\<close>

theorem quadro_invariante:
  assumes "quadro tabela = Inr ps"
  shows "quadro_ok ps"
  using assms unfolding quadro_def by (rule quadro_ok_quadro_laco [OF quadro_ok_Nil])

theorem quadro_invariante_witness:
  "quadro [[''1'', ''BRA'', ''M''], [''9'', ''BRA'', ''F'']] =
     Inr [Pais_kw ''BRA'' 0 0 1 1 [''M'', ''F'']] \<and>
   quadro_ok [Pais_kw ''BRA'' 0 0 1 1 [''M'', ''F'']]"
proof -
  have q: "quadro [[''1'', ''BRA'', ''M''], [''9'', ''BRA'', ''F'']] =
     Inr [Pais_kw ''BRA'' 0 0 1 1 [''M'', ''F'']]"
    by (simp add: agregador_defs)
  from q quadro_invariante [OF q] show ?thesis by simp
qed

text \<open>
  C25. Errors of the aggregator: \<open>quadro\<close> raises exactly when some row has fewer than
  three fields, and the exception is then \<open>IndexError\<close>.
\<close>

theorem quadro_erro:
  "quadro tabela = Inl e \<longleftrightarrow> e = IndexError \<and> (\<exists>linha \<in> set tabela. length linha < 3)"
  by (auto simp: quadro_eq list_all_iff not_le)

theorem quadro_erro_witness:
  "quadro [[''1'', ''BRA'', ''M''], [''2'', ''USA'']] = Inl IndexError"
  using quadro_erro [of "[[''1'', ''BRA'', ''M''], [''2'', ''USA'']]" IndexError]
  by simp

lemma atualiza_pais_snd_Cons:
  "snd (atualiza_pais mc n g (item # resto)) =
     (if nome item = n then registra_genero g (conta_medalha mc item) # resto
      else item # snd (atualiza_pais mc n g resto))"
  by (simp split: prod.splits)

text \<open>The closed form satisfies the invariant, whatever the rows.\<close>

lemma pais_ok_resumo:
  "n \<in> pais_de ` set tabela \<Longrightarrow> pais_ok (resumo tabela n)"
  by (auto simp: pais_ok_def total_ok_def generos_ok_def filter_empty_conv)

lemma quadro_ok_quadro_spec: "quadro_ok (quadro_spec tabela)"
proof -
  have "list_all pais_ok (quadro_spec tabela)"
    by (auto simp: list_all_iff quadro_spec_def intro: pais_ok_resumo)
  then show ?thesis by (simp add: quadro_ok_def)
qed

text \<open>Conservation of medals: every step adds one to the sum of the totals exactly
  when the code of the row is one of the three codes.\<close>

lemma quant_total_atualiza:
  "total_ok p \<Longrightarrow>
   quant_total (registra_genero g (conta_medalha mc p)) =
     quant_total p + (if reconhecida mc then 1 else 0)"
  by (auto simp: total_ok_def reconhecida_iff)

lemma quant_total_novo_pais:
  "quant_total (novo_pais mc n g) = (if reconhecida mc then 1 else 0)"
  by (auto simp: novo_pais_atualiza reconhecida_iff)

lemma soma_atualiza_pais:
  "list_all total_ok ps \<Longrightarrow> n \<in> nome ` set ps \<Longrightarrow>
   sum_list (map quant_total (snd (atualiza_pais mc n g ps))) =
     sum_list (map quant_total ps) + (if reconhecida mc then 1 else 0)"
proof (induction ps)
  case Nil
  then show ?case by simp
next
  case (Cons item resto)
  show ?case
  proof (cases "nome item = n")
    case True
    with Cons.prems quant_total_atualiza [of item g mc] show ?thesis by simp
  next
    case False
    with Cons show ?thesis
      by (simp add: atualiza_pais_snd_Cons del: atualiza_pais.simps)
  qed
qed

lemma soma_quadro_linha:
  assumes "quadro_ok ps" and "quadro_linha ps linha = Inr ps'"
  shows "sum_list (map quant_total ps') =
     sum_list (map quant_total ps) + (if reconhecida (medalha_de linha) then 1 else 0)"
proof -
  from assms(2) have len: "3 \<le> length linha" by (rule quadro_linha_Inr)
  from assms(1) have "list_all total_ok ps"
    by (simp add: quadro_ok_def pais_ok_def list_all_iff)
  with assms(2) len show ?thesis
    by (auto simp: quadro_linha_eq soma_atualiza_pais quant_total_novo_pais split: if_splits)
qed

lemma soma_quadro_laco:
  "quadro_ok ps \<Longrightarrow> quadro_laco ps tabela = Inr ps' \<Longrightarrow>
   sum_list (map quant_total ps') =
     sum_list (map quant_total ps) +
     int (length (filter (\<lambda>linha. reconhecida (medalha_de linha)) tabela))"
proof (induction tabela arbitrary: ps)
  case Nil
  then show ?case by simp
next
  case (Cons linha tabela)
  from Cons.prems(2) obtain ps1 where 1: "quadro_linha ps linha = Inr ps1"
    and 2: "quadro_laco ps1 tabela = Inr ps'"
    by (auto split: sum.splits)
  from Cons.prems(1) 1 have ok: "quadro_ok ps1" by (rule quadro_ok_quadro_linha)
  from Cons.IH [OF ok 2] soma_quadro_linha [OF Cons.prems(1) 1]
  show ?case by simp
qed

text \<open>Rows in another order: the same accumulators up to their order and the order
  of their genders.\<close>

lemma resumo_contagens_mset:
  "mset tabela = mset tabela' \<Longrightarrow> contagens (resumo tabela n) = contagens (resumo tabela' n)"
  by (simp add: contagens_def conta_mset [of tabela tabela'])

lemma resumo_conjunto_generos:
  "conjunto_generos (resumo tabela n) = genero_de ` {linha \<in> set tabela. pais_de linha = n}"
  by (auto simp: conjunto_generos_def)

lemma quadro_spec_contagens_mset:
  assumes "mset tabela = mset tabela'"
  shows "mset (map contagens (quadro_spec tabela)) = mset (map contagens (quadro_spec tabela'))"
proof -
  from assms have s: "set tabela = set tabela'" by (rule mset_eq_setD)
  have "mset (map contagens (quadro_spec tabela)) =
      image_mset (\<lambda>n. contagens (resumo tabela n)) (mset_set (pais_de ` set tabela))"
    by (simp add: quadro_spec_def comp_def mset_primeiros)
  also have "\<dots> = image_mset (\<lambda>n. contagens (resumo tabela' n)) (mset_set (pais_de ` set tabela'))"
    by (simp add: s resumo_contagens_mset [OF assms])
  also have "\<dots> = mset (map contagens (quadro_spec tabela'))"
    by (simp add: quadro_spec_def comp_def mset_primeiros)
  finally show ?thesis .
qed

lemma quadro_spec_generos_set:
  assumes "set tabela = set tabela'"
  shows "(\<lambda>p. (nome p, conjunto_generos p)) ` set (quadro_spec tabela) =
     (\<lambda>p. (nome p, conjunto_generos p)) ` set (quadro_spec tabela')"
  by (simp add: quadro_spec_def image_image resumo_conjunto_generos assms)

text \<open>
  C27. Conservation of medals: the totals of the table \<open>quadro\<close> returns add up to the
  number of rows whose medal code is one of '1', '2' and '3'; a row with any other
  code is counted by no accumulator.
\<close>

theorem quadro_conserva_medalhas:
  assumes "quadro tabela = Inr ps"
  shows "sum_list (map quant_total ps) =
     int (length (filter (\<lambda>linha. reconhecida (medalha_de linha)) tabela))"
  using soma_quadro_laco [OF quadro_ok_Nil assms [unfolded quadro_def]] by simp

theorem quadro_conserva_medalhas_witness:
  "quadro [[''1'', ''BRA'', ''M''], [''9'', ''BRA'', ''F''], [''3'', ''USA'', ''F'']] =
     Inr [Pais_kw ''BRA'' 0 0 1 1 [''M'', ''F''],
          Pais_kw ''USA'' 1 0 0 1 [''F'']] \<and>
   sum_list (map quant_total
       [Pais_kw ''BRA'' 0 0 1 1 [''M'', ''F''],
        Pais_kw ''USA'' 1 0 0 1 [''F'']]) = 2"
proof -
  have q: "quadro [[''1'', ''BRA'', ''M''], [''9'', ''BRA'', ''F''], [''3'', ''USA'', ''F'']] =
     Inr [Pais_kw ''BRA'' 0 0 1 1 [''M'', ''F''],
          Pais_kw ''USA'' 1 0 0 1 [''F'']]"
    by (simp add: agregador_defs)
  from q quadro_conserva_medalhas [OF q] show ?thesis
    by (simp add: reconhecida_iff medalha_de_def)
qed

text \<open>
  C28. The order of the rows does not matter for what is counted: if two tables hold
  the same rows in any order and \<open>quadro\<close> returns a table for the first, it returns one
  for the second with the same names and counters (as a multiset of accumulators
  without their gender lists) and the same set of genders for each country.
\<close>

theorem quadro_permutacao:
  assumes "mset tabela = mset tabela'" and "quadro tabela = Inr ps"
  shows "\<exists>ps'. quadro tabela' = Inr ps' \<and>
     mset (map contagens ps') = mset (map contagens ps) \<and>
     (\<lambda>p. (nome p, conjunto_generos p)) ` set ps' = (\<lambda>p. (nome p, conjunto_generos p)) ` set ps"
proof -
  from assms(1) have s: "set tabela = set tabela'" by (rule mset_eq_setD)
  from assms(2) have ps: "ps = quadro_spec tabela"
    and "list_all (\<lambda>linha. 3 \<le> length linha) tabela"
    by (simp_all add: quadro_eq split: if_splits)
  with s have "quadro tabela' = Inr (quadro_spec tabela')"
    by (simp add: quadro_eq list_all_iff)
  with quadro_spec_contagens_mset [OF assms(1)] quadro_spec_generos_set [OF s]
  show ?thesis by (simp add: ps)
qed

theorem quadro_permutacao_witness:
  "\<exists>ps'. quadro [[''3'', ''BRA'', ''F''], [''1'', ''USA'', ''F''], [''1'', ''BRA'', ''M'']] = Inr ps' \<and>
     mset (map contagens ps') =
       mset (map contagens
         [Pais_kw ''BRA'' 1 0 1 2 [''M'', ''F''],
          Pais_kw ''USA'' 0 0 1 1 [''F'']])"
proof -
  have q: "quadro [[''1'', ''BRA'', ''M''], [''1'', ''USA'', ''F''], [''3'', ''BRA'', ''F'']] =
     Inr [Pais_kw ''BRA'' 1 0 1 2 [''M'', ''F''],
          Pais_kw ''USA'' 0 0 1 1 [''F'']]"
    by (simp add: agregador_defs)
  have m: "mset [[''1'', ''BRA'', ''M''], [''1'', ''USA'', ''F''], [''3'', ''BRA'', ''F'']] =
      mset [[''3'', ''BRA'', ''F''], [''1'', ''USA'', ''F''], [''1'', ''BRA'', ''M'']]"
    by (simp add: add_mset_commute)
  from quadro_permutacao [OF m q] show ?thesis by blast
qed

text \<open>Rows whose code is no medal count nothing.\<close>

lemma conta_nao_reconhecida:
  "list_all (\<lambda>linha. \<not> reconhecida (medalha_de linha)) tabela \<Longrightarrow> conta tabela n m = 0"
  by (auto simp: conta_def filter_empty_conv list_all_iff)

lemma resumo_nao_reconhecida:
  assumes "list_all (\<lambda>linha. \<not> reconhecida (medalha_de linha)) tabela"
  shows "resumo tabela n =
     Pais_kw n 0 0 0 0 (primeiros (map genero_de (filter (\<lambda>linha. pais_de linha = n) tabela)))"
  by (simp add: resumo_def conta_nao_reconhecida [OF assms])

text \<open>
  C40. A medal code that is none of '1', '2' and '3' is not an error and counts for
  nothing, but the row still registers its country and gender: a table in which no
  row has one of the three codes yields one accumulator for every country, in the
  order of first appearance, with all four counters zero and the genders of the
  country in the order of their first appearance. In particular a table whose only
  row has such a code yields one accumulator with all four counters zero.
\<close>

theorem quadro_codigo_desconhecido:
  assumes "list_all (\<lambda>linha. 3 \<le> length linha \<and> \<not> reconhecida (medalha_de linha)) tabela"
  shows "quadro tabela =
     Inr (map (\<lambda>n. Pais_kw n 0 0 0 0
                 (primeiros (map genero_de (filter (\<lambda>linha. pais_de linha = n) tabela))))
            (primeiros (map pais_de tabela)))"
proof -
  from assms have t: "list_all (\<lambda>linha. 3 \<le> length linha) tabela"
    and r: "list_all (\<lambda>linha. \<not> reconhecida (medalha_de linha)) tabela"
    by (simp_all add: list_all_iff)
  from t show ?thesis
    by (simp add: quadro_eq_spec quadro_spec_def resumo_nao_reconhecida [OF r])
qed

theorem quadro_codigo_desconhecido_witness:
  "quadro [[''Gold'', ''BRA'', ''M''], [''0'', ''USA'', ''F''], [''Silver'', ''BRA'', ''F'']] =
     Inr [Pais_kw ''BRA'' 0 0 0 0 [''M'', ''F''], Pais_kw ''USA'' 0 0 0 0 [''F'']]"
  using quadro_codigo_desconhecido
    [of "[[''Gold'', ''BRA'', ''M''], [''0'', ''USA'', ''F''], [''Silver'', ''BRA'', ''F'']]"]
  by (simp add: reconhecida_iff medalha_de_def pais_de_def genero_de_def)

end
