(* ===== verification/Classificador.thy ===== *)
theory Classificador
  imports Modelo
begin

text \<open>
  The ranker, \<^verbatim>\<open>ordena\<close> of \<^verbatim>\<open>src/medalhas.py\<close>: an insertion sort that works in
  place on the list it is given. The definitions keep the subscripts of the source,
  read and written through \<open>py_get\<close> and \<open>py_set\<close>, so that an index out of range
  would show as \<open>IndexError\<close>. \<open>desloca\<close> is the nested \<^verbatim>\<open>if/elif\<close> that decides
  between shifting \<^verbatim>\<open>paises[j]\<close> one place to the right and leaving the loop;
  \<open>ordena_while\<close> is the \<^verbatim>\<open>while j >= 0\<close> loop, returning the list and the final
  \<^verbatim>\<open>j\<close>; \<open>ordena_passo\<close> is the body of the \<^verbatim>\<open>for\<close> loop for one \<^verbatim>\<open>i\<close>;
  \<open>ordena_for\<close> runs the body over the indices of \<^verbatim>\<open>range(1, len(paises))\<close>, which
  the source computes once, before the first iteration; \<open>ordena\<close> is the function.
  The list the function returns is the list it was given, mutated: a caller that
  keeps the argument sees the sorted list.

  The reference the loops are compared with is \<open>ordena_ref\<close>, which inserts the
  elements one by one with \<open>insere\<close>: an element goes in front of the longest suffix of
  smaller elements. The lemmas show that the loops compute \<open>ordena_ref\<close> without
  raising, and that \<open>ordena_ref\<close> is the stable sort of the library by the key
  \<open>chave\<close>.
\<close>

section \<open>Definitions\<close>

definition desloca :: "Pais \<Rightarrow> Pais \<Rightarrow> bool" where
  "desloca pj chave_i =
     (if quant_ouro pj < quant_ouro chave_i then True
      else if quant_ouro pj = quant_ouro chave_i then
        (if quant_prata pj < quant_prata chave_i then True
         else if quant_prata pj = quant_prata chave_i then
           (if quant_bronze pj < quant_bronze chave_i then True else False)
         else False)
      else False)"

function ordena_while :: "Pais list \<Rightarrow> Pais \<Rightarrow> int \<Rightarrow> (Pais list \<times> int) resultado" where
  "ordena_while paises chave_i j =
     (if j \<ge> 0 then
        (case py_get paises j of
           Inl e \<Rightarrow> Inl e
         | Inr pj \<Rightarrow>
             if desloca pj chave_i then
               (case py_set paises (j + 1) pj of
                  Inl e \<Rightarrow> Inl e
                | Inr paises' \<Rightarrow> ordena_while paises' chave_i (j - 1))
             else Inr (paises, j))
      else Inr (paises, j))"
  by pat_completeness auto
termination
  by (relation "measure (\<lambda>(paises, chave_i, j). nat (j + 1))") auto

declare ordena_while.simps [simp del]

definition ordena_passo :: "Pais list \<Rightarrow> int \<Rightarrow> Pais list resultado" where
  "ordena_passo paises i =
     (case py_get paises i of
        Inl e \<Rightarrow> Inl e
      | Inr chave_i \<Rightarrow>
          (case ordena_while paises chave_i (i - 1) of
             Inl e \<Rightarrow> Inl e
           | Inr (paises', j) \<Rightarrow> py_set paises' (j + 1) chave_i))"

fun ordena_for :: "Pais list \<Rightarrow> int list \<Rightarrow> Pais list resultado" where
  "ordena_for paises [] = Inr paises"
| "ordena_for paises (i # is) =
     (case ordena_passo paises i of
        Inl e \<Rightarrow> Inl e
      | Inr paises' \<Rightarrow> ordena_for paises' is)"

definition ordena :: "Pais list \<Rightarrow> Pais list resultado" where
  "ordena paises = ordena_for paises (map int [1..<length paises])"

text \<open>The reference: insertion in front of the longest suffix of smaller elements.\<close>

definition cauda_menor :: "Pais \<Rightarrow> Pais list \<Rightarrow> Pais list" where
  "cauda_menor x ps = rev (takeWhile (\<lambda>y. menor y x) (rev ps))"

definition frente :: "Pais \<Rightarrow> Pais list \<Rightarrow> Pais list" where
  "frente x ps = rev (dropWhile (\<lambda>y. menor y x) (rev ps))"

definition insere :: "Pais \<Rightarrow> Pais list \<Rightarrow> Pais list" where
  "insere x ps = frente x ps @ x # cauda_menor x ps"

definition ordena_ref :: "Pais list \<Rightarrow> Pais list" where
  "ordena_ref ps = foldl (\<lambda>acc x. insere x acc) [] ps"

lemmas classificador_defs [medalhas_defs] =
  ordena_def ordena_passo_def desloca_def ordena_while.simps py_get_def py_set_def
  ordena_ref_def insere_def frente_def cauda_menor_def menor_def

section \<open>The comparison\<close>

lemma desloca_menor: "desloca a b \<longleftrightarrow> menor a b"
  by (auto simp: desloca_def menor_def)

section \<open>Prefix and suffix of an insertion\<close>

lemma frente_Nil [simp]: "frente x [] = []"
  by (simp add: frente_def)

lemma cauda_menor_Nil [simp]: "cauda_menor x [] = []"
  by (simp add: cauda_menor_def)

lemma frente_snoc:
  "frente x (ps @ [y]) = (if menor y x then frente x ps else ps @ [y])"
  by (simp add: frente_def)

lemma cauda_menor_snoc:
  "cauda_menor x (ps @ [y]) = (if menor y x then cauda_menor x ps @ [y] else [])"
  by (simp add: cauda_menor_def)

lemma frente_cauda [simp]: "frente x ps @ cauda_menor x ps = ps"
  by (simp add: frente_def cauda_menor_def flip: rev_append)

lemma length_insere [simp]: "length (insere x ps) = Suc (length ps)"
proof -
  have "length (frente x ps @ cauda_menor x ps) = length ps" by simp
  then show ?thesis by (simp add: insere_def del: frente_cauda)
qed

lemma mset_insere [simp]: "mset (insere x ps) = add_mset x (mset ps)"
proof -
  have "mset (frente x ps @ cauda_menor x ps) = mset ps" by simp
  then show ?thesis by (simp add: insere_def del: frente_cauda)
qed

lemma set_cauda_menor: "y \<in> set (cauda_menor x ps) \<Longrightarrow> menor y x"
  by (auto simp: cauda_menor_def dest: set_takeWhileD)

lemma last_frente: "frente x ps \<noteq> [] \<Longrightarrow> \<not> menor (last (frente x ps)) x"
  by (induction ps rule: rev_induct) (auto simp: frente_snoc)

section \<open>The inner loop\<close>

lemma ordena_while_neg [simp]: "j < 0 \<Longrightarrow> ordena_while ps c j = Inr (ps, j)"
  by (simp add: ordena_while.simps)

lemma ordena_while_hole:
  "ordena_while (pre @ x # rest) c (int (length pre) - 1) =
     Inr (frente c pre @ (if cauda_menor c pre = [] then x else hd (cauda_menor c pre)) #
            cauda_menor c pre @ rest,
          int (length (frente c pre)) - 1)"
proof (induction pre arbitrary: x rest rule: rev_induct)
  case Nil
  show ?case by simp
next
  case (snoc y ys)
  show ?case
  proof (cases "menor y c")
    case True
    with snoc [of y "y # rest"] show ?thesis
      by (simp add: ordena_while.simps [of "ys @ y # x # rest"] desloca_menor frente_snoc
          cauda_menor_snoc hd_append)
  next
    case False
    then show ?thesis
      by (simp add: ordena_while.simps [of "ys @ y # x # rest"] desloca_menor frente_snoc
          cauda_menor_snoc)
  qed
qed

section \<open>One insertion\<close>

lemma ordena_passo_insere:
  "ordena_passo (pre @ x # rest) (int (length pre)) = Inr (insere x pre @ rest)"
  by (simp add: ordena_passo_def ordena_while_hole insere_def)

section \<open>The outer loop\<close>

lemma ordena_for_foldl:
  "ordena_for (pre @ rest) (map int [length pre ..< length pre + length rest]) =
     Inr (foldl (\<lambda>acc x. insere x acc) pre rest)"
proof (induction rest arbitrary: pre)
  case Nil
  show ?case by simp
next
  case (Cons x rest)
  have "[length pre ..< length pre + length (x # rest)] =
      length pre # [length (insere x pre) ..< length (insere x pre) + length rest]"
    by (simp add: upt_rec)
  with Cons [of "insere x pre"] show ?case
    by (simp add: ordena_passo_insere)
qed

lemma ordena_Inr: "ordena ps = Inr (ordena_ref ps)"
proof (cases ps)
  case Nil
  then show ?thesis by (simp add: ordena_def ordena_ref_def)
next
  case (Cons x rest)
  have "insere x [] = [x]" by (simp add: insere_def)
  with ordena_for_foldl [of "[x]" rest] Cons show ?thesis
    by (simp add: ordena_def ordena_ref_def)
qed

section \<open>Insertion into a sorted list\<close>

lemma sorted_chave_snoc:
  "sorted (map chave ps @ [k]) \<longleftrightarrow> sorted (map chave ps) \<and> (\<forall>z \<in> set ps. chave z \<le> k)"
  by (auto simp: sorted_append)

lemma frente_ge:
  "sorted (map chave ps) \<Longrightarrow> y \<in> set (frente x ps) \<Longrightarrow> chave y \<le> chave x"
proof (induction ps rule: rev_induct)
  case Nil
  then show ?case by simp
next
  case (snoc z zs)
  then show ?case
    by (auto simp: frente_snoc sorted_chave_snoc menor_chave not_less split: if_splits
        intro: order_trans)
qed

lemma cauda_menor_gt: "y \<in> set (cauda_menor x ps) \<Longrightarrow> chave x < chave y"
  by (auto dest: set_cauda_menor simp: menor_chave)

lemma sorted_frente: "sorted (map chave ps) \<Longrightarrow> sorted (map chave (frente x ps))"
  by (metis frente_cauda map_append sorted_append)

lemma sorted_cauda_menor: "sorted (map chave ps) \<Longrightarrow> sorted (map chave (cauda_menor x ps))"
  by (metis frente_cauda map_append sorted_append)

lemma sorted_insere:
  assumes "sorted (map chave ps)"
  shows "sorted (map chave (insere x ps))"
proof -
  have "chave y \<le> chave z" if "y \<in> set (frente x ps)" "z \<in> set (cauda_menor x ps)" for y z
    using frente_ge [OF assms that(1)] cauda_menor_gt [OF that(2)] by simp
  with assms show ?thesis
    by (auto simp: insere_def sorted_append sorted_frente sorted_cauda_menor
        dest: frente_ge cauda_menor_gt less_imp_le)
qed

lemma filter_chave_insere:
  assumes "sorted (map chave ps)"
  shows "filter (\<lambda>y. chave y = k) (insere x ps) =
     filter (\<lambda>y. chave y = k) ps @ (if chave x = k then [x] else [])"
proof -
  have split: "filter (\<lambda>y. chave y = k) ps =
      filter (\<lambda>y. chave y = k) (frente x ps) @ filter (\<lambda>y. chave y = k) (cauda_menor x ps)"
    by (simp flip: filter_append)
  show ?thesis
  proof (cases "chave x = k")
    case True
    then have "filter (\<lambda>y. chave y = k) (cauda_menor x ps) = []"
      by (auto simp: filter_empty_conv dest: cauda_menor_gt)
    with True split show ?thesis by (simp add: insere_def)
  next
    case False
    with split show ?thesis by (simp add: insere_def)
  qed
qed

section \<open>The reference sort\<close>

lemma ordena_ref_Nil [simp]: "ordena_ref [] = []"
  by (simp add: ordena_ref_def)

lemma ordena_ref_snoc: "ordena_ref (ps @ [x]) = insere x (ordena_ref ps)"
  by (simp add: ordena_ref_def)

lemma mset_ordena_ref [simp]: "mset (ordena_ref ps) = mset ps"
  by (induction ps rule: rev_induct) (simp_all add: ordena_ref_snoc)

lemma sorted_ordena_ref: "sorted (map chave (ordena_ref ps))"
  by (induction ps rule: rev_induct) (simp_all add: ordena_ref_snoc sorted_insere)

lemma filter_chave_ordena_ref:
  "filter (\<lambda>y. chave y = k) (ordena_ref ps) = filter (\<lambda>y. chave y = k) ps"
  by (induction ps rule: rev_induct)
     (simp_all add: ordena_ref_snoc filter_chave_insere sorted_ordena_ref)

lemma ordena_ref_sort_key: "ordena_ref ps = sort_key chave ps"
proof (rule properties_for_sort_key [symmetric])
  show "mset (ordena_ref ps) = mset ps" by simp
  show "sorted (map chave (ordena_ref ps))" by (rule sorted_ordena_ref)
  show "filter (\<lambda>x. chave k = chave x) (ordena_ref ps) = filter (\<lambda>x. chave k = chave x) ps" for k
    using filter_chave_ordena_ref [of "chave k" ps] by (simp add: eq_commute)
qed

lemma ordena_sort_key: "ordena ps = Inr (sort_key chave ps)"
  by (simp add: ordena_Inr ordena_ref_sort_key)

section \<open>Consequences for the loops\<close>

lemma ordena_Inr_iff: "ordena ps = Inr qs \<longleftrightarrow> qs = sort_key chave ps"
  by (auto simp: ordena_sort_key)

lemma ordena_while_limites:
  assumes "ordena_while (pre @ x # rest) c (int (length pre) - 1) = Inr (ps', j')"
  shows "- 1 \<le> j' \<and> j' < int (length pre) \<and> length ps' = length (pre @ x # rest)"
proof -
  have "length (frente c pre @ cauda_menor c pre) = length pre" by simp
  then have "length (frente c pre) + length (cauda_menor c pre) = length pre"
    by (simp del: frente_cauda)
  with assms show ?thesis by (auto simp: ordena_while_hole)
qed

section \<open>Properties of the ranker\<close>

text \<open>
  C1. Equivalence with the reference sort: on every list, the in-place insertion sort
  of the source returns, without raising, the stable sort of the list by the key
  (minus gold, minus silver, minus bronze) in the lexicographic order, that is, by
  gold, then silver, then bronze, each descending.
\<close>

theorem ordena_equivale_sort_key: "ordena paises = Inr (sort_key chave paises)"
  by (rule ordena_sort_key)

text \<open>
  C5. The ranking is ordered: in the list \<open>ordena\<close> returns, every accumulator
  stands in the relation \<open>antes\<close> to every accumulator after it (more gold, or equal
  gold and more silver, or equal gold and silver and at least as much bronze).
\<close>

theorem ordena_ordenado:
  assumes "ordena paises = Inr qs"
  shows "sorted_wrt antes qs"
  using assms by (simp add: ordena_Inr_iff sorted_wrt_antes_chave)

theorem ordena_ordenado_witness:
  "ordena
     [Pais_pos ''BRA'' 0 0 1 1,
      Pais_pos ''USA'' 0 1 0 1,
      Pais_pos ''FRA'' 0 0 1 1] =
   Inr
     [Pais_pos ''BRA'' 0 0 1 1,
      Pais_pos ''FRA'' 0 0 1 1,
      Pais_pos ''USA'' 0 1 0 1] \<and>
   sorted_wrt antes
     [Pais_pos ''BRA'' 0 0 1 1,
      Pais_pos ''FRA'' 0 0 1 1,
      Pais_pos ''USA'' 0 1 0 1]"
proof -
  have o: "ordena
     [Pais_pos ''BRA'' 0 0 1 1,
      Pais_pos ''USA'' 0 1 0 1,
      Pais_pos ''FRA'' 0 0 1 1] =
   Inr
     [Pais_pos ''BRA'' 0 0 1 1,
      Pais_pos ''FRA'' 0 0 1 1,
      Pais_pos ''USA'' 0 1 0 1]"
    by (simp add: classificador_defs)
  from o ordena_ordenado [OF o] show ?thesis by simp
qed

text \<open>
  C8. The ranking is a permutation: the list \<open>ordena\<close> returns holds exactly the
  accumulators of its argument, each as often as the argument does; none is added,
  dropped or changed.
\<close>

theorem ordena_permutacao:
  assumes "ordena paises = Inr qs"
  shows "mset qs = mset paises"
  using assms by (simp add: ordena_Inr_iff)

theorem ordena_permutacao_witness:
  "ordena
     [Pais_pos ''USA'' 0 1 0 1,
      Pais_pos ''BRA'' 0 0 1 1] =
   Inr
     [Pais_pos ''BRA'' 0 0 1 1,
      Pais_pos ''USA'' 0 1 0 1] \<and>
   mset
     [Pais_pos ''BRA'' 0 0 1 1,
      Pais_pos ''USA'' 0 1 0 1] =
   mset
     [Pais_pos ''USA'' 0 1 0 1,
      Pais_pos ''BRA'' 0 0 1 1]"
proof -
  have o: "ordena
     [Pais_pos ''USA'' 0 1 0 1,
      Pais_pos ''BRA'' 0 0 1 1] =
   Inr
     [Pais_pos ''BRA'' 0 0 1 1,
      Pais_pos ''USA'' 0 1 0 1]"
    by (simp add: classificador_defs)
  from o ordena_permutacao [OF o] show ?thesis by simp
qed

text \<open>
  C6. The ranking is stable: accumulators with the same gold, silver and bronze
  counts stand in the list \<open>ordena\<close> returns in the order they had in its argument.
\<close>

theorem ordena_estavel:
  assumes "ordena paises = Inr qs"
  shows "filter (\<lambda>p. quant_ouro p = qo \<and> quant_prata p = qp \<and> quant_bronze p = qb) qs =
     filter (\<lambda>p. quant_ouro p = qo \<and> quant_prata p = qp \<and> quant_bronze p = qb) paises"
proof -
  have "(quant_ouro p = qo \<and> quant_prata p = qp \<and> quant_bronze p = qb) =
      (chave p = (- qo, - qp, - qb))" for p
    by (auto simp: chave_def)
  with assms show ?thesis
    by (simp add: ordena_Inr_iff sort_key_stable)
qed

theorem ordena_estavel_witness:
  "ordena [Pais_pos ''USA'' 0 1 0 1, Pais_pos ''FRA'' 0 0 1 1, Pais_pos ''BRA'' 0 0 1 1] =
     Inr [Pais_pos ''FRA'' 0 0 1 1, Pais_pos ''BRA'' 0 0 1 1, Pais_pos ''USA'' 0 1 0 1] \<and>
   filter (\<lambda>p. quant_ouro p = 1 \<and> quant_prata p = 0 \<and> quant_bronze p = 0)
     [Pais_pos ''FRA'' 0 0 1 1, Pais_pos ''BRA'' 0 0 1 1, Pais_pos ''USA'' 0 1 0 1] =
   [Pais_pos ''FRA'' 0 0 1 1, Pais_pos ''BRA'' 0 0 1 1]"
proof -
  have o: "ordena [Pais_pos ''USA'' 0 1 0 1, Pais_pos ''FRA'' 0 0 1 1, Pais_pos ''BRA'' 0 0 1 1] =
     Inr [Pais_pos ''FRA'' 0 0 1 1, Pais_pos ''BRA'' 0 0 1 1, Pais_pos ''USA'' 0 1 0 1]"
    by (simp add: classificador_defs)
  from o ordena_estavel [OF o, of 1 0 0] show ?thesis by simp
qed

text \<open>A ranked list is returned as it is.\<close>

lemma ordena_fixa_ordenado:
  assumes "sorted_wrt antes paises"
  shows "ordena paises = Inr paises"
  using assms by (simp add: ordena_sort_key sorted_wrt_antes_chave sort_key_id_if_sorted)

text \<open>
  C37. Idempotence and fixed points: \<open>ordena\<close> returns a list, and applying \<open>ordena\<close>
  to the list it returned returns the same list; the lists that \<open>ordena\<close> returns
  unchanged are exactly the ranked ones, in which every accumulator stands in the
  relation \<open>antes\<close> to every accumulator after it.
\<close>

theorem ordena_idempotente:
  "(\<exists>qs. ordena paises = Inr qs \<and> ordena qs = Inr qs) \<and>
   (ordena paises = Inr paises \<longleftrightarrow> sorted_wrt antes paises)"
proof -
  have "sorted (map chave (sort_key chave paises))" by simp
  then have "ordena (sort_key chave paises) = Inr (sort_key chave paises)"
    by (simp add: ordena_sort_key sort_key_id_if_sorted)
  moreover have "sort_key chave paises = paises \<longleftrightarrow> sorted (map chave paises)"
    by (metis sorted_sort_key sort_key_id_if_sorted)
  ultimately show ?thesis
    by (auto simp: ordena_sort_key sorted_wrt_antes_chave)
qed

theorem ordena_idempotente_witness:
  "ordena [Pais_pos ''USA'' 0 1 0 1, Pais_pos ''FRA'' 0 0 1 1, Pais_pos ''BRA'' 2 0 1 3] =
     Inr [Pais_pos ''BRA'' 2 0 1 3, Pais_pos ''FRA'' 0 0 1 1, Pais_pos ''USA'' 0 1 0 1] \<and>
   ordena [Pais_pos ''BRA'' 2 0 1 3, Pais_pos ''FRA'' 0 0 1 1, Pais_pos ''USA'' 0 1 0 1] =
     Inr [Pais_pos ''BRA'' 2 0 1 3, Pais_pos ''FRA'' 0 0 1 1, Pais_pos ''USA'' 0 1 0 1] \<and>
   sorted_wrt antes [Pais_pos ''BRA'' 2 0 1 3, Pais_pos ''FRA'' 0 0 1 1, Pais_pos ''USA'' 0 1 0 1]"
  using ordena_idempotente
      [of "[Pais_pos ''USA'' 0 1 0 1, Pais_pos ''FRA'' 0 0 1 1, Pais_pos ''BRA'' 2 0 1 3]"]
    ordena_idempotente
      [of "[Pais_pos ''BRA'' 2 0 1 3, Pais_pos ''FRA'' 0 0 1 1, Pais_pos ''USA'' 0 1 0 1]"]
  by (simp add: ordena_sort_key chave_def antes_def)

text \<open>
  C26. The subscripts of the shifting loop stay in range: started, as the source
  starts it, just left of position \<open>i\<close> of a list, the loop returns without raising,
  it leaves the length of the list unchanged, and the index it ends with is at least
  -1 and less than \<open>i\<close>, so that the store at \<open>j + 1\<close> that follows is in range.
\<close>

theorem ordena_while_em_limites:
  assumes "0 \<le> i" and "i < int (length paises)"
  shows "\<exists>paises' j. ordena_while paises chave_i (i - 1) = Inr (paises', j) \<and>
     - 1 \<le> j \<and> j < i \<and> length paises' = length paises"
proof -
  define pre where "pre = take (nat i) paises"
  define x where "x = paises ! nat i"
  define rest where "rest = drop (Suc (nat i)) paises"
  from assms have ps: "paises = pre @ x # rest"
    unfolding pre_def x_def rest_def by (intro id_take_nth_drop) simp
  from assms have i: "i = int (length pre)"
    by (simp add: pre_def)
  obtain paises' j where r: "ordena_while (pre @ x # rest) chave_i (int (length pre) - 1) =
      Inr (paises', j)"
    by (simp add: ordena_while_hole)
  from r ordena_while_limites [OF r] show ?thesis by (simp add: ps i)
qed

theorem ordena_while_em_limites_witness:
  "\<exists>paises' j. ordena_while [Pais_pos ''USA'' 0 1 0 1, Pais_pos ''BRA'' 0 0 1 1]
       (Pais_pos ''BRA'' 0 0 1 1) (1 - 1) = Inr (paises', j) \<and>
     - 1 \<le> j \<and> j < 1 \<and> length paises' = length [Pais_pos ''USA'' 0 1 0 1, Pais_pos ''BRA'' 0 0 1 1]"
  using ordena_while_em_limites
    [of 1 "[Pais_pos ''USA'' 0 1 0 1, Pais_pos ''BRA'' 0 0 1 1]" "Pais_pos ''BRA'' 0 0 1 1"]
  by simp

text \<open>The ranking keeps the invariant of the table.\<close>

lemma quadro_ok_ordena [medalhas_inv]:
  "quadro_ok paises \<Longrightarrow> ordena paises = Inr qs \<Longrightarrow> quadro_ok qs"
  using quadro_ok_mset [of qs paises] by (simp add: ordena_Inr_iff)

end
