(* ===== verification/Filtro_Genero.thy ===== *)
theory Filtro_Genero
  imports Modelo
begin

text \<open>
  The single-gender filter, \<^verbatim>\<open>filtrar_paises_genero_unico\<close> of \<^verbatim>\<open>src/medalhas.py\<close>:
  a recursion on the index into the list, from \<^verbatim>\<open>index\<close> (0 when the caller gives
  none) up to the length. The model keeps the index an integer, reads the list through
  \<open>py_get\<close> (a negative index counts from the end, as in the source language) and
  raises \<open>TypeError\<close> where the source takes \<^verbatim>\<open>len\<close> of a gender list that is
  \<^verbatim>\<open>None\<close>. The recursion ends because the distance from the index to the length
  shrinks. \<open>filtra_lista\<close> is the same selection written over the list itself, and
  \<open>genero_unico\<close> is the test; the lemmas reduce the index recursion to \<open>filtra_lista\<close>
  for every index and \<open>filtra_lista\<close> to \<open>filter\<close> where no gender list is missing.
  The depth limit of the interpreter's call stack is not part of the model.
\<close>

section \<open>Definitions\<close>

function filtrar_paises_genero_unico :: "Pais list \<Rightarrow> int \<Rightarrow> Pais list resultado" where
  "filtrar_paises_genero_unico paises index =
     (if index \<ge> int (length paises) then Inr []
      else
        (case py_get paises index of
           Inl e \<Rightarrow> Inl e
         | Inr p \<Rightarrow>
             (case generos p of
                None \<Rightarrow> Inl TypeError
              | Some gs \<Rightarrow>
                  if length gs = 1 then
                    (case filtrar_paises_genero_unico paises (index + 1) of
                       Inl e \<Rightarrow> Inl e
                     | Inr resto \<Rightarrow> Inr (p # resto))
                  else filtrar_paises_genero_unico paises (index + 1))))"
  by pat_completeness auto
termination
  by (relation "measure (\<lambda>(paises, index). nat (int (length paises) - index))") auto

declare filtrar_paises_genero_unico.simps [simp del]

text \<open>The selection over the list itself, and its test.\<close>

definition genero_unico :: "Pais \<Rightarrow> bool" where
  "genero_unico p \<longleftrightarrow> (case generos p of None \<Rightarrow> False | Some gs \<Rightarrow> length gs = 1)"

definition tem_generos :: "Pais \<Rightarrow> bool" where
  "tem_generos p \<longleftrightarrow> generos p \<noteq> None"

fun filtra_lista :: "Pais list \<Rightarrow> Pais list resultado" where
  "filtra_lista [] = Inr []"
| "filtra_lista (p # ps) =
     (case generos p of
        None \<Rightarrow> Inl TypeError
      | Some gs \<Rightarrow>
          if length gs = 1 then
            (case filtra_lista ps of Inl e \<Rightarrow> Inl e | Inr resto \<Rightarrow> Inr (p # resto))
          else filtra_lista ps)"

lemmas filtro_defs [medalhas_defs] =
  filtrar_paises_genero_unico.simps py_get_def genero_unico_def tem_generos_def

section \<open>The selection over the list\<close>

lemma filtra_lista_filter:
  "list_all tem_generos ps \<Longrightarrow> filtra_lista ps = Inr (filter genero_unico ps)"
  by (induction ps) (auto simp: tem_generos_def genero_unico_def)

lemma filtra_lista_TypeError:
  "\<not> list_all tem_generos ps \<Longrightarrow> filtra_lista ps = Inl TypeError"
  by (induction ps) (auto simp: tem_generos_def split: option.splits)

lemma filtra_lista_eq:
  "filtra_lista ps =
     (if list_all tem_generos ps then Inr (filter genero_unico ps) else Inl TypeError)"
  by (simp add: filtra_lista_filter filtra_lista_TypeError)

lemma filtra_lista_append:
  "filtra_lista (ps @ qs) =
     (case filtra_lista ps of
        Inl e \<Rightarrow> Inl e
      | Inr rs \<Rightarrow> (case filtra_lista qs of Inl e \<Rightarrow> Inl e | Inr ss \<Rightarrow> Inr (rs @ ss)))"
  by (simp add: filtra_lista_eq)

section \<open>The recursion on the index\<close>

lemma filtrar_fim [simp]:
  "int (length ps) \<le> index \<Longrightarrow> filtrar_paises_genero_unico ps index = Inr []"
  by (simp add: filtrar_paises_genero_unico.simps)

lemma filtrar_passo:
  "- int (length ps) \<le> index \<Longrightarrow> index < int (length ps) \<Longrightarrow> py_get ps index = Inr p \<Longrightarrow>
   filtrar_paises_genero_unico ps index =
     (case generos p of
        None \<Rightarrow> Inl TypeError
      | Some gs \<Rightarrow>
          if length gs = 1 then
            (case filtrar_paises_genero_unico ps (index + 1) of
               Inl e \<Rightarrow> Inl e
             | Inr resto \<Rightarrow> Inr (p # resto))
          else filtrar_paises_genero_unico ps (index + 1))"
  by (subst filtrar_paises_genero_unico.simps) simp

lemma filtrar_fora [simp]:
  "index < - int (length ps) \<Longrightarrow> filtrar_paises_genero_unico ps index = Inl IndexError"
  by (subst filtrar_paises_genero_unico.simps) (simp add: py_get_def)

lemma filtrar_sufixo:
  "filtrar_paises_genero_unico (pre @ rest) (int (length pre)) = filtra_lista rest"
proof (induction rest arbitrary: pre)
  case Nil
  show ?case by simp
next
  case (Cons p rest)
  have "filtrar_paises_genero_unico ((pre @ [p]) @ rest) (int (length (pre @ [p]))) =
      filtra_lista rest"
    by (rule Cons)
  then have prox: "filtrar_paises_genero_unico (pre @ p # rest) (int (length pre) + 1) =
      filtra_lista rest"
    by (simp add: add.commute)
  show ?case
    by (subst filtrar_passo [where p = p]) (simp_all add: prox split: option.splits)
qed

lemma filtrar_nao_negativo:
  "0 \<le> index \<Longrightarrow>
   filtrar_paises_genero_unico ps index = filtra_lista (drop (nat index) ps)"
proof (cases "index < int (length ps)")
  case True
  assume "0 \<le> index"
  with True filtrar_sufixo [of "take (nat index) ps" "drop (nat index) ps"]
  show ?thesis by simp
next
  case False
  then show ?thesis by simp
qed

lemma filtrar_negativo:
  assumes "index < 0" and "- int (length ps) \<le> index"
  shows "filtrar_paises_genero_unico ps index =
     filtra_lista (drop (nat (int (length ps) + index)) ps @ ps)"
  using assms
proof (induction "nat (- index)" arbitrary: index)
  case 0
  then show ?case by simp
next
  case (Suc k)
  define m where "m = nat (int (length ps) + index)"
  from Suc.prems Suc.hyps(2) have m: "m < length ps" "int m = int (length ps) + index"
    by (simp_all add: m_def)
  have get: "py_get ps index = Inr (ps ! m)"
    using Suc.prems by (simp add: py_get_def Let_def m_def)
  have rest: "filtrar_paises_genero_unico ps (index + 1) = filtra_lista (drop (Suc m) ps @ ps)"
  proof (cases "index + 1 < 0")
    case True
    from Suc.prems have "nat (int (length ps) + (index + 1)) = Suc m"
      by (simp add: m_def)
    with Suc.hyps(1) [of "index + 1"] Suc.hyps(2) Suc.prems True show ?thesis
      by simp
  next
    case False
    with Suc.prems m have "index = - 1" "Suc m = length ps" by simp_all
    then show ?thesis by (simp add: filtrar_nao_negativo)
  qed
  from m have "drop m ps = ps ! m # drop (Suc m) ps"
    by (simp add: Cons_nth_drop_Suc)
  with rest show ?case
    unfolding m_def [symmetric]
    by (subst filtrar_passo [OF Suc.prems(2) _ get])
       (use Suc.prems in \<open>simp_all split: option.splits\<close>)
qed

section \<open>Properties of the filter\<close>

lemma filtrar_zero: "filtrar_paises_genero_unico ps 0 = filtra_lista ps"
  using filtrar_nao_negativo [of 0 ps] by simp

lemma genero_unico_card:
  "generos_ok p \<Longrightarrow> genero_unico p \<longleftrightarrow> card (conjunto_generos p) = 1"
  by (auto simp: generos_ok_def genero_unico_def conjunto_generos_def distinct_card
      split: option.splits)

lemma quadro_ok_tem_generos: "quadro_ok ps \<Longrightarrow> list_all tem_generos ps"
  by (auto simp: quadro_ok_def pais_ok_def generos_ok_def tem_generos_def list_all_iff
      split: option.splits)

lemma filter_genero_unico_card:
  assumes "quadro_ok ps"
  shows "filter genero_unico ps = filter (\<lambda>p. card (conjunto_generos p) = 1) ps"
proof (rule filter_cong [OF refl])
  fix p assume "p \<in> set ps"
  with assms have "pais_ok p" by (rule quadro_ok_member)
  then have "generos_ok p" by (simp add: pais_ok_def)
  then show "genero_unico p = (card (conjunto_generos p) = 1)"
    by (rule genero_unico_card)
qed

lemma filtrar_quadro_ok_card:
  "quadro_ok ps \<Longrightarrow>
   filtrar_paises_genero_unico ps 0 = Inr (filter (\<lambda>p. card (conjunto_generos p) = 1) ps)"
  by (simp add: filtrar_zero filtra_lista_eq quadro_ok_tem_generos filter_genero_unico_card)

text \<open>
  C9. The filter called as the program calls it, from index 0: when every
  accumulator of the list has a gender list, it returns the accumulators whose
  gender list has exactly one element, in the order of the list; when some
  accumulator has none (\<^verbatim>\<open>None\<close>), it raises \<open>TypeError\<close>.
\<close>

theorem filtrar_correto:
  "filtrar_paises_genero_unico paises 0 =
     (if list_all tem_generos paises then Inr (filter genero_unico paises)
      else Inl TypeError)"
  by (simp add: filtrar_zero filtra_lista_eq)

theorem filtrar_correto_witness:
  "filtrar_paises_genero_unico
     [Pais_kw ''BOT'' 0 1 1 2 [''M''],
      Pais_kw ''QAT'' 1 0 0 1 [''M''],
      Pais_kw ''BEL'' 5 1 2 8 [''M'', ''W'']] 0 =
   Inr
     [Pais_kw ''BOT'' 0 1 1 2 [''M''],
      Pais_kw ''QAT'' 1 0 0 1 [''M'']] \<and>
   filtrar_paises_genero_unico [Pais_pos ''BRA'' 0 0 1 1] 0 = Inl TypeError"
  using filtrar_correto
    [of "[Pais_kw ''BOT'' 0 1 1 2 [''M''],
      Pais_kw ''QAT'' 1 0 0 1 [''M''],
      Pais_kw ''BEL'' 5 1 2 8 [''M'', ''W'']]"]
    filtrar_correto [of "[Pais_pos ''BRA'' 0 0 1 1]"]
  by (simp add: tem_generos_def genero_unico_def)

text \<open>
  C38. The filter at any index. From an index that is not negative it selects from
  the elements at that index and after it. A negative index down to minus the length
  is read from the end of the list, so the recursion selects from the last \<open>- index\<close>
  elements and then from the whole list again. An index below minus the length raises
  \<open>IndexError\<close>.
\<close>

theorem filtrar_indice:
  "filtrar_paises_genero_unico paises index =
     (if 0 \<le> index then filtra_lista (drop (nat index) paises)
      else if - int (length paises) \<le> index
        then filtra_lista (drop (nat (int (length paises) + index)) paises @ paises)
      else Inl IndexError)"
  by (simp add: filtrar_nao_negativo filtrar_negativo)

theorem filtrar_indice_witness:
  "filtrar_paises_genero_unico
     [Pais_kw ''BOT'' 0 1 1 2 [''M''],
      Pais_kw ''QAT'' 1 0 0 1 [''M'']] (- 1) =
   Inr
     [Pais_kw ''QAT'' 1 0 0 1 [''M''],
      Pais_kw ''BOT'' 0 1 1 2 [''M''],
      Pais_kw ''QAT'' 1 0 0 1 [''M'']]"
  using filtrar_indice
    [of "[Pais_kw ''BOT'' 0 1 1 2 [''M''],
      Pais_kw ''QAT'' 1 0 0 1 [''M'']]" "- 1"]
  by simp

text \<open>
  The filter keeps the order of its input and invents nothing: from index 0,
  what it returns is a subsequence of the list it was given.
\<close>

lemma filtrar_subsequencia:
  assumes "filtrar_paises_genero_unico paises 0 = Inr unicos"
  shows "subseq unicos paises"
  using assms by (auto simp: filtrar_zero filtra_lista_eq split: if_splits)

text \<open>
  C29. On a table that satisfies the table invariant, as every table built by the
  aggregator does, the filter does not raise and returns exactly the accumulators
  whose set of genders has one element, in the order of the table.
\<close>

theorem filtrar_quadro_ok:
  assumes "quadro_ok paises"
  shows "filtrar_paises_genero_unico paises 0 =
     Inr (filter (\<lambda>p. card (conjunto_generos p) = 1) paises)"
  using assms by (rule filtrar_quadro_ok_card)

theorem filtrar_quadro_ok_witness:
  "quadro_ok [Pais_kw ''BOT'' 0 1 1 2 [''M''], Pais_kw ''BEL'' 5 1 2 8 [''M'', ''W'']] \<and>
   filtrar_paises_genero_unico
     [Pais_kw ''BOT'' 0 1 1 2 [''M''], Pais_kw ''BEL'' 5 1 2 8 [''M'', ''W'']] 0 =
   Inr [Pais_kw ''BOT'' 0 1 1 2 [''M'']]"
proof -
  have ok: "quadro_ok [Pais_kw ''BOT'' 0 1 1 2 [''M''], Pais_kw ''BEL'' 5 1 2 8 [''M'', ''W'']]"
    by (simp add: quadro_ok_def pais_ok_def total_ok_def generos_ok_def)
  from ok filtrar_quadro_ok [OF ok] show ?thesis
    by (simp add: conjunto_generos_def)
qed

end
