(* ===== verification/Filtro_Limite.thy ===== *)
theory Filtro_Limite
  imports Filtro_Genero
begin

text \<open>
  \<^verbatim>\<open>filtrar_paises_genero_unico\<close> under a bound on the depth of the call stack. The
  function of the source calls itself once for every element of the list, and the
  interpreter raises \<^verbatim>\<open>RecursionError\<close> when the calls exceed its limit.
  \<open>filtrar_limitado\<close> is the same function with the number of calls that are still
  allowed as an extra argument: with none left the call raises \<open>RecursionError\<close>,
  otherwise the body runs and the recursive calls have one call less. The lemmas say
  how many calls are enough, and what happens when they are not.
\<close>

section \<open>Definitions\<close>

fun filtrar_limitado :: "nat \<Rightarrow> Pais list \<Rightarrow> int \<Rightarrow> Pais list resultado" where
  "filtrar_limitado 0 paises index = Inl RecursionError"
| "filtrar_limitado (Suc d) paises index =
     (if index \<ge> int (length paises) then Inr []
      else
        (case py_get paises index of
           Inl e \<Rightarrow> Inl e
         | Inr p \<Rightarrow>
             (case generos p of
                None \<Rightarrow> Inl TypeError
              | Some gs \<Rightarrow>
                  if length gs = 1 then
                    (case filtrar_limitado d paises (index + 1) of
                       Inl e \<Rightarrow> Inl e
                     | Inr resto \<Rightarrow> Inr (p # resto))
                  else filtrar_limitado d paises (index + 1))))"

text \<open>The same over the list itself.\<close>

fun filtra_limitada :: "nat \<Rightarrow> Pais list \<Rightarrow> Pais list resultado" where
  "filtra_limitada 0 ps = Inl RecursionError"
| "filtra_limitada (Suc d) [] = Inr []"
| "filtra_limitada (Suc d) (p # ps) =
     (case generos p of
        None \<Rightarrow> Inl TypeError
      | Some gs \<Rightarrow>
          if length gs = 1 then
            (case filtra_limitada d ps of Inl e \<Rightarrow> Inl e | Inr resto \<Rightarrow> Inr (p # resto))
          else filtra_limitada d ps)"

section \<open>The recursion under a bound\<close>

lemma filtrar_limitado_sufixo:
  "filtrar_limitado d (pre @ rest) (int (length pre)) = filtra_limitada d rest"
proof (induction d arbitrary: pre rest)
  case 0
  show ?case by simp
next
  case (Suc d)
  show ?case
  proof (cases rest)
    case Nil
    then show ?thesis by simp
  next
    case (Cons p rest')
    have "filtrar_limitado d ((pre @ [p]) @ rest') (int (length (pre @ [p]))) =
        filtra_limitada d rest'"
      by (rule Suc.IH)
    then have "filtrar_limitado d (pre @ p # rest') (int (length pre) + 1) =
        filtra_limitada d rest'"
      by (simp add: add.commute)
    then show ?thesis by (simp add: Cons split: option.splits)
  qed
qed

lemma filtrar_limitado_zero: "filtrar_limitado d ps 0 = filtra_limitada d ps"
  using filtrar_limitado_sufixo [of d "[]" ps] by simp

lemma filtra_limitada_bastante:
  "length ps < d \<Longrightarrow> filtra_limitada d ps = filtra_lista ps"
proof (induction ps arbitrary: d)
  case Nil
  then show ?case by (cases d) simp_all
next
  case (Cons p ps)
  then obtain d' where d: "d = Suc d'" and "length ps < d'" by (cases d) auto
  with Cons.IH [of d'] show ?case by (simp split: option.splits)
qed

lemma filtra_limitada_esgotada:
  "d \<le> length ps \<Longrightarrow>
   filtra_limitada d ps =
     (if list_all tem_generos (take d ps) then Inl RecursionError else Inl TypeError)"
proof (induction ps arbitrary: d)
  case Nil
  then show ?case by simp
next
  case (Cons p ps)
  show ?case
  proof (cases d)
    case 0
    then show ?thesis by simp
  next
    case (Suc d')
    with Cons.prems have "d' \<le> length ps" by simp
    from Cons.IH [OF this] Suc show ?thesis
      by (auto simp: tem_generos_def split: option.splits)
  qed
qed

lemma filtrar_limitado_quadro_ok:
  assumes "quadro_ok ps"
  shows "filtrar_limitado d ps 0 =
     (if length ps < d then Inr (filter genero_unico ps) else Inl RecursionError)"
proof -
  from assms have g: "list_all tem_generos ps" by (rule quadro_ok_tem_generos)
  then have "list_all tem_generos (take d ps)"
    by (auto simp: list_all_iff dest: in_set_takeD)
  with g show ?thesis
    by (simp add: filtrar_limitado_zero filtra_limitada_bastante filtra_limitada_esgotada
        filtra_lista_eq)
qed

section \<open>Properties of the bounded recursion\<close>

text \<open>
  C22. The filter under a limit of \<open>d\<close> nested calls, called from index 0 as the
  program calls it. When the list has fewer than \<open>d\<close> elements the limit is never
  reached and the result is the one of the unbounded function; otherwise no list is
  returned: the call raises \<open>RecursionError\<close>, or \<open>TypeError\<close> when one of the first
  \<open>d\<close> elements has no gender list. So the filter needs one call more than the list
  has elements.
\<close>

theorem filtrar_limitado_correto:
  "filtrar_limitado d paises 0 =
     (if length paises < d then filtrar_paises_genero_unico paises 0
      else if list_all tem_generos (take d paises) then Inl RecursionError
      else Inl TypeError)"
  by (simp add: filtrar_limitado_zero filtrar_zero filtra_limitada_bastante
      filtra_limitada_esgotada)

theorem filtrar_limitado_correto_witness:
  "filtrar_limitado 3 [Pais_kw ''BOT'' 0 1 1 2 [''M''], Pais_kw ''BEL'' 5 1 2 8 [''M'', ''W'']] 0 =
     Inr [Pais_kw ''BOT'' 0 1 1 2 [''M'']] \<and>
   filtrar_limitado 2 [Pais_kw ''BOT'' 0 1 1 2 [''M''], Pais_kw ''BEL'' 5 1 2 8 [''M'', ''W'']] 0 =
     Inl RecursionError"
  using filtrar_limitado_correto
      [of 3 "[Pais_kw ''BOT'' 0 1 1 2 [''M''], Pais_kw ''BEL'' 5 1 2 8 [''M'', ''W'']]"]
    filtrar_limitado_correto
      [of 2 "[Pais_kw ''BOT'' 0 1 1 2 [''M''], Pais_kw ''BEL'' 5 1 2 8 [''M'', ''W'']]"]
  by (simp add: filtrar_zero tem_generos_def)

end
