(* ===== verification/Relatorio.thy ===== *)
theory Relatorio
  imports Texto Modelo
begin

text \<open>
  The report renderer, \<^verbatim>\<open>exibir_quadro\<close> and \<^verbatim>\<open>exibir_paises_formatado\<close> of
  \<^verbatim>\<open>src/medalhas.py\<close>. The standard output is a list of lines, one for every call of
  \<^verbatim>\<open>print\<close>, without the line end that \<^verbatim>\<open>print\<close> adds. Both functions return the
  lines they print: a heading and one line for every country of the list, in the order
  of the list. \<open>cabecalho\<close> and \<open>linha_quadro\<close> are the two format strings of
  \<^verbatim>\<open>exibir_quadro\<close>, \<open>titulo_genero_unico\<close> and \<open>linha_pais\<close> the ones of
  \<^verbatim>\<open>exibir_paises_formatado\<close>. \<open>campos_linha\<close> reads a line of the table back: its
  words between spaces.
\<close>

section \<open>Definitions\<close>

definition cabecalho :: string where
  "cabecalho =
     ljust 15 (''Pa'' @ [CHR 0xED] @ ''s'') @ '' '' @ ljust 5 ''Ouro'' @ '' '' @
     ljust 5 ''Prata'' @ '' '' @ ljust 6 ''Bronze'' @ '' '' @ ljust 5 ''Total''"

definition linha_quadro :: "Pais \<Rightarrow> string" where
  "linha_quadro pais =
     ljust 15 (nome pais) @ '' '' @ ljust 5 (str_int (quant_ouro pais)) @ '' '' @
     ljust 5 (str_int (quant_prata pais)) @ '' '' @
     ljust 6 (str_int (quant_bronze pais)) @ '' '' @ ljust 5 (str_int (quant_total pais))"

definition exibir_quadro :: "Pais list \<Rightarrow> string list" where
  "exibir_quadro paises = cabecalho # map linha_quadro paises"

definition titulo_genero_unico :: string where
  "titulo_genero_unico =
     ''Pa'' @ [CHR 0xED] @ ''ses com atletas de um '' @ [CHR 0xFA] @ ''nico g'' @ [CHR 0xEA] @
     ''nero premiados:''"

definition linha_pais :: "Pais \<Rightarrow> string" where
  "linha_pais pais = ljust 15 (nome pais)"

definition exibir_paises_formatado :: "Pais list \<Rightarrow> string list" where
  "exibir_paises_formatado paises = titulo_genero_unico # map linha_pais paises"

text \<open>Reading a line of the table back.\<close>

definition campos_linha :: "string \<Rightarrow> string list" where
  "campos_linha l = filter (\<lambda>w. w \<noteq> []) (split CHR '' '' l)"

definition cabe :: "nat \<Rightarrow> int \<Rightarrow> bool" where
  "cabe n i \<longleftrightarrow> length (str_int i) \<le> n"

definition alinhado :: "Pais \<Rightarrow> bool" where
  "alinhado pais \<longleftrightarrow>
     length (nome pais) \<le> 15 \<and> cabe 5 (quant_ouro pais) \<and> cabe 5 (quant_prata pais) \<and>
     cabe 6 (quant_bronze pais) \<and> cabe 5 (quant_total pais)"

definition le_linha_quadro :: "string \<Rightarrow> (string \<times> int \<times> int \<times> int \<times> int) option" where
  "le_linha_quadro l =
     (case campos_linha l of
        [n, qo, qp, qb, qt] \<Rightarrow> Some (n, int_str qb, int_str qp, int_str qo, int_str qt)
      | _ \<Rightarrow> None)"

definition nome_simples :: "Pais \<Rightarrow> bool" where
  "nome_simples pais \<longleftrightarrow> nome pais \<noteq> [] \<and> CHR '' '' \<notin> set (nome pais)"

lemmas relatorio_defs [medalhas_defs] =
  cabecalho_def linha_quadro_def exibir_quadro_def titulo_genero_unico_def linha_pais_def
  exibir_paises_formatado_def campos_linha_def

section \<open>Words of a padded text\<close>

lemma filter_replicate_Nil [simp]: "filter (\<lambda>w. w \<noteq> []) (replicate k []) = []"
  by (induction k) auto

lemma campos_linha_Nil [simp]: "campos_linha [] = []"
  by (simp add: campos_linha_def)

lemma campos_linha_espacos [simp]:
  "campos_linha (replicate k CHR '' '' @ s) = campos_linha s"
  by (simp add: campos_linha_def split_replicate_sep)

lemma campos_linha_palavra:
  "CHR '' '' \<notin> set w \<Longrightarrow> w \<noteq> [] \<Longrightarrow> campos_linha (w @ CHR '' '' # s) = w # campos_linha s"
  by (simp add: campos_linha_def split_append_sep)

lemma campos_linha_ljust:
  assumes "CHR '' '' \<notin> set w" and "w \<noteq> []"
  shows "campos_linha (ljust n w @ CHR '' '' # s) = w # campos_linha s"
proof -
  have "ljust n w @ CHR '' '' # s = w @ CHR '' '' # (replicate (n - length w) CHR '' '' @ s)"
    by (simp add: ljust_def replicate_app_Cons_same)
  then have "campos_linha (ljust n w @ CHR '' '' # s) =
      campos_linha (w @ CHR '' '' # (replicate (n - length w) CHR '' '' @ s))"
    by (rule arg_cong)
  also from assms have "\<dots> = w # campos_linha (replicate (n - length w) CHR '' '' @ s)"
    by (rule campos_linha_palavra)
  finally show ?thesis by simp
qed

lemma campos_linha_ljust_fim:
  assumes "CHR '' '' \<notin> set w" and "w \<noteq> []"
  shows "campos_linha (ljust n w) = [w]"
proof (cases "n - length w")
  case 0
  with assms show ?thesis by (simp add: ljust_def campos_linha_def)
next
  case (Suc m)
  then have "ljust n w = w @ CHR '' '' # (replicate m CHR '' '' @ [])"
    by (simp add: ljust_def)
  then have "campos_linha (ljust n w) = campos_linha (w @ CHR '' '' # (replicate m CHR '' '' @ []))"
    by (rule arg_cong)
  also from assms have "\<dots> = w # campos_linha (replicate m CHR '' '' @ [])"
    by (rule campos_linha_palavra)
  finally show ?thesis by (simp del: append_Nil2)
qed

lemma str_int_sem_espaco [simp]: "CHR '' '' \<notin> set (str_int i)"
proof -
  have "CHR '' '' \<notin> set (digitos n)" for n
  proof
    assume "CHR '' '' \<in> set (digitos n)"
    then have "CHR '' '' \<in> char_of ` {48 ..< 58::nat}" by (rule digitos_algarismos)
    then obtain k :: nat where "48 \<le> k" "k < 58" "CHR '' '' = char_of k" by auto
    then have "of_char (CHR '' '') = (of_char (char_of k :: char) :: nat)" by simp
    with \<open>48 \<le> k\<close> \<open>k < 58\<close> show False by simp
  qed
  then show ?thesis by (simp add: str_int_def)
qed

lemma campos_linha_quadro:
  assumes "nome pais \<noteq> []" and "CHR '' '' \<notin> set (nome pais)"
  shows "campos_linha (linha_quadro pais) =
     [nome pais, str_int (quant_ouro pais), str_int (quant_prata pais),
      str_int (quant_bronze pais), str_int (quant_total pais)]"
  using assms
  by (simp add: linha_quadro_def campos_linha_ljust campos_linha_ljust_fim)

section \<open>Widths\<close>

lemma cabe_iff: "0 \<le> i \<Longrightarrow> 0 < n \<Longrightarrow> cabe n i \<longleftrightarrow> i < 10 ^ n"
proof -
  assume i: "0 \<le> i" and n: "0 < n"
  have "cabe n i \<longleftrightarrow> nat i < 10 ^ n"
    using i n by (simp add: cabe_def str_int_def length_digitos_le)
  also have "\<dots> \<longleftrightarrow> i < 10 ^ n"
    using i by (simp add: nat_less_iff)
  finally show ?thesis .
qed

lemma length_cabecalho [simp]: "length cabecalho = 40"
  by (simp add: cabecalho_def)

lemma length_linha_quadro_ge: "40 \<le> length (linha_quadro pais)"
  by (simp add: linha_quadro_def)

lemma length_linha_quadro: "alinhado pais \<Longrightarrow> length (linha_quadro pais) = 40"
  by (simp add: linha_quadro_def alinhado_def cabe_def)

lemma length_linha_pais: "length (linha_pais pais) = max 15 (length (nome pais))"
  by (simp add: linha_pais_def)

lemma length_exibir_quadro [simp]: "length (exibir_quadro paises) = Suc (length paises)"
  by (simp add: exibir_quadro_def)

lemma length_exibir_paises_formatado [simp]:
  "length (exibir_paises_formatado paises) = Suc (length paises)"
  by (simp add: exibir_paises_formatado_def)

lemma exibir_quadro_append:
  "exibir_quadro (ps @ qs) = exibir_quadro ps @ map linha_quadro qs"
  by (simp add: exibir_quadro_def)

lemma length_linha_quadro_iff: "length (linha_quadro pais) = 40 \<longleftrightarrow> alinhado pais"
  by (auto simp: linha_quadro_def alinhado_def cabe_def)

lemma le_linha_quadro_linha:
  "nome_simples pais \<Longrightarrow> le_linha_quadro (linha_quadro pais) = Some (contagens pais)"
  by (simp add: le_linha_quadro_def nome_simples_def campos_linha_quadro contagens_def)

lemma campos_linha_pais: "nome_simples pais \<Longrightarrow> campos_linha (linha_pais pais) = [nome pais]"
  by (simp add: nome_simples_def linha_pais_def campos_linha_ljust_fim)

lemma sem_LF_cabecalho [simp]: "LF \<notin> set cabecalho" "LF \<notin> set titulo_genero_unico"
  by (simp_all add: cabecalho_def titulo_genero_unico_def)

lemma sem_LF_linha_quadro [simp]: "LF \<in> set (linha_quadro p) \<longleftrightarrow> LF \<in> set (nome p)"
  by (simp add: linha_quadro_def)

lemma sem_LF_linha_pais [simp]: "LF \<in> set (linha_pais p) \<longleftrightarrow> LF \<in> set (nome p)"
  by (simp add: linha_pais_def)

section \<open>Properties of the renderer\<close>

text \<open>
  C17. The medal table is one heading and one line for every country, in the order of
  the list. No line is shorter than the 40 characters of the heading, and every line
  has exactly 40 characters, so that the columns are aligned, if and only if every
  name has at most 15 characters and every counter fits its column (5 characters for
  gold, silver and the total, 6 for bronze): a longer value is never cut, it pushes
  the rest of its line to the right.
\<close>

theorem exibir_quadro_largura:
  "length (exibir_quadro paises) = 1 + length paises \<and>
   hd (exibir_quadro paises) = cabecalho \<and>
   (\<forall>l \<in> set (exibir_quadro paises). 40 \<le> length l) \<and>
   ((\<forall>l \<in> set (exibir_quadro paises). length l = 40) \<longleftrightarrow> list_all alinhado paises)"
  by (auto simp: exibir_quadro_def length_linha_quadro_ge length_linha_quadro_iff list_all_iff)

theorem exibir_quadro_largura_witness:
  "length (exibir_quadro [Pais_kw ''BRA'' 1 0 1 2 [''M''], Pais_kw ''Trinidad and Tobago'' 0 1 0 1 [''F'']]) = 3 \<and>
   \<not> (\<forall>l \<in> set (exibir_quadro [Pais_kw ''BRA'' 1 0 1 2 [''M''], Pais_kw ''Trinidad and Tobago'' 0 1 0 1 [''F'']]).
        length l = 40) \<and>
   list_all alinhado [Pais_kw ''BRA'' 1 0 1 2 [''M'']] \<and>
   map length (exibir_quadro [Pais_kw ''BRA'' 1 0 1 2 [''M'']]) = [40, 40]"
  using exibir_quadro_largura [of "[Pais_kw ''BRA'' 1 0 1 2 [''M''], Pais_kw ''Trinidad and Tobago'' 0 1 0 1 [''F'']]"]
    exibir_quadro_largura [of "[Pais_kw ''BRA'' 1 0 1 2 [''M'']]"]
  by (simp add: alinhado_def cabe_def exibir_quadro_def linha_quadro_def medalhas_defs)

text \<open>
  C18. The medal table can be read back: when no name is empty or holds a space, the
  words of every line after the heading are the name and the four counters of its
  country, so the printed table determines the name and the counters of every country
  of the list, in order.
\<close>

theorem exibir_quadro_leitura:
  assumes "list_all nome_simples paises"
  shows "map le_linha_quadro (tl (exibir_quadro paises)) = map (\<lambda>pais. Some (contagens pais)) paises"
  using assms by (simp add: exibir_quadro_def list_all_iff le_linha_quadro_linha)

theorem exibir_quadro_leitura_witness:
  "map le_linha_quadro (tl (exibir_quadro [Pais_kw ''BRA'' 1 0 12 13 [''M''], Pais_kw ''USA'' 0 1 0 1 [''F'']])) =
     [Some (''BRA'', 1, 0, 12, 13), Some (''USA'', 0, 1, 0, 1)]"
  using exibir_quadro_leitura [of "[Pais_kw ''BRA'' 1 0 12 13 [''M''], Pais_kw ''USA'' 0 1 0 1 [''F'']]"]
  by (simp add: nome_simples_def contagens_def)

text \<open>
  C36. The single-gender report is its title and one line for every country of the
  list, in order; the line of a country is its name followed by spaces up to 15
  characters, and the name alone when it is longer, so the name is on the left and
  the length of the line is the larger of 15 and the length of the name; when the
  name is not empty and holds no space, the only word of the line is the name.
\<close>

theorem exibir_paises_formatado_linhas:
  "length (exibir_paises_formatado paises) = 1 + length paises \<and>
   hd (exibir_paises_formatado paises) = titulo_genero_unico \<and>
   tl (exibir_paises_formatado paises) =
     map (\<lambda>pais. nome pais @ replicate (15 - length (nome pais)) CHR '' '') paises \<and>
   map length (tl (exibir_paises_formatado paises)) = map (\<lambda>pais. max 15 (length (nome pais))) paises \<and>
   (list_all nome_simples paises \<longrightarrow>
      map campos_linha (tl (exibir_paises_formatado paises)) = map (\<lambda>pais. [nome pais]) paises)"
proof -
  have "tl (exibir_paises_formatado paises) = map linha_pais paises"
    by (simp add: exibir_paises_formatado_def)
  then show ?thesis
    by (simp add: exibir_paises_formatado_def length_linha_pais list_all_iff campos_linha_pais)
      (simp add: linha_pais_def ljust_def)
qed

theorem exibir_paises_formatado_linhas_witness:
  "exibir_paises_formatado [Pais_kw ''BOT'' 0 1 1 2 [''M'']] =
     [titulo_genero_unico, ''BOT            ''] \<and>
   map campos_linha (tl (exibir_paises_formatado [Pais_kw ''BOT'' 0 1 1 2 [''M'']])) = [[''BOT'']]"
  using exibir_paises_formatado_linhas [of "[Pais_kw ''BOT'' 0 1 1 2 [''M'']]"]
  by (simp add: nome_simples_def exibir_paises_formatado_def linha_pais_def ljust_def
      numeral_eq_Suc)

end
