(* ===== verification/Principal.thy ===== *)
theory Principal
  imports Leitor Projetor Agregador Classificador Filtro_Genero Filtro_Limite Relatorio
begin

text \<open>
  The program, \<^verbatim>\<open>main\<close> of \<^verbatim>\<open>src/medalhas.py\<close>. \<open>main_nucleo\<close> is the four calls
  between reading and printing, with the aliasing of the source written out: the
  filter receives the list as \<open>ordena\<close> left it. \<open>main\<close> is the function: the two
  checks of the argument vector with their messages and exits, the call of the reader,
  the pipeline, and the two printing calls. It takes the file system and the argument
  vector and returns the lines printed and the outcome, which is the normal end or the
  exception that ends the program. \<open>classificacao\<close> and \<open>relatorio\<close> say what the
  ranking and the output should be for a table of rows; the lemmas give the closed
  form of the pipeline and of the program in their terms, and what the line feed
  that the reader leaves in the last field does to the single-gender report.
\<close>

section \<open>The pipeline of main\<close>

definition main_nucleo :: "string list list \<Rightarrow> (Pais list \<times> Pais list) resultado" where
  "main_nucleo tabela =
     (case filtro_tabela tabela of
        Inl e \<Rightarrow> Inl e
      | Inr tabela_filtrada \<Rightarrow>
          (case quadro tabela_filtrada of
             Inl e \<Rightarrow> Inl e
           | Inr tabela_enumerada \<Rightarrow>
               (case ordena tabela_enumerada of
                  Inl e \<Rightarrow> Inl e
                | Inr quadro_organizado \<Rightarrow>
                    (case filtrar_paises_genero_unico quadro_organizado 0 of
                       Inl e \<Rightarrow> Inl e
                     | Inr paises_genero \<Rightarrow> Inr (quadro_organizado, paises_genero)))))"

text \<open>What the pipeline should return as the ranking: the stable sort of the summary of
  the projected rows.\<close>

definition classificacao :: "string list list \<Rightarrow> Pais list" where
  "classificacao tabela = sort_key chave (quadro_spec (map projeta tabela))"

section \<open>The program\<close>

definition uso_sem_arquivo :: string where
  "uso_sem_arquivo = ''Nenhum nome de arquivo informado.''"

definition uso_muitos_parametros :: string where
  "uso_muitos_parametros =
     ''Muitos par'' @ [CHR 0xE2] @ ''metros. Informe apenas um nome de arquivo.''"

definition main :: "arquivos \<Rightarrow> string list \<Rightarrow> string list \<times> unit resultado" where
  "main fs argv =
     (if length argv < 2 then ([uso_sem_arquivo], Inl (SystemExit 1))
      else if length argv > 2 then ([uso_muitos_parametros], Inl (SystemExit 1))
      else
        (case le_arquivo fs (argv ! 1) of
           (saida, Inl e) \<Rightarrow> (saida, Inl e)
         | (saida, Inr tabela) \<Rightarrow>
             (case main_nucleo tabela of
                Inl e \<Rightarrow> (saida, Inl e)
              | Inr (quadro_organizado, paises_genero) \<Rightarrow>
                  (saida @ exibir_quadro quadro_organizado @
                     exibir_paises_formatado paises_genero,
                   Inr ()))))"

text \<open>What the program should print for a table of rows.\<close>

definition relatorio :: "string list list \<Rightarrow> string list" where
  "relatorio tabela =
     exibir_quadro (classificacao tabela) @
     exibir_paises_formatado (filter genero_unico (classificacao tabela))"

section \<open>The program under a limit on the call depth\<close>

text \<open>
  The same two functions run by an interpreter that allows \<open>d\<close> nested calls of the
  filter: the only difference is that the filter is \<open>filtrar_limitado d\<close>.
  \<open>executa\<close> is the module run as a script, which calls \<^verbatim>\<open>main\<close>: the lines printed
  and the exit status of the process, 0 after a normal end, the argument of
  \<^verbatim>\<open>sys.exit\<close> after \<open>SystemExit\<close>, and 1 after any other exception, which nothing
  catches.
\<close>

definition main_nucleo_limitado ::
  "nat \<Rightarrow> string list list \<Rightarrow> (Pais list \<times> Pais list) resultado" where
  "main_nucleo_limitado d tabela =
     (case filtro_tabela tabela of
        Inl e \<Rightarrow> Inl e
      | Inr tabela_filtrada \<Rightarrow>
          (case quadro tabela_filtrada of
             Inl e \<Rightarrow> Inl e
           | Inr tabela_enumerada \<Rightarrow>
               (case ordena tabela_enumerada of
                  Inl e \<Rightarrow> Inl e
                | Inr quadro_organizado \<Rightarrow>
                    (case filtrar_limitado d quadro_organizado 0 of
                       Inl e \<Rightarrow> Inl e
                     | Inr paises_genero \<Rightarrow> Inr (quadro_organizado, paises_genero)))))"

definition main_limitado ::
  "nat \<Rightarrow> arquivos \<Rightarrow> string list \<Rightarrow> string list \<times> unit resultado" where
  "main_limitado d fs argv =
     (if length argv < 2 then ([uso_sem_arquivo], Inl (SystemExit 1))
      else if length argv > 2 then ([uso_muitos_parametros], Inl (SystemExit 1))
      else
        (case le_arquivo fs (argv ! 1) of
           (saida, Inl e) \<Rightarrow> (saida, Inl e)
         | (saida, Inr tabela) \<Rightarrow>
             (case main_nucleo_limitado d tabela of
                Inl e \<Rightarrow> (saida, Inl e)
              | Inr (quadro_organizado, paises_genero) \<Rightarrow>
                  (saida @ exibir_quadro quadro_organizado @
                     exibir_paises_formatado paises_genero,
                   Inr ()))))"

definition executa :: "nat \<Rightarrow> arquivos \<Rightarrow> string list \<Rightarrow> string list \<times> int" where
  "executa d fs argv =
     (case main_limitado d fs argv of
        (saida, Inr u) \<Rightarrow> (saida, 0)
      | (saida, Inl (SystemExit n)) \<Rightarrow> (saida, n)
      | (saida, Inl e) \<Rightarrow> (saida, 1))"

section \<open>The pipeline in closed form\<close>

lemma quadro_projetada:
  "quadro (map projeta tabela) = Inr (quadro_spec (map projeta tabela))"
  by (simp add: quadro_eq list_all_iff)

lemma quadro_ok_classificado: "quadro_ok (sort_key chave (quadro_spec linhas))"
  using quadro_ok_mset [of "sort_key chave (quadro_spec linhas)" "quadro_spec linhas"]
  by (simp add: quadro_ok_quadro_spec)

lemma main_nucleo_eq:
  "main_nucleo tabela =
     (if list_all (\<lambda>item. 6 \<le> length item) tabela
      then Inr (classificacao tabela,
                filter (\<lambda>p. card (conjunto_generos p) = 1) (classificacao tabela))
      else Inl IndexError)"
  by (simp add: main_nucleo_def filtro_tabela_eq quadro_projetada ordena_sort_key
      filtrar_quadro_ok_card quadro_ok_classificado classificacao_def)

section \<open>Properties of the pipeline\<close>

text \<open>
  C3. The pipeline end to end: on a table whose rows all have at least six fields,
  \<open>main_nucleo\<close> returns the ranking, which is the stable sort by gold, silver and
  bronze of the summary of the projected rows, together with the accumulators of the
  ranking whose set of genders has exactly one element, in the order of the ranking;
  on any other table it raises \<open>IndexError\<close>. No other exception can leave the
  pipeline.
\<close>

theorem main_nucleo_correto:
  "main_nucleo tabela =
     (if list_all (\<lambda>item. 6 \<le> length item) tabela
      then Inr (classificacao tabela,
                filter (\<lambda>p. card (conjunto_generos p) = 1) (classificacao tabela))
      else Inl IndexError)"
  by (rule main_nucleo_eq)

theorem main_nucleo_correto_witness:
  "main_nucleo
     [[''x'', ''1'', ''x'', ''x'', ''BRA'', ''M''], [''x'', ''2'', ''x'', ''x'', ''USA'', ''F''],
      [''x'', ''3'', ''x'', ''x'', ''BRA'', ''M''], [''x'', ''1'', ''x'', ''x'', ''FRA'', ''M'']] =
   Inr ([Pais_kw ''BRA'' 1 0 1 2 [''M''], Pais_kw ''FRA'' 0 0 1 1 [''M''],
         Pais_kw ''USA'' 0 1 0 1 [''F'']],
        [Pais_kw ''BRA'' 1 0 1 2 [''M''], Pais_kw ''FRA'' 0 0 1 1 [''M''],
         Pais_kw ''USA'' 0 1 0 1 [''F'']])"
  using main_nucleo_correto
    [of "[[''x'', ''1'', ''x'', ''x'', ''BRA'', ''M''], [''x'', ''2'', ''x'', ''x'', ''USA'', ''F''],
      [''x'', ''3'', ''x'', ''x'', ''BRA'', ''M''], [''x'', ''1'', ''x'', ''x'', ''FRA'', ''M'']]"]
  by (simp add: classificacao_def medalhas_defs conjunto_generos_def chave_def)

text \<open>
  C31. What holds of every pair the pipeline returns: the ranking satisfies the table
  invariant and is ordered by \<open>antes\<close>; its names are the countries of the input (field
  4 of the rows) without repetition; the single-gender list is a subsequence of the
  ranking, so it is itself in ranking order.
\<close>

theorem main_nucleo_invariantes:
  assumes "main_nucleo tabela = Inr (quadro_organizado, paises_genero)"
  shows "quadro_ok quadro_organizado \<and> sorted_wrt antes quadro_organizado \<and>
     set (map nome quadro_organizado) = (\<lambda>item. item ! 4) ` set tabela \<and>
     subseq paises_genero quadro_organizado \<and> sorted_wrt antes paises_genero"
proof -
  from assms have q: "quadro_organizado = classificacao tabela"
    and p: "paises_genero = filter (\<lambda>p. card (conjunto_generos p) = 1) quadro_organizado"
    by (auto simp: main_nucleo_eq split: if_splits)
  have ok: "quadro_ok quadro_organizado"
    by (simp add: q classificacao_def quadro_ok_classificado)
  have s: "sorted_wrt antes quadro_organizado"
    by (simp add: q classificacao_def sorted_wrt_antes_chave)
  have n: "set (map nome quadro_organizado) = (\<lambda>item. item ! 4) ` set tabela"
    by (simp add: q classificacao_def quadro_spec_def image_image pais_de_def projeta_def)
  from s have "sorted_wrt antes paises_genero"
    unfolding p by (rule sorted_wrt_filter)
  with ok s n show ?thesis by (simp add: p)
qed

theorem main_nucleo_invariantes_witness:
  "main_nucleo
     [[''x'', ''3'', ''x'', ''x'', ''QAT'', ''M''], [''x'', ''1'', ''x'', ''x'', ''BRA'', ''M''],
      [''x'', ''1'', ''x'', ''x'', ''USA'', ''F''], [''x'', ''1'', ''x'', ''x'', ''USA'', ''M'']] =
   Inr ([Pais_kw ''USA'' 0 0 2 2 [''F'', ''M''], Pais_kw ''BRA'' 0 0 1 1 [''M''],
         Pais_kw ''QAT'' 1 0 0 1 [''M'']],
        [Pais_kw ''BRA'' 0 0 1 1 [''M''], Pais_kw ''QAT'' 1 0 0 1 [''M'']]) \<and>
   subseq [Pais_kw ''BRA'' 0 0 1 1 [''M''], Pais_kw ''QAT'' 1 0 0 1 [''M'']]
     [Pais_kw ''USA'' 0 0 2 2 [''F'', ''M''], Pais_kw ''BRA'' 0 0 1 1 [''M''],
      Pais_kw ''QAT'' 1 0 0 1 [''M'']]"
proof -
  have m: "main_nucleo
     [[''x'', ''3'', ''x'', ''x'', ''QAT'', ''M''], [''x'', ''1'', ''x'', ''x'', ''BRA'', ''M''],
      [''x'', ''1'', ''x'', ''x'', ''USA'', ''F''], [''x'', ''1'', ''x'', ''x'', ''USA'', ''M'']] =
   Inr ([Pais_kw ''USA'' 0 0 2 2 [''F'', ''M''], Pais_kw ''BRA'' 0 0 1 1 [''M''],
         Pais_kw ''QAT'' 1 0 0 1 [''M'']],
        [Pais_kw ''BRA'' 0 0 1 1 [''M''], Pais_kw ''QAT'' 1 0 0 1 [''M'']])"
    by (simp add: main_nucleo_eq classificacao_def medalhas_defs conjunto_generos_def chave_def)
  from m main_nucleo_invariantes [OF m] show ?thesis by simp
qed

section \<open>The program in closed form\<close>

lemma main_uso:
  "length argv \<noteq> 2 \<Longrightarrow>
   main fs argv =
     ([if length argv < 2 then uso_sem_arquivo else uso_muitos_parametros], Inl (SystemExit 1))"
  by (simp add: main_def)

lemma main_leitura:
  "fs arq = Inl (errno, strerror) \<Longrightarrow>
   main fs [prog, arq] = ([erro_leitura arq errno strerror], Inl (SystemExit 1))"
  by (simp add: main_def le_arquivo_Inl)

lemma main_eq:
  assumes "fs arq = Inr texto"
  shows "main fs [prog, arq] =
     (let tabela = map (split CHR '','') (tl (readlines texto))
      in if list_all (\<lambda>item. 6 \<le> length item) tabela then (relatorio tabela, Inr ())
         else ([], Inl IndexError))"
  using assms
  by (simp add: main_def le_arquivo_Inr main_nucleo_eq relatorio_def Let_def
      filter_genero_unico_card classificacao_def quadro_ok_classificado)

lemma main_Inr_iff:
  "main fs argv = (saida, Inr u) \<longleftrightarrow>
     length argv = 2 \<and>
     (\<exists>texto. fs (argv ! 1) = Inr texto \<and>
        list_all (\<lambda>item. 6 \<le> length item) (map (split CHR '','') (tl (readlines texto))) \<and>
        saida = relatorio (map (split CHR '','') (tl (readlines texto))))"
proof (cases "length argv = 2")
  case False
  then show ?thesis by (auto simp: main_def)
next
  case True
  then obtain prog arq where argv: "argv = [prog, arq]"
    by (cases argv; cases "tl argv") auto
  show ?thesis
  proof (cases "fs arq")
    case (Inl a)
    then show ?thesis by (cases a) (simp add: argv main_leitura)
  next
    case (Inr texto)
    then show ?thesis by (auto simp: argv main_eq Let_def)
  qed
qed

lemma hd_cabecalho [simp]: "hd cabecalho = CHR ''P''"
  by (simp add: cabecalho_def ljust_def)

lemma hd_titulo_genero_unico [simp]: "hd titulo_genero_unico = CHR ''P''"
  by (simp add: titulo_genero_unico_def)

lemma hd_mensagens [simp]:
  "hd uso_sem_arquivo = CHR ''N''" "hd uso_muitos_parametros = CHR ''M''"
  "hd (erro_leitura arq errno strerror) = CHR ''E''"
  by (simp_all add: uso_sem_arquivo_def uso_muitos_parametros_def erro_leitura_def)

lemma mensagens_nao_relatorio [simp]:
  "uso_sem_arquivo \<noteq> cabecalho" "uso_muitos_parametros \<noteq> cabecalho"
  "erro_leitura arq errno strerror \<noteq> cabecalho"
  "uso_sem_arquivo \<noteq> titulo_genero_unico" "uso_muitos_parametros \<noteq> titulo_genero_unico"
  "erro_leitura arq errno strerror \<noteq> titulo_genero_unico"
  by (auto dest: arg_cong [where f = hd])

lemma main_Inl:
  assumes "main fs argv = (saida, Inl e)"
  shows "e = SystemExit 1 \<and> (\<exists>m. saida = [m] \<and> m \<noteq> cabecalho \<and> m \<noteq> titulo_genero_unico) \<or>
     e = IndexError \<and> saida = []"
proof (cases "length argv = 2")
  case False
  with assms show ?thesis by (auto simp: main_uso split: if_splits)
next
  case True
  then obtain prog arq where argv: "argv = [prog, arq]"
    by (cases argv; cases "tl argv") auto
  show ?thesis
  proof (cases "fs arq")
    case (Inl a)
    with assms show ?thesis by (cases a) (auto simp: argv main_leitura)
  next
    case (Inr texto)
    with assms show ?thesis by (auto simp: argv main_eq Let_def split: if_splits)
  qed
qed

section \<open>The program under a limit, in closed form\<close>

lemma length_classificacao:
  "length (classificacao tabela) = card ((\<lambda>item. item ! 4) ` set tabela)"
  by (simp add: classificacao_def quadro_spec_def length_primeiros_card image_image
      pais_de_def projeta_def)

lemma main_nucleo_limitado_eq:
  "main_nucleo_limitado d tabela =
     (if list_all (\<lambda>item. 6 \<le> length item) tabela
      then if length (classificacao tabela) < d
           then Inr (classificacao tabela, filter genero_unico (classificacao tabela))
           else Inl RecursionError
      else Inl IndexError)"
  by (simp add: main_nucleo_limitado_def filtro_tabela_eq quadro_projetada ordena_sort_key
      filtrar_limitado_quadro_ok quadro_ok_classificado classificacao_def)

lemma main_nucleo_limitado_bastante:
  "length (classificacao tabela) < d \<Longrightarrow> main_nucleo_limitado d tabela = main_nucleo tabela"
  by (simp add: main_nucleo_limitado_eq main_nucleo_eq classificacao_def
      filter_genero_unico_card quadro_ok_classificado)

lemma main_limitado_uso:
  "length argv \<noteq> 2 \<Longrightarrow>
   main_limitado d fs argv =
     ([if length argv < 2 then uso_sem_arquivo else uso_muitos_parametros], Inl (SystemExit 1))"
  by (simp add: main_limitado_def)

lemma main_limitado_leitura:
  "fs arq = Inl (errno, strerror) \<Longrightarrow>
   main_limitado d fs [prog, arq] = ([erro_leitura arq errno strerror], Inl (SystemExit 1))"
  by (simp add: main_limitado_def le_arquivo_Inl)

lemma main_limitado_eq:
  assumes "fs arq = Inr texto"
  shows "main_limitado d fs [prog, arq] =
     (let tabela = map (split CHR '','') (tl (readlines texto))
      in if list_all (\<lambda>item. 6 \<le> length item) tabela
         then if length (classificacao tabela) < d then (relatorio tabela, Inr ())
              else ([], Inl RecursionError)
         else ([], Inl IndexError))"
  using assms
  by (simp add: main_limitado_def le_arquivo_Inr main_nucleo_limitado_eq relatorio_def Let_def)

lemma main_limitado_bastante:
  assumes "length argv = 2 \<longrightarrow>
    (\<forall>texto. fs (argv ! 1) = Inr texto \<longrightarrow>
       card ((\<lambda>item. item ! 4) ` set (map (split CHR '','') (tl (readlines texto)))) < d)"
  shows "main_limitado d fs argv = main fs argv"
proof (cases "length argv = 2")
  case False
  then show ?thesis by (simp add: main_limitado_uso main_uso)
next
  case True
  then obtain prog arq where argv: "argv = [prog, arq]"
    by (cases argv; cases "tl argv") auto
  show ?thesis
  proof (cases "fs arq")
    case (Inl a)
    then show ?thesis by (cases a) (simp add: argv main_limitado_leitura main_leitura)
  next
    case (Inr texto)
    with assms argv have "card ((\<lambda>item. item ! 4) ` set (map (split CHR '','') (tl (readlines texto)))) < d"
      by simp
    with Inr show ?thesis
      by (simp add: argv main_limitado_eq main_eq Let_def length_classificacao)
  qed
qed

section \<open>The output as a text\<close>

lemma nome_classificacao:
  "set (map nome (classificacao tabela)) = (\<lambda>item. item ! 4) ` set tabela"
  by (simp add: classificacao_def quadro_spec_def image_image pais_de_def projeta_def)

lemma relatorio_sem_LF:
  assumes "list_all (\<lambda>item. LF \<notin> set (item ! 4)) tabela"
  shows "list_all (\<lambda>l. LF \<notin> set l) (relatorio tabela)"
proof -
  have "LF \<notin> set (nome p)" if "p \<in> set (classificacao tabela)" for p
  proof -
    from that have "nome p \<in> set (map nome (classificacao tabela))" by simp
    then obtain item where "item \<in> set tabela" "nome p = item ! 4"
      unfolding nome_classificacao by auto
    with assms show ?thesis by (simp add: list_all_iff)
  qed
  then show ?thesis
    by (auto simp: relatorio_def exibir_quadro_def exibir_paises_formatado_def list_all_iff)
qed

lemma main_sem_LF:
  assumes "main fs argv = (saida, Inr u)"
  shows "list_all (\<lambda>l. LF \<notin> set l) saida"
proof -
  from assms obtain texto where
    t: "list_all (\<lambda>item. 6 \<le> length item) (map (split CHR '','') (tl (readlines texto)))"
    and s: "saida = relatorio (map (split CHR '','') (tl (readlines texto)))"
    by (auto simp: main_Inr_iff)
  have "LF \<notin> set (item ! 4)" if "item \<in> set (map (split CHR '','') (tl (readlines texto)))" for item
  proof -
    from that have "item \<in> set (le_linhas (readlines texto))" by (simp add: le_linhas_tl)
    moreover from that t have "Suc 4 < length item" by (auto simp: list_all_iff)
    ultimately show ?thesis by (rule le_linhas_sem_LF)
  qed
  then have "list_all (\<lambda>item. LF \<notin> set (item ! 4)) (map (split CHR '','') (tl (readlines texto)))"
    by (simp add: list_all_iff)
  then show ?thesis unfolding s by (rule relatorio_sem_LF)
qed

section \<open>Properties of the program\<close>

text \<open>
  C7. The whole program as a function of the command line and the file system. With
  no file name, or with more than one, it prints the usage message of that case and
  exits with status 1 without opening a file. When the file cannot be read it prints
  the message of the error, with the name of the file, the error number and its text,
  and exits with status 1. Otherwise the table is the lines after the first, split on
  commas; when every row has at least six fields the program prints the medal table
  of the ranking followed by the single-gender report and ends normally, and when
  some row is shorter it prints nothing and ends with \<open>IndexError\<close>.
\<close>

theorem main_correto:
  "main fs argv =
     (if length argv < 2 then ([uso_sem_arquivo], Inl (SystemExit 1))
      else if length argv > 2 then ([uso_muitos_parametros], Inl (SystemExit 1))
      else
        (case fs (argv ! 1) of
           Inl (errno, strerror) \<Rightarrow>
             ([erro_leitura (argv ! 1) errno strerror], Inl (SystemExit 1))
         | Inr texto \<Rightarrow>
             (let tabela = map (split CHR '','') (tl (readlines texto))
              in if list_all (\<lambda>item. 6 \<le> length item) tabela then (relatorio tabela, Inr ())
                 else ([], Inl IndexError))))"
proof (cases "length argv = 2")
  case False
  then show ?thesis by (auto simp: main_uso)
next
  case True
  then obtain prog arq where argv: "argv = [prog, arq]"
    by (cases argv; cases "tl argv") auto
  show ?thesis
  proof (cases "fs arq")
    case (Inl a)
    then show ?thesis by (cases a) (simp add: argv main_leitura)
  next
    case (Inr texto)
    then show ?thesis by (simp add: argv main_eq)
  qed
qed

theorem main_correto_witness:
  "main (\<lambda>n. if n = ''m.csv''
             then Inr (''a,b,c,d,e,f'' @ [LF] @ ''x,1,x,x,BRA,M'' @ [LF] @ ''x,2,x,x,USA,F'' @ [LF])
             else Inl (2, ''No such file or directory''))
     [''medalhas.py'', ''m.csv''] =
   ([cabecalho,
     ''BRA             1     0     0      1    '',
     ''USA             0     1     0      1    '',
     titulo_genero_unico,
     ''BRA            '',
     ''USA            ''], Inr ()) \<and>
   main (\<lambda>n. if n = ''m.csv'' then Inr [] else Inl (2, ''No such file or directory''))
     [''medalhas.py'', ''n.csv''] =
   ([''Erro na leitura do arquivo '' @ [CHR 0x22] @ ''n.csv'' @ [CHR 0x22] @
       '': 2 - No such file or directory.''], Inl (SystemExit 1))"
  using main_correto
      [of "\<lambda>n. if n = ''m.csv''
             then Inr (''a,b,c,d,e,f'' @ [LF] @ ''x,1,x,x,BRA,M'' @ [LF] @ ''x,2,x,x,USA,F'' @ [LF])
             else Inl (2, ''No such file or directory'')" "[''medalhas.py'', ''m.csv'']"]
    main_correto
      [of "\<lambda>n. if n = ''m.csv'' then Inr [] else Inl (2, ''No such file or directory'')"
        "[''medalhas.py'', ''n.csv'']"]
  by (simp add: relatorio_def classificacao_def medalhas_defs chave_def genero_unico_def)

text \<open>
  C16. No partial report: whenever the program ends with an exception, it has printed
  either exactly one line, which is a message and neither the heading of the medal
  table nor the title of the single-gender report, and then the exception is the exit
  with status 1; or nothing at all, and then the exception is \<open>IndexError\<close>, raised by
  a row with fewer than six fields. \<open>TypeError\<close> never leaves the program.
\<close>

theorem main_sem_relatorio_parcial:
  assumes "main fs argv = (saida, Inl e)"
  shows "(e = SystemExit 1 \<and> length saida = 1 \<or> e = IndexError \<and> saida = []) \<and>
     cabecalho \<notin> set saida \<and> titulo_genero_unico \<notin> set saida"
  using main_Inl [OF assms] by auto

theorem main_sem_relatorio_parcial_witness:
  "main (\<lambda>n. Inr (''a,b,c,d,e,f'' @ [LF] @ ''x,1,x,x,BRA,M'' @ [LF] @ [LF]))
     [''medalhas.py'', ''m.csv''] = ([], Inl IndexError) \<and>
   cabecalho \<notin> set ([] :: string list)"
proof -
  have m: "main (\<lambda>n. Inr (''a,b,c,d,e,f'' @ [LF] @ ''x,1,x,x,BRA,M'' @ [LF] @ [LF]))
     [''medalhas.py'', ''m.csv''] = ([], Inl IndexError)"
    by (simp add: main_eq)
  from m main_sem_relatorio_parcial [OF m] show ?thesis by simp
qed

text \<open>
  C32. A complete report: whenever the program ends normally, it was given exactly one
  file name, the file could be read, and the output is the whole report of the table
  of the file: the heading, one line for every country of the input (field 4 of the
  rows), the title of the second report, and one line for every country with a single
  gender.
\<close>

theorem main_relatorio_completo:
  assumes "main fs argv = (saida, Inr u)"
  shows "\<exists>texto. length argv = 2 \<and> fs (argv ! 1) = Inr texto \<and>
     saida = relatorio (map (split CHR '','') (tl (readlines texto))) \<and>
     length saida =
       2 + card ((\<lambda>item. item ! 4) ` set (map (split CHR '','') (tl (readlines texto)))) +
       length (filter genero_unico (classificacao (map (split CHR '','') (tl (readlines texto))))) \<and>
     hd saida = cabecalho"
proof -
  from assms obtain texto where "length argv = 2" "fs (argv ! 1) = Inr texto"
    and s: "saida = relatorio (map (split CHR '','') (tl (readlines texto)))"
    by (auto simp: main_Inr_iff)
  moreover have "length (classificacao tabela) = card ((\<lambda>item. item ! 4) ` set tabela)" for tabela
    by (simp add: classificacao_def quadro_spec_def length_primeiros_card image_image
        pais_de_def projeta_def)
  ultimately show ?thesis
    by (simp add: relatorio_def exibir_quadro_def)
qed

theorem main_relatorio_completo_witness:
  "\<exists>texto. length [''medalhas.py'', ''m.csv''] = 2 \<and>
     (Inr (''a,b,c,d,e,f'' @ [LF] @ ''x,1,x,x,BRA,M'' @ [LF]) :: (int \<times> string) + string) = Inr texto \<and>
     [cabecalho, ''BRA             1     0     0      1    '', titulo_genero_unico,
      ''BRA            ''] = relatorio (map (split CHR '','') (tl (readlines texto)))"
proof -
  have m: "main (\<lambda>n. Inr (''a,b,c,d,e,f'' @ [LF] @ ''x,1,x,x,BRA,M'' @ [LF]))
     [''medalhas.py'', ''m.csv''] =
     ([cabecalho, ''BRA             1     0     0      1    '', titulo_genero_unico,
       ''BRA            ''], Inr ())"
    by (simp add: main_eq relatorio_def classificacao_def medalhas_defs chave_def genero_unico_def)
  from main_relatorio_completo [OF m] show ?thesis by auto
qed

text \<open>
  A file with no record, empty or with the header line alone: the program prints
  the heading of the medal table and the title of the single-gender report, and
  nothing else, and ends normally.
\<close>

lemma main_so_cabecalho:
  assumes "fs arq = Inr texto" and "length (readlines texto) \<le> 1"
  shows "main fs [prog, arq] = ([cabecalho, titulo_genero_unico], Inr ())"
proof -
  from assms(2) have "tl (readlines texto) = []"
    by (cases "readlines texto") simp_all
  with assms(1) show ?thesis
    by (simp add: main_eq relatorio_def classificacao_def quadro_spec_def exibir_quadro_def
        exibir_paises_formatado_def)
qed

text \<open>The genders of an accumulator of the ranking are the values of field 5 in the
  rows of its country; two rows of a country with different values there keep it out
  of the single-gender list.\<close>

lemma generos_classificacao:
  assumes "p \<in> set (classificacao tabela)"
  shows "conjunto_generos p = (\<lambda>item. item ! 5) ` {item \<in> set tabela. item ! 4 = nome p}"
proof -
  from assms obtain n where "p = resumo (map projeta tabela) n"
    by (auto simp: classificacao_def quadro_spec_def)
  then have n: "nome p = n" and g: "conjunto_generos p =
      genero_de ` {linha \<in> set (map projeta tabela). pais_de linha = n}"
    by (simp_all add: resumo_conjunto_generos)
  have "{linha \<in> set (map projeta tabela). pais_de linha = n} =
      projeta ` {item \<in> set tabela. item ! 4 = n}"
    by (auto simp: pais_de_def projeta_def)
  then show ?thesis unfolding g n by (simp add: image_image genero_de_def projeta_def)
qed

lemma sexto_campo: "length xs = 6 \<Longrightarrow> xs ! 5 = last xs"
  by (cases xs rule: rev_cases) (simp_all add: nth_append)

lemma generos_distintos:
  assumes "texto \<noteq> []" and "last texto \<noteq> LF"
    and t: "tabela = map (split CHR '','') (tl (readlines texto))"
    and i: "item \<in> set (butlast tabela)"
    and l: "length item = 6" "length (last tabela) = 6"
  shows "item ! 5 \<noteq> last tabela ! 5"
proof -
  from i have ne: "tabela \<noteq> []" by auto
  from le_linhas_anteriores [OF t i] have "LF \<in> set (last item)"
    using last_in_set [of "last item"] by simp
  moreover have "LF \<notin> set (last (last tabela))"
    using assms(1,2) t ne by (rule le_linhas_ultima)
  ultimately have "last item \<noteq> last (last tabela)" by auto
  then show ?thesis by (simp add: sexto_campo l)
qed

lemma dois_generos:
  assumes p: "p \<in> set (classificacao tabela)"
    and a: "a \<in> set tabela" "a ! 4 = nome p" and b: "b \<in> set tabela" "b ! 4 = nome p"
    and d: "a ! 5 \<noteq> b ! 5"
  shows "card (conjunto_generos p) \<noteq> 1"
proof
  assume "card (conjunto_generos p) = 1"
  then obtain g where g: "conjunto_generos p = {g}" by (auto simp: card_1_singleton_iff)
  from a have "a ! 5 \<in> conjunto_generos p"
    unfolding generos_classificacao [OF p] by (intro imageI CollectI conjI)
  moreover from b have "b ! 5 \<in> conjunto_generos p"
    unfolding generos_classificacao [OF p] by (intro imageI CollectI conjI)
  ultimately show False using d unfolding g by simp
qed

text \<open>
  C34. The line end in the gender. In a file of six columns the gender is the last
  field of its line and keeps the line feed. When the file does not end with a line
  feed, the gender of the last row is stored without it and the gender of every row
  before is stored with it; so a country that has a medal on the last line and
  another medal on any earlier line is recorded with at least two genders, whatever
  the file says about them, and the program, which succeeds and prints both reports,
  lists the country in the medal table and leaves it out of the single-gender report.
\<close>

theorem main_genero_na_ultima_linha:
  assumes "fs arq = Inr texto" and "texto \<noteq> []" and "last texto \<noteq> LF"
    and "le_arquivo fs arq = ([], Inr tabela)"
    and "list_all (\<lambda>item. length item = 6) tabela"
    and "\<exists>item \<in> set (butlast tabela). item ! 4 = last tabela ! 4"
  shows "\<exists>quadro_organizado paises_genero.
     main_nucleo tabela = Inr (quadro_organizado, paises_genero) \<and>
     main fs [prog, arq] =
       (exibir_quadro quadro_organizado @ exibir_paises_formatado paises_genero, Inr ()) \<and>
     last tabela ! 4 \<in> nome ` set quadro_organizado \<and>
     last tabela ! 4 \<notin> nome ` set paises_genero"
proof -
  let ?n = "last tabela ! 4"
  let ?q = "classificacao tabela"
  let ?g = "filter (\<lambda>p. card (conjunto_generos p) = 1) ?q"
  from assms(1,4) have t: "tabela = map (split CHR '','') (tl (readlines texto))"
    by (simp add: le_arquivo_Inr)
  from assms(6) obtain item where i: "item \<in> set (butlast tabela)" and n: "item ! 4 = ?n"
    by blast
  from i have ne: "tabela \<noteq> []" by auto
  then have u: "last tabela \<in> set tabela" by simp
  from i have it: "item \<in> set tabela" by (rule in_set_butlastD)
  from assms(5) have seis: "list_all (\<lambda>item. 6 \<le> length item) tabela"
    by (simp add: list_all_iff)
  from assms(5) it u have l: "length item = 6" "length (last tabela) = 6"
    by (simp_all add: list_all_iff)
  have d: "item ! 5 \<noteq> last tabela ! 5"
    using assms(2,3) t i l by (rule generos_distintos)
  have "card (conjunto_generos p) \<noteq> 1" if "p \<in> set ?q" "nome p = ?n" for p
    using that(1) it _ u _ d by (rule dois_generos) (simp_all add: that(2) n)
  then have fora: "?n \<notin> nome ` set ?g" by auto
  from u have "?n \<in> (\<lambda>item. item ! 4) ` set tabela" by (rule imageI)
  then have dentro: "?n \<in> nome ` set ?q"
    unfolding nome_classificacao [symmetric] by simp
  have m: "main fs [prog, arq] = (exibir_quadro ?q @ exibir_paises_formatado ?g, Inr ())"
    using seis main_eq [of fs arq texto prog, OF assms(1)]
    by (simp add: t [symmetric] relatorio_def filter_genero_unico_card
        classificacao_def quadro_ok_classificado)
  have "main_nucleo tabela = Inr (?q, ?g)" using seis by (simp add: main_nucleo_eq)
  with m dentro fora show ?thesis by blast
qed

theorem main_genero_na_ultima_linha_witness:
  "\<exists>quadro_organizado paises_genero.
     main_nucleo [[''x'', ''1'', ''x'', ''x'', ''BRA'', ''M'' @ [LF]],
                  [''x'', ''2'', ''x'', ''x'', ''BRA'', ''M'']] =
       Inr (quadro_organizado, paises_genero) \<and>
     main (\<lambda>n. Inr (''a,b,c,d,e,f'' @ [LF] @ ''x,1,x,x,BRA,M'' @ [LF] @ ''x,2,x,x,BRA,M''))
       [''medalhas.py'', ''m.csv''] =
       (exibir_quadro quadro_organizado @ exibir_paises_formatado paises_genero, Inr ()) \<and>
     ''BRA'' \<in> nome ` set quadro_organizado \<and> ''BRA'' \<notin> nome ` set paises_genero"
  using main_genero_na_ultima_linha
    [of "\<lambda>n. Inr (''a,b,c,d,e,f'' @ [LF] @ ''x,1,x,x,BRA,M'' @ [LF] @ ''x,2,x,x,BRA,M'')"
      "''m.csv''" "''a,b,c,d,e,f'' @ [LF] @ ''x,1,x,x,BRA,M'' @ [LF] @ ''x,2,x,x,BRA,M''"
      "[[''x'', ''1'', ''x'', ''x'', ''BRA'', ''M'' @ [LF]],
        [''x'', ''2'', ''x'', ''x'', ''BRA'', ''M'']]" "''medalhas.py''"]
  by (simp add: le_arquivo_Inr)


text \<open>The two behaviours at one input: two medals of men of one country, the second on
  a last line without the line feed and with it.\<close>

lemma main_exemplo_ultima_linha:
  "main (\<lambda>n. Inr (''a,b,c,d,e,f'' @ [LF] @ ''x,1,x,x,BRA,M'' @ [LF] @ ''x,2,x,x,BRA,M''))
     [''medalhas.py'', ''m.csv''] =
   ([cabecalho, ''BRA             1     1     0      2    '', titulo_genero_unico], Inr ()) \<and>
   main (\<lambda>n. Inr (''a,b,c,d,e,f'' @ [LF] @ ''x,1,x,x,BRA,M'' @ [LF] @ ''x,2,x,x,BRA,M'' @ [LF]))
     [''medalhas.py'', ''m.csv''] =
   ([cabecalho, ''BRA             1     1     0      2    '', titulo_genero_unico,
     ''BRA            ''], Inr ())"
  by (simp add: main_eq relatorio_def classificacao_def medalhas_defs chave_def genero_unico_def)

lemma executa_eq:
  "executa d fs argv =
     (if length argv < 2 then ([uso_sem_arquivo], 1)
      else if length argv > 2 then ([uso_muitos_parametros], 1)
      else
        (case fs (argv ! 1) of
           Inl (errno, strerror) \<Rightarrow> ([erro_leitura (argv ! 1) errno strerror], 1)
         | Inr texto \<Rightarrow>
             (let tabela = map (split CHR '','') (tl (readlines texto))
              in if list_all (\<lambda>item. 6 \<le> length item) tabela \<and>
                    card ((\<lambda>item. item ! 4) ` set tabela) < d
                 then (relatorio tabela, 0)
                 else ([], 1))))"
proof (cases "length argv = 2")
  case False
  then show ?thesis by (auto simp: executa_def main_limitado_uso)
next
  case True
  then obtain prog arq where argv: "argv = [prog, arq]"
    by (cases argv; cases "tl argv") auto
  show ?thesis
  proof (cases "fs arq")
    case (Inl a)
    then show ?thesis
      by (cases a) (simp add: argv executa_def main_limitado_leitura)
  next
    case (Inr texto)
    then show ?thesis
      by (simp add: argv executa_def main_limitado_eq Let_def
          length_classificacao)
  qed
qed

lemma relatorio_nao_vazio [simp]: "relatorio tabela \<noteq> []" "hd (relatorio tabela) = cabecalho"
  by (simp_all add: relatorio_def exibir_quadro_def)

lemma executa_estado:
  "snd (executa d fs argv) = 0 \<longleftrightarrow> (\<exists>tabela. fst (executa d fs argv) = relatorio tabela)"
proof -
  have m: "[m] \<noteq> relatorio tabela" if "m \<noteq> cabecalho" for m tabela
    using that relatorio_nao_vazio(2) [of tabela] by (auto dest: arg_cong [where f = hd])
  have n: "[] \<noteq> relatorio tabela" for tabela
    using relatorio_nao_vazio(1) [of tabela] by (rule not_sym)
  show ?thesis
    by (auto simp: executa_eq Let_def m n split: sum.splits)
qed

text \<open>
  C11. The module run as a script, by an interpreter that allows \<open>d\<close> nested calls of
  the filter: the lines printed and the exit status of the process. The status is 0,
  and the output is the whole report, exactly when there is one file name, the file
  can be read, every row after the header has at least six fields and the table has
  fewer than \<open>d\<close> countries. In every other case the status is 1 and the output is
  the usage message, the message of the read error, or nothing at all: a short row
  ends the program with \<open>IndexError\<close> and too many countries with \<open>RecursionError\<close>,
  both before the first line of the report is printed.
\<close>

theorem executa_correto:
  "executa d fs argv =
     (if length argv < 2 then ([uso_sem_arquivo], 1)
      else if length argv > 2 then ([uso_muitos_parametros], 1)
      else
        (case fs (argv ! 1) of
           Inl (errno, strerror) \<Rightarrow> ([erro_leitura (argv ! 1) errno strerror], 1)
         | Inr texto \<Rightarrow>
             (let tabela = map (split CHR '','') (tl (readlines texto))
              in if list_all (\<lambda>item. 6 \<le> length item) tabela \<and>
                    card ((\<lambda>item. item ! 4) ` set tabela) < d
                 then (relatorio tabela, 0)
                 else ([], 1))))"
  by (rule executa_eq)

theorem executa_correto_witness:
  "executa 3 (\<lambda>n. Inr (''a,b,c,d,e,f'' @ [LF] @ ''x,1,x,x,BRA,M'' @ [LF] @ ''x,2,x,x,USA,F'' @ [LF]))
     [''medalhas.py'', ''m.csv''] =
   ([cabecalho,
     ''BRA             1     0     0      1    '',
     ''USA             0     1     0      1    '',
     titulo_genero_unico,
     ''BRA            '',
     ''USA            ''], 0) \<and>
   executa 2 (\<lambda>n. Inr (''a,b,c,d,e,f'' @ [LF] @ ''x,1,x,x,BRA,M'' @ [LF] @ ''x,2,x,x,USA,F'' @ [LF]))
     [''medalhas.py'', ''m.csv''] = ([], 1)"
  using executa_correto
      [of 3 "\<lambda>n. Inr (''a,b,c,d,e,f'' @ [LF] @ ''x,1,x,x,BRA,M'' @ [LF] @ ''x,2,x,x,USA,F'' @ [LF])"
        "[''medalhas.py'', ''m.csv'']"]
    executa_correto
      [of 2 "\<lambda>n. Inr (''a,b,c,d,e,f'' @ [LF] @ ''x,1,x,x,BRA,M'' @ [LF] @ ''x,2,x,x,USA,F'' @ [LF])"
        "[''medalhas.py'', ''m.csv'']"]
  by (simp add: relatorio_def classificacao_def medalhas_defs chave_def genero_unico_def)

text \<open>
  C35. One line for each call of \<^verbatim>\<open>print\<close>. Whenever the program ends normally, the
  text it has written to the standard output, cut into lines, is the list of the
  lines it printed, line for line: the country names come from a field that is not
  the last of its row, so none of them holds a line feed, although the last field of
  a row does. The output of a run over \<open>n\<close> countries of which \<open>m\<close> have a single
  gender therefore has exactly \<open>n + m + 2\<close> lines.
\<close>

theorem main_escreve_linhas:
  assumes "main fs argv = (saida, Inr u)"
  shows "readlines (escreve saida) = map (\<lambda>l. l @ [LF]) saida \<and>
     length (readlines (escreve saida)) = length saida \<and> hd saida = cabecalho"
proof -
  from assms have "list_all (\<lambda>l. LF \<notin> set l) saida" by (rule main_sem_LF)
  then have "readlines (escreve saida) = map (\<lambda>l. l @ [LF]) saida" by (rule readlines_escreve)
  moreover from assms have "hd saida = cabecalho"
    by (auto simp: main_Inr_iff relatorio_def exibir_quadro_def)
  ultimately show ?thesis by simp
qed

theorem main_escreve_linhas_witness:
  "readlines (escreve [cabecalho, ''BRA             1     0     0      1    '', titulo_genero_unico,
       ''BRA            '']) =
     map (\<lambda>l. l @ [LF]) [cabecalho, ''BRA             1     0     0      1    '',
       titulo_genero_unico, ''BRA            ''] \<and>
   length (readlines (escreve [cabecalho, ''BRA             1     0     0      1    '',
       titulo_genero_unico, ''BRA            ''])) = 4"
proof -
  have m: "main (\<lambda>n. Inr (''a,b,c,d,e,f'' @ [LF] @ ''x,1,x,x,BRA,M'' @ [LF]))
     [''medalhas.py'', ''m.csv''] =
     ([cabecalho, ''BRA             1     0     0      1    '', titulo_genero_unico,
       ''BRA            ''], Inr ())"
    by (simp add: main_eq relatorio_def classificacao_def medalhas_defs chave_def genero_unico_def)
  from main_escreve_linhas [OF m] show ?thesis by simp
qed

end
