(* ===== verification/Agregador_Mapa.thy ===== *)
theory Agregador_Mapa
  imports Agregador
begin

text \<open>
  What the aggregator promises, as a keyed mapping: a map from the name of a country
  to its three counters and the set of its genders, together with the names in the
  order of first appearance. \<open>mapa_passo\<close> looks the country of a row up, or starts
  from nothing, counts the medal when its code is one of the three (\<open>classifica\<close>
  gives the medal of a code, or \<open>None\<close>), and adds the gender to the set;
  \<open>mapa_quadro\<close> folds it over the rows. \<open>abs_quadro\<close> reads a list of \<^verbatim>\<open>Pais\<close>
  objects as such a mapping: the first object with a name is the one the linear
  search of \<^verbatim>\<open>quadro\<close> finds. \<open>funde\<close> merges two mappings by name, adding the counters
  and uniting the genders, which is how tables built from two parts of the input
  combine. The lemmas show that every step of the loop of \<^verbatim>\<open>quadro\<close> is a step of
  the mapping (a forward simulation through \<open>abs_quadro\<close>), and that the mapping of a
  concatenation is the merge of the mappings.
\<close>

section \<open>Definitions\<close>

type_synonym acumulado = "int \<times> int \<times> int \<times> string set"

type_synonym mapa = "(string \<rightharpoonup> acumulado) \<times> string list"

definition classifica :: "string \<Rightarrow> Medalha option" where
  "classifica medal_code =
     (if medal_code = Medalha_value BRONZE then Some BRONZE
      else if medal_code = Medalha_value PRATA then Some PRATA
      else if medal_code = Medalha_value OURO then Some OURO
      else None)"

fun soma_medalha :: "Medalha option \<Rightarrow> acumulado \<Rightarrow> acumulado" where
  "soma_medalha (Some BRONZE) (b, p, ou, gs) = (b + 1, p, ou, gs)"
| "soma_medalha (Some PRATA) (b, p, ou, gs) = (b, p + 1, ou, gs)"
| "soma_medalha (Some OURO) (b, p, ou, gs) = (b, p, ou + 1, gs)"
| "soma_medalha None a = a"

fun junta_genero :: "string \<Rightarrow> acumulado \<Rightarrow> acumulado" where
  "junta_genero g (b, p, ou, gs) = (b, p, ou, insert g gs)"

definition acumulado_vazio :: acumulado where
  "acumulado_vazio = (0, 0, 0, {})"

definition mapa_vazio :: mapa where
  "mapa_vazio = (Map.empty, [])"

fun mapa_passo :: "mapa \<Rightarrow> string list \<Rightarrow> mapa" where
  "mapa_passo (m, ordem) linha =
     (let n = pais_de linha;
          a = (case m n of None \<Rightarrow> acumulado_vazio | Some a \<Rightarrow> a)
      in (m(n \<mapsto> junta_genero (genero_de linha) (soma_medalha (classifica (medalha_de linha)) a)),
          (case m n of None \<Rightarrow> ordem @ [n] | Some _ \<Rightarrow> ordem)))"

definition mapa_quadro :: "string list list \<Rightarrow> mapa" where
  "mapa_quadro tabela = foldl mapa_passo mapa_vazio tabela"

text \<open>The mapping a list of objects stands for.\<close>

definition visao :: "Pais \<Rightarrow> acumulado" where
  "visao p = (quant_bronze p, quant_prata p, quant_ouro p, conjunto_generos p)"

definition mapa_de :: "Pais list \<Rightarrow> string \<rightharpoonup> acumulado" where
  "mapa_de ps = map_of (map (\<lambda>p. (nome p, visao p)) ps)"

definition abs_quadro :: "Pais list \<Rightarrow> mapa" where
  "abs_quadro ps = (mapa_de ps, primeiros (map nome ps))"

text \<open>The merge of two mappings.\<close>

fun soma_acumulado :: "acumulado \<Rightarrow> acumulado \<Rightarrow> acumulado" where
  "soma_acumulado (b, p, ou, gs) (b', p', ou', gs') = (b + b', p + p', ou + ou', gs \<union> gs')"

fun funde :: "mapa \<Rightarrow> mapa \<Rightarrow> mapa" where
  "funde (m, ordem) (m', ordem') =
     ((\<lambda>n. case (m n, m' n) of
             (None, None) \<Rightarrow> None
           | (Some a, None) \<Rightarrow> Some a
           | (None, Some a') \<Rightarrow> Some a'
           | (Some a, Some a') \<Rightarrow> Some (soma_acumulado a a')),
      ordem @ filter (\<lambda>n. m n = None) ordem')"

lemmas agregador_mapa_defs [medalhas_defs] =
  classifica_def acumulado_vazio_def mapa_vazio_def mapa_quadro_def visao_def mapa_de_def
  abs_quadro_def

section \<open>One object\<close>

lemma visao_conta_medalha:
  "visao (conta_medalha mc p) = soma_medalha (classifica mc) (visao p)"
  by (simp add: visao_def conta_medalha_def classifica_def conjunto_generos_def Let_def)

lemma visao_registra_genero:
  "visao (registra_genero g p) = junta_genero g (visao p)"
  by (auto simp: visao_def registra_genero_def conjunto_generos_def Let_def split: option.splits)

lemma visao_novo_pais:
  "visao (novo_pais mc n g) = junta_genero g (soma_medalha (classifica mc) acumulado_vazio)"
  by (simp add: visao_def novo_pais_def classifica_def conjunto_generos_def Let_def
      acumulado_vazio_def)

section \<open>The search\<close>

lemma mapa_de_Nil [simp]: "mapa_de [] = Map.empty"
  by (simp add: mapa_de_def)

lemma mapa_de_Cons: "mapa_de (p # ps) = (mapa_de ps)(nome p \<mapsto> visao p)"
  by (simp add: mapa_de_def)

lemma mapa_de_None: "mapa_de ps n = None \<longleftrightarrow> n \<notin> nome ` set ps"
  by (simp add: mapa_de_def map_of_eq_None_iff image_image)

lemma mapa_de_snoc_novo:
  "n \<notin> nome ` set ps \<Longrightarrow> nome q = n \<Longrightarrow> mapa_de (ps @ [q]) = (mapa_de ps)(n \<mapsto> visao q)"
proof (induction ps)
  case Nil
  then show ?case by (simp add: mapa_de_def)
next
  case (Cons p ps)
  then have "nome p \<noteq> n" by auto
  with Cons show ?case
    using mapa_de_Cons [of p "ps @ [q]"] by (auto simp: mapa_de_Cons fun_eq_iff)
qed

lemma atualiza_pais_mapa:
  "atualiza_pais mc n g ps = (achou, ps') \<Longrightarrow>
   mapa_de ps' =
     (case mapa_de ps n of
        None \<Rightarrow> mapa_de ps
      | Some a \<Rightarrow> (mapa_de ps)(n \<mapsto> junta_genero g (soma_medalha (classifica mc) a)))"
proof (induction ps arbitrary: achou ps')
  case Nil
  then show ?case by simp
next
  case (Cons p ps)
  show ?case
  proof (cases "nome p = n")
    case True
    with Cons.prems show ?thesis
      by (auto simp: mapa_de_Cons visao_registra_genero visao_conta_medalha)
  next
    case False
    obtain achou1 ps1 where r: "atualiza_pais mc n g ps = (achou1, ps1)"
      by (cases "atualiza_pais mc n g ps")
    with False Cons.prems have ps': "ps' = p # ps1" by auto
    from Cons.IH [OF r] False show ?thesis
      by (auto simp: ps' mapa_de_Cons split: option.splits)
  qed
qed

section \<open>The simulation\<close>

lemma abs_quadro_Nil [simp]: "abs_quadro [] = mapa_vazio"
  by (simp add: abs_quadro_def mapa_vazio_def)

lemma quadro_linha_simula:
  assumes "quadro_linha ps linha = Inr ps'"
  shows "abs_quadro ps' = mapa_passo (abs_quadro ps) linha"
proof -
  from assms have l: "3 \<le> length linha" by (rule quadro_linha_Inr)
  let ?n = "pais_de linha" and ?mc = "medalha_de linha" and ?g = "genero_de linha"
  show ?thesis
  proof (cases "?n \<in> nome ` set ps")
    case True
    with assms l have ps': "ps' = snd (atualiza_pais ?mc ?n ?g ps)"
      by (simp add: quadro_linha_eq)
    from True obtain a where a: "mapa_de ps ?n = Some a"
      using mapa_de_None [of ps ?n] by auto
    have "mapa_de ps' = (mapa_de ps)(?n \<mapsto> junta_genero ?g (soma_medalha (classifica ?mc) a))"
      using atualiza_pais_mapa [of ?mc ?n ?g ps "fst (atualiza_pais ?mc ?n ?g ps)" ps'] a
      by (simp add: ps')
    then show ?thesis by (simp add: abs_quadro_def a ps' Let_def)
  next
    case False
    with assms l have ps': "ps' = ps @ [novo_pais ?mc ?n ?g]"
      by (simp add: quadro_linha_eq)
    from False have a: "mapa_de ps ?n = None" by (simp add: mapa_de_None)
    have "mapa_de ps' = (mapa_de ps)(?n \<mapsto> visao (novo_pais ?mc ?n ?g))"
      unfolding ps' using False by (rule mapa_de_snoc_novo) simp
    with False show ?thesis
      by (simp add: abs_quadro_def a ps' Let_def visao_novo_pais primeiros_snoc)
  qed
qed

lemma quadro_laco_simula:
  "quadro_laco ps tabela = Inr ps' \<Longrightarrow> abs_quadro ps' = foldl mapa_passo (abs_quadro ps) tabela"
proof (induction tabela arbitrary: ps)
  case Nil
  then show ?case by simp
next
  case (Cons linha tabela)
  from Cons.prems obtain ps1 where 1: "quadro_linha ps linha = Inr ps1"
    and 2: "quadro_laco ps1 tabela = Inr ps'"
    by (auto split: sum.splits)
  from Cons.IH [OF 2] quadro_linha_simula [OF 1] show ?case by simp
qed

lemma quadro_simula: "quadro tabela = Inr ps \<Longrightarrow> abs_quadro ps = mapa_quadro tabela"
  using quadro_laco_simula [of "[]" tabela ps] by (simp add: quadro_def mapa_quadro_def)

section \<open>The merge\<close>

lemma soma_acumulado_vazio [simp]:
  "soma_acumulado a acumulado_vazio = a" "soma_acumulado acumulado_vazio a = a"
  by (cases a; simp add: acumulado_vazio_def)+

lemma soma_acumulado_passo:
  "soma_acumulado a (junta_genero g (soma_medalha c a')) =
     junta_genero g (soma_medalha c (soma_acumulado a a'))"
proof (cases a; cases a')
  fix b p ou gs b' p' ou' gs'
  assume "a = (b, p, ou, gs)" "a' = (b', p', ou', gs')"
  then show ?thesis
  proof (cases c)
    case None
    with \<open>a = _\<close> \<open>a' = _\<close> show ?thesis by simp
  next
    case (Some md)
    with \<open>a = _\<close> \<open>a' = _\<close> show ?thesis by (cases md) auto
  qed
qed

lemma funde_vazio [simp]: "funde s mapa_vazio = s"
  by (cases s) (auto simp: mapa_vazio_def fun_eq_iff split: option.splits)

lemma funde_passo: "funde s (mapa_passo x linha) = mapa_passo (funde s x) linha"
proof (cases s; cases x)
  fix m ordem m' ordem'
  assume s: "s = (m, ordem)" and x: "x = (m', ordem')"
  let ?n = "pais_de linha"
  show ?thesis
  proof (cases "m ?n"; cases "m' ?n")
    assume "m ?n = None" "m' ?n = None"
    then show ?thesis
      by (auto simp: s x Let_def fun_eq_iff split: option.splits)
  next
    fix a' assume "m ?n = None" "m' ?n = Some a'"
    then show ?thesis
      by (auto simp: s x Let_def fun_eq_iff split: option.splits)
  next
    fix a assume "m ?n = Some a" "m' ?n = None"
    then show ?thesis
      using soma_acumulado_passo [of a "genero_de linha" "classifica (medalha_de linha)" acumulado_vazio]
      by (auto simp: s x Let_def fun_eq_iff split: option.splits)
  next
    fix a a' assume "m ?n = Some a" "m' ?n = Some a'"
    then show ?thesis
      by (auto simp: s x Let_def fun_eq_iff soma_acumulado_passo split: option.splits)
  qed
qed

lemma foldl_mapa_passo_funde:
  "foldl mapa_passo s tabela = funde s (mapa_quadro tabela)"
  by (induction tabela rule: rev_induct) (simp_all add: mapa_quadro_def funde_passo)

lemma mapa_quadro_append:
  "mapa_quadro (t1 @ t2) = funde (mapa_quadro t1) (mapa_quadro t2)"
  using foldl_mapa_passo_funde [of "mapa_quadro t1" t2] by (simp add: mapa_quadro_def)

section \<open>Properties of the mapping\<close>

text \<open>
  C14. The loop of \<^verbatim>\<open>quadro\<close> implements the keyed mapping. From any list of objects,
  over rows that all have at least three fields, the loop returns a list, and the
  mapping that list stands for is the one obtained by folding \<open>mapa_passo\<close> over the
  rows from the mapping the first list stands for: the same counters and sets of
  genders under the same names, and the same order of first appearance.
\<close>

theorem quadro_laco_refina_mapa:
  assumes "list_all (\<lambda>linha. 3 \<le> length linha) tabela"
  shows "\<exists>ps'. quadro_laco ps tabela = Inr ps' \<and>
     abs_quadro ps' = foldl mapa_passo (abs_quadro ps) tabela"
proof (cases "quadro_laco ps tabela")
  case (Inl e)
  then have "\<exists>linha \<in> set tabela. length linha < 3" by (auto dest: quadro_laco_Inl)
  with assms show ?thesis by (auto simp: list_all_iff)
next
  case (Inr ps')
  then show ?thesis by (simp add: quadro_laco_simula)
qed

theorem quadro_laco_refina_mapa_witness:
  "\<exists>ps'. quadro_laco [Pais_kw ''BRA'' 0 0 1 1 [''M'']] [[''3'', ''BRA'', ''F''], [''2'', ''USA'', ''F'']] = Inr ps' \<and>
     abs_quadro ps' =
       foldl mapa_passo (abs_quadro [Pais_kw ''BRA'' 0 0 1 1 [''M'']])
         [[''3'', ''BRA'', ''F''], [''2'', ''USA'', ''F'']]"
  using quadro_laco_refina_mapa
    [of "[[''3'', ''BRA'', ''F''], [''2'', ''USA'', ''F'']]" "[Pais_kw ''BRA'' 0 0 1 1 [''M'']]"]
  by simp

text \<open>
  C21. Tables of parts of the input combine by merging: when \<^verbatim>\<open>quadro\<close> returns a
  table for each of two lists of rows, it returns one for their concatenation, and
  the mapping of that table is the merge by name of the mappings of the two tables,
  with the counters added, the sets of genders united, and the names of the second
  part that are new after the names of the first.
\<close>

theorem quadro_funde:
  assumes "quadro t1 = Inr p1" and "quadro t2 = Inr p2"
  shows "\<exists>p. quadro (t1 @ t2) = Inr p \<and> abs_quadro p = funde (abs_quadro p1) (abs_quadro p2)"
proof -
  from assms have "list_all (\<lambda>linha. 3 \<le> length linha) (t1 @ t2)"
    by (auto simp: quadro_def dest: quadro_laco_Inr)
  then obtain p where p: "quadro (t1 @ t2) = Inr p"
    by (auto simp: quadro_eq)
  have "abs_quadro p = mapa_quadro (t1 @ t2)" using p by (rule quadro_simula)
  also have "\<dots> = funde (mapa_quadro t1) (mapa_quadro t2)" by (rule mapa_quadro_append)
  also have "\<dots> = funde (abs_quadro p1) (abs_quadro p2)"
    using assms by (simp add: quadro_simula)
  finally show ?thesis using p by simp
qed

theorem quadro_funde_witness:
  "\<exists>p. quadro ([[''1'', ''BRA'', ''M'']] @ [[''3'', ''BRA'', ''F''], [''2'', ''USA'', ''F'']]) = Inr p \<and>
     abs_quadro p =
       funde (abs_quadro [Pais_kw ''BRA'' 0 0 1 1 [''M'']])
         (abs_quadro [Pais_kw ''BRA'' 1 0 0 1 [''F''], Pais_kw ''USA'' 0 1 0 1 [''F'']])"
proof -
  have 1: "quadro [[''1'', ''BRA'', ''M'']] = Inr [Pais_kw ''BRA'' 0 0 1 1 [''M'']]"
    by (simp add: quadro_eq agregador_defs)
  have 2: "quadro [[''3'', ''BRA'', ''F''], [''2'', ''USA'', ''F'']] =
      Inr [Pais_kw ''BRA'' 1 0 0 1 [''F''], Pais_kw ''USA'' 0 1 0 1 [''F'']]"
    by (simp add: quadro_eq agregador_defs)
  from quadro_funde [OF 1 2] show ?thesis .
qed

end
