(* ===== verification/Agregador_Alcance.thy ===== *)
theory Agregador_Alcance
  imports Agregador
begin

text \<open>
  The list that \<^verbatim>\<open>quadro\<close> builds, seen as the state of a transition system: a step
  processes one row with the body of the loop (\<open>quadro_linha\<close>), and \<open>alcanca\<close> is
  the relation between a list and the lists that any number of steps lead to. The
  lemmas are proved by induction over the steps: a step never removes or renames an
  object and never lowers a counter or forgets a gender (\<open>estende\<close>); the table
  invariant is kept; and the lists reached from the empty list are exactly the
  results of \<^verbatim>\<open>quadro\<close>. The invariant is also exact: \<open>tabela_de\<close> writes, for
  any list that satisfies it, rows from which \<^verbatim>\<open>quadro\<close> builds that list, so the
  reachable lists are the lists that satisfy the invariant and no others.
\<close>

section \<open>Definitions\<close>

inductive alcanca :: "Pais list \<Rightarrow> Pais list \<Rightarrow> bool" where
  alcanca_refl: "alcanca ps ps"
| alcanca_passo: "alcanca ps ps1 \<Longrightarrow> quadro_linha ps1 linha = Inr ps2 \<Longrightarrow> alcanca ps ps2"

definition cresce :: "Pais \<Rightarrow> Pais \<Rightarrow> bool" where
  "cresce p p' \<longleftrightarrow>
     nome p' = nome p \<and> quant_bronze p \<le> quant_bronze p' \<and> quant_prata p \<le> quant_prata p' \<and>
     quant_ouro p \<le> quant_ouro p' \<and> conjunto_generos p \<subseteq> conjunto_generos p'"

definition estende :: "Pais list \<Rightarrow> Pais list \<Rightarrow> bool" where
  "estende ps ps' \<longleftrightarrow>
     length ps \<le> length ps' \<and> list_all (\<lambda>i. cresce (ps ! i) (ps' ! i)) [0..<length ps]"

text \<open>
  Rows that produce a given accumulator, and a given list of accumulators: one row
  with a code that is no medal for every gender of the object, in their order, then
  as many rows with each medal code as the counter says, all with the first gender.
\<close>

definition linhas_de :: "Pais \<Rightarrow> string list list" where
  "linhas_de p =
     (case generos p of
        None \<Rightarrow> []
      | Some gs \<Rightarrow>
          map (\<lambda>g. [''0'', nome p, g]) gs @
          replicate (nat (quant_bronze p)) [Medalha_value BRONZE, nome p, hd gs] @
          replicate (nat (quant_prata p)) [Medalha_value PRATA, nome p, hd gs] @
          replicate (nat (quant_ouro p)) [Medalha_value OURO, nome p, hd gs])"

definition tabela_de :: "Pais list \<Rightarrow> string list list" where
  "tabela_de ps = concat (map linhas_de ps)"

section \<open>Growth\<close>

lemma cresce_refl [simp]: "cresce p p"
  by (simp add: cresce_def)

lemma cresce_trans: "cresce p q \<Longrightarrow> cresce q r \<Longrightarrow> cresce p r"
  by (auto simp: cresce_def)

lemma cresce_atualiza: "cresce p (registra_genero g (conta_medalha mc p))"
  by (auto simp: cresce_def registra_genero_def conta_medalha_def conjunto_generos_def Let_def
      split: option.splits)

lemma estende_iff:
  "estende ps ps' \<longleftrightarrow> length ps \<le> length ps' \<and> (\<forall>i < length ps. cresce (ps ! i) (ps' ! i))"
  by (auto simp: estende_def list_all_iff)

lemma estende_refl [simp]: "estende ps ps"
  by (simp add: estende_iff)

lemma estende_trans:
  assumes "estende ps qs" and "estende qs rs"
  shows "estende ps rs"
proof -
  have "cresce (ps ! i) (rs ! i)" if "i < length ps" for i
  proof -
    from that assms(1) have 1: "cresce (ps ! i) (qs ! i)" and "i < length qs"
      by (simp_all add: estende_iff)
    with assms(2) have "cresce (qs ! i) (rs ! i)" by (simp add: estende_iff)
    with 1 show ?thesis by (rule cresce_trans)
  qed
  moreover from assms have "length ps \<le> length rs" by (simp add: estende_iff)
  ultimately show ?thesis by (simp add: estende_iff)
qed

lemma estende_append [simp]: "estende ps (ps @ qs)"
  by (simp add: estende_iff nth_append)

lemma estende_Cons: "cresce p p' \<Longrightarrow> estende ps ps' \<Longrightarrow> estende (p # ps) (p' # ps')"
  by (auto simp: estende_iff nth_Cons split: nat.splits)

lemma estende_atualiza_pais: "estende ps (snd (atualiza_pais mc n g ps))"
  by (induction ps) (auto split: prod.splits intro!: estende_Cons cresce_atualiza)

lemma estende_quadro_linha: "quadro_linha ps linha = Inr ps' \<Longrightarrow> estende ps ps'"
  by (cases "3 \<le> length linha")
     (auto simp: quadro_linha_eq estende_atualiza_pais split: if_splits)

lemma estende_nomes: "estende ps ps' \<Longrightarrow> prefix (map nome ps) (map nome ps')"
proof -
  assume e: "estende ps ps'"
  then have "map nome ps = take (length ps) (map nome ps')"
    by (auto simp: estende_iff cresce_def list_eq_iff_nth_eq)
  then show ?thesis by (simp add: take_is_prefix)
qed

section \<open>Reachability\<close>

lemma alcanca_estende: "alcanca ps ps' \<Longrightarrow> estende ps ps'"
proof (induction rule: alcanca.induct)
  case (alcanca_refl ps)
  show ?case by simp
next
  case (alcanca_passo ps ps1 linha ps2)
  from alcanca_passo.hyps(2) have "estende ps1 ps2" by (rule estende_quadro_linha)
  with alcanca_passo.IH show ?case by (rule estende_trans)
qed

lemma alcanca_quadro_ok: "alcanca ps ps' \<Longrightarrow> quadro_ok ps \<Longrightarrow> quadro_ok ps'"
proof (induction rule: alcanca.induct)
  case (alcanca_refl ps)
  then show ?case .
next
  case (alcanca_passo ps ps1 linha ps2)
  then have "quadro_ok ps1" by simp
  then show ?case using alcanca_passo.hyps(2) by (rule quadro_ok_quadro_linha)
qed

lemma alcanca_quadro_laco: "quadro_laco ps tabela = Inr ps' \<Longrightarrow> alcanca ps ps'"
proof (induction tabela arbitrary: ps' rule: rev_induct)
  case Nil
  then show ?case by (auto intro: alcanca_refl)
next
  case (snoc linha tabela)
  from snoc.prems obtain ps1 where 1: "quadro_laco ps tabela = Inr ps1"
    and 2: "quadro_linha ps1 linha = Inr ps'"
    by (auto simp: quadro_laco_snoc split: sum.splits)
  from snoc.IH [OF 1] 2 show ?case by (rule alcanca_passo)
qed

lemma alcanca_tabela: "alcanca ps ps' \<Longrightarrow> \<exists>tabela. quadro_laco ps tabela = Inr ps'"
proof (induction rule: alcanca.induct)
  case (alcanca_refl ps)
  have "quadro_laco ps [] = Inr ps" by simp
  then show ?case ..
next
  case (alcanca_passo ps ps1 linha ps2)
  then obtain tabela where "quadro_laco ps tabela = Inr ps1" by auto
  with alcanca_passo.hyps(2) have "quadro_laco ps (tabela @ [linha]) = Inr ps2"
    by (simp add: quadro_laco_snoc)
  then show ?case ..
qed

lemma alcanca_iff: "alcanca ps ps' \<longleftrightarrow> (\<exists>tabela. quadro_laco ps tabela = Inr ps')"
  by (blast intro: alcanca_quadro_laco dest: alcanca_tabela)

section \<open>Properties of the steps\<close>

text \<open>
  C19. The life of an accumulator: along any number of steps of the loop of
  \<^verbatim>\<open>quadro\<close>, no object is removed or moved, no name changes, no counter decreases
  and no gender is forgotten; new objects are only added at the end, so the names of
  the list before are a prefix of the names after.
\<close>

theorem alcanca_monotono:
  assumes "alcanca ps ps'"
  shows "estende ps ps' \<and> prefix (map nome ps) (map nome ps')"
proof -
  from assms have "estende ps ps'" by (rule alcanca_estende)
  then show ?thesis by (simp add: estende_nomes)
qed

theorem alcanca_monotono_witness:
  "estende [Pais_kw ''BRA'' 0 0 1 1 [''M'']]
     [Pais_kw ''BRA'' 1 0 1 2 [''M'', ''F''], Pais_kw ''USA'' 0 1 0 1 [''F'']] \<and>
   prefix [''BRA''] [''BRA'', ''USA'']"
proof -
  have "quadro_laco [Pais_kw ''BRA'' 0 0 1 1 [''M'']]
      [[''3'', ''BRA'', ''F''], [''2'', ''USA'', ''F'']] =
    Inr [Pais_kw ''BRA'' 1 0 1 2 [''M'', ''F''], Pais_kw ''USA'' 0 1 0 1 [''F'']]"
    by (simp add: quadro_linha_def novo_pais_def registra_genero_def conta_medalha_def)
  then have "alcanca [Pais_kw ''BRA'' 0 0 1 1 [''M'']]
      [Pais_kw ''BRA'' 1 0 1 2 [''M'', ''F''], Pais_kw ''USA'' 0 1 0 1 [''F'']]"
    by (rule alcanca_quadro_laco)
  from alcanca_monotono [OF this] show ?thesis by simp
qed

section \<open>The reachable tables\<close>

lemma length_linhas_de [simp]: "linha \<in> set (linhas_de p) \<Longrightarrow> length linha = 3"
  by (auto simp: linhas_de_def split: option.splits)

lemma pais_de_linhas_de [simp]: "linha \<in> set (linhas_de p) \<Longrightarrow> pais_de linha = nome p"
  by (auto simp: linhas_de_def pais_de_def split: option.splits)

lemma linhas_de_nao_vazio: "generos_ok p \<Longrightarrow> linhas_de p \<noteq> []"
  by (auto simp: linhas_de_def generos_ok_def split: option.splits)

lemma filter_linhas_de:
  "filter (\<lambda>linha. pais_de linha = n) (linhas_de p) = (if nome p = n then linhas_de p else [])"
  by (auto simp: filter_empty_conv filter_id_conv)

lemma filter_nome_distinct:
  "distinct (map nome ps) \<Longrightarrow> p \<in> set ps \<Longrightarrow> filter (\<lambda>q. nome q = nome p) ps = [p]"
  by (induction ps) (auto simp: filter_empty_conv image_iff)

lemma filter_tabela_de_nome:
  "filter (\<lambda>linha. pais_de linha = n) (tabela_de ps) =
     tabela_de (filter (\<lambda>p. nome p = n) ps)"
  by (induction ps) (simp_all add: tabela_de_def filter_linhas_de)

lemma filter_tabela_de:
  "distinct (map nome ps) \<Longrightarrow> p \<in> set ps \<Longrightarrow>
   filter (\<lambda>linha. pais_de linha = nome p) (tabela_de ps) = linhas_de p"
  by (simp add: filter_tabela_de_nome filter_nome_distinct) (simp add: tabela_de_def)

lemma primeiros_replicate: "primeiros (replicate k x) = (if k = 0 then [] else [x])"
  by (induction k) auto

lemma primeiros_tabela_de:
  "quadro_ok ps \<Longrightarrow> primeiros (map pais_de (tabela_de ps)) = map nome ps"
proof (induction ps)
  case Nil
  show ?case by (simp add: tabela_de_def)
next
  case (Cons p ps)
  from Cons.prems have ok: "quadro_ok ps" and p: "generos_ok p" and
    novo: "nome p \<notin> nome ` set ps"
    by (auto simp: quadro_ok_def pais_ok_def)
  have "map pais_de (linhas_de p) = replicate (length (linhas_de p)) (nome p)"
    by (simp add: map_replicate_const [symmetric] cong: map_cong)
  moreover have "filter (\<lambda>y. y \<notin> set (map pais_de (linhas_de p))) (map nome ps) = map nome ps"
    using novo by (auto simp: filter_id_conv image_iff)
  ultimately show ?case
    using Cons.IH [OF ok] linhas_de_nao_vazio [OF p]
    by (simp add: tabela_de_def primeiros_append primeiros_replicate)
qed

lemma conta_tabela_de:
  assumes "distinct (map nome ps)" and "p \<in> set ps" and "pais_ok p"
  shows "conta (tabela_de ps) (nome p) m =
           (case m of BRONZE \<Rightarrow> quant_bronze p | PRATA \<Rightarrow> quant_prata p | OURO \<Rightarrow> quant_ouro p)"
proof -
  have "filter (\<lambda>linha. pais_de linha = nome p \<and> medalha_de linha = Medalha_value m) (tabela_de ps) =
        filter (\<lambda>linha. medalha_de linha = Medalha_value m)
          (filter (\<lambda>linha. pais_de linha = nome p) (tabela_de ps))"
    by (simp add: conj_commute)
  then have c: "conta (tabela_de ps) (nome p) m =
      int (length (filter (\<lambda>linha. medalha_de linha = Medalha_value m) (linhas_de p)))"
    by (simp add: conta_def filter_tabela_de [OF assms(1,2)])
  from assms(3) obtain gs where "generos p = Some gs"
    by (auto simp: pais_ok_def dest: generos_ok_Some)
  with assms(3) show ?thesis unfolding c
    by (cases m) (simp_all add: linhas_de_def medalha_de_def pais_ok_def filter_empty_conv)
qed

lemma generos_linhas_de:
  assumes "generos p = Some gs" and "gs \<noteq> []" and "distinct gs"
  shows "primeiros (map genero_de (linhas_de p)) = gs"
proof -
  have "map genero_de (linhas_de p) =
      gs @ replicate (nat (quant_bronze p) + nat (quant_prata p) + nat (quant_ouro p)) (hd gs)"
    using assms by (simp add: linhas_de_def genero_de_def replicate_add comp_def)
  moreover have "filter (\<lambda>y. y \<notin> set gs) (primeiros (replicate k (hd gs))) = []" for k
    using assms by (simp add: primeiros_replicate)
  ultimately show ?thesis
    using assms by (simp add: primeiros_append primeiros_distinct_id)
qed

lemma resumo_tabela_de:
  assumes ok: "quadro_ok ps" and p: "p \<in> set ps"
  shows "resumo (tabela_de ps) (nome p) = p"
proof -
  from ok have d: "distinct (map nome ps)" by (simp add: quadro_ok_def)
  from ok p have pok: "pais_ok p" by (rule quadro_ok_member)
  then obtain gs where gs: "generos p = Some gs" "gs \<noteq> []" "distinct gs"
    by (auto simp: pais_ok_def dest: generos_ok_Some)
  from pok have t: "quant_total p = quant_bronze p + quant_prata p + quant_ouro p"
    by (simp add: pais_ok_def total_ok_def)
  show ?thesis
    by (rule Pais.equality)
      (simp_all add: conta_tabela_de [OF d p pok] filter_tabela_de [OF d p]
        generos_linhas_de [OF gs] gs t)
qed

lemma quadro_spec_tabela_de: "quadro_ok ps \<Longrightarrow> quadro_spec (tabela_de ps) = ps"
  by (simp add: quadro_spec_def primeiros_tabela_de resumo_tabela_de map_idI)

lemma quadro_tabela_de:
  assumes "quadro_ok ps"
  shows "quadro (tabela_de ps) = Inr ps"
proof -
  have "list_all (\<lambda>linha. 3 \<le> length linha) (tabela_de ps)"
    by (auto simp: list_all_iff tabela_de_def)
  then show ?thesis by (simp add: quadro_eq_spec quadro_spec_tabela_de [OF assms])
qed

text \<open>
  C24. The table invariant is exact. A list of accumulators is reached by the steps of
  the loop of \<^verbatim>\<open>quadro\<close> from the empty list if and only if it satisfies the table
  invariant: names without repetition, and in every object counters that are not
  negative, a total that is their sum and a gender list that is not empty and has no
  repetition. For every such list \<open>tabela_de\<close> gives rows from which \<^verbatim>\<open>quadro\<close>
  returns exactly that list, so nothing stronger than the invariant holds of every
  result of \<^verbatim>\<open>quadro\<close>.
\<close>

theorem alcanca_exato:
  "(alcanca [] ps \<longleftrightarrow> quadro_ok ps) \<and> (quadro_ok ps \<longrightarrow> quadro (tabela_de ps) = Inr ps)"
proof -
  have "quadro_ok ps" if "alcanca [] ps"
    using that quadro_ok_Nil by (rule alcanca_quadro_ok)
  moreover have "alcanca [] ps" if "quadro_ok ps"
    using quadro_tabela_de [OF that] unfolding quadro_def by (rule alcanca_quadro_laco)
  ultimately show ?thesis by (auto simp: quadro_tabela_de)
qed

theorem alcanca_exato_witness:
  "quadro_ok [Pais_kw ''BRA'' 1 0 1 2 [''M'', ''F''], Pais_kw ''USA'' 0 1 0 1 [''F'']] \<and>
   alcanca [] [Pais_kw ''BRA'' 1 0 1 2 [''M'', ''F''], Pais_kw ''USA'' 0 1 0 1 [''F'']] \<and>
   tabela_de [Pais_kw ''BRA'' 1 0 1 2 [''M'', ''F''], Pais_kw ''USA'' 0 1 0 1 [''F'']] =
     [[''0'', ''BRA'', ''M''], [''0'', ''BRA'', ''F''], [''3'', ''BRA'', ''M''],
      [''1'', ''BRA'', ''M''], [''0'', ''USA'', ''F''], [''2'', ''USA'', ''F'']] \<and>
   quadro
     [[''0'', ''BRA'', ''M''], [''0'', ''BRA'', ''F''], [''3'', ''BRA'', ''M''],
      [''1'', ''BRA'', ''M''], [''0'', ''USA'', ''F''], [''2'', ''USA'', ''F'']] =
   Inr [Pais_kw ''BRA'' 1 0 1 2 [''M'', ''F''], Pais_kw ''USA'' 0 1 0 1 [''F'']]"
proof -
  have ok: "quadro_ok [Pais_kw ''BRA'' 1 0 1 2 [''M'', ''F''], Pais_kw ''USA'' 0 1 0 1 [''F'']]"
    by (simp add: quadro_ok_def pais_ok_def total_ok_def generos_ok_def)
  have t: "tabela_de [Pais_kw ''BRA'' 1 0 1 2 [''M'', ''F''], Pais_kw ''USA'' 0 1 0 1 [''F'']] =
     [[''0'', ''BRA'', ''M''], [''0'', ''BRA'', ''F''], [''3'', ''BRA'', ''M''],
      [''1'', ''BRA'', ''M''], [''0'', ''USA'', ''F''], [''2'', ''USA'', ''F'']]"
    by (simp add: tabela_de_def linhas_de_def)
  from ok t alcanca_exato
    [of "[Pais_kw ''BRA'' 1 0 1 2 [''M'', ''F''], Pais_kw ''USA'' 0 1 0 1 [''F'']]"]
  show ?thesis by simp
qed


section \<open>Progress\<close>

lemma atualiza_pais_regista:
  "n \<in> nome ` set ps \<Longrightarrow>
   \<exists>p \<in> set (snd (atualiza_pais mc n g ps)). nome p = n \<and> g \<in> conjunto_generos p"
proof (induction ps)
  case Nil
  then show ?case by simp
next
  case (Cons q ps)
  show ?case
  proof (cases "nome q = n")
    case True
    then show ?thesis
      by (auto simp: registra_genero_def conjunto_generos_def Let_def split: option.splits)
  next
    case False
    with Cons show ?thesis by (auto split: prod.splits)
  qed
qed

lemma quadro_linha_regista:
  assumes "quadro_linha ps linha = Inr ps'"
  shows "\<exists>p \<in> set ps'. nome p = pais_de linha \<and> genero_de linha \<in> conjunto_generos p"
proof -
  from assms have l: "3 \<le> length linha" by (rule quadro_linha_Inr)
  show ?thesis
  proof (cases "pais_de linha \<in> nome ` set ps")
    case True
    with assms l have "ps' = snd (atualiza_pais (medalha_de linha) (pais_de linha) (genero_de linha) ps)"
      by (simp add: quadro_linha_eq)
    with atualiza_pais_regista [OF True] show ?thesis by simp
  next
    case False
    with assms l show ?thesis
      by (auto simp: quadro_linha_eq conjunto_generos_def)
  qed
qed

lemma estende_membro:
  assumes "estende ps ps'" and "p \<in> set ps"
  shows "\<exists>p' \<in> set ps'. cresce p p'"
proof -
  from assms(2) obtain i where i: "i < length ps" "ps ! i = p"
    by (auto simp: in_set_conv_nth)
  with assms(1) have "cresce p (ps' ! i)" "i < length ps'"
    by (auto simp: estende_iff)
  then show ?thesis using nth_mem [of i ps'] by blast
qed

lemma alcanca_guarda:
  assumes "alcanca ps ps'" and "p \<in> set ps" and "nome p = n" and "g \<in> conjunto_generos p"
  shows "\<exists>p' \<in> set ps'. nome p' = n \<and> g \<in> conjunto_generos p'"
proof -
  from assms(1) have "estende ps ps'" by (rule alcanca_estende)
  from estende_membro [OF this assms(2)] obtain p' where "p' \<in> set ps'" "cresce p p'"
    by blast
  with assms(3,4) show ?thesis by (auto simp: cresce_def)
qed

lemma quadro_linha_progride:
  "3 \<le> length linha \<Longrightarrow> \<exists>ps'. quadro_linha ps linha = Inr ps'"
  by (simp add: quadro_linha_eq)

text \<open>
  C20. Progress: from every list of objects, a row with at least three fields can be
  processed, and once it has been, its country has an object with its gender recorded,
  in the list the step returns and in every list that later steps reach from it. So
  no row is lost, however many rows follow it.
\<close>

theorem alcanca_progresso:
  assumes "3 \<le> length linha"
  shows "\<exists>ps'. quadro_linha ps linha = Inr ps' \<and>
     (\<forall>ps''. alcanca ps' ps'' \<longrightarrow>
        (\<exists>p \<in> set ps''. nome p = pais_de linha \<and> genero_de linha \<in> conjunto_generos p))"
proof -
  from assms obtain ps' where s: "quadro_linha ps linha = Inr ps'"
    using quadro_linha_progride by blast
  from quadro_linha_regista [OF s] obtain p where
    p: "p \<in> set ps'" "nome p = pais_de linha" "genero_de linha \<in> conjunto_generos p"
    by blast
  have "\<exists>p \<in> set ps''. nome p = pais_de linha \<and> genero_de linha \<in> conjunto_generos p"
    if "alcanca ps' ps''" for ps''
    using that p by (rule alcanca_guarda)
  with s show ?thesis by blast
qed

theorem alcanca_progresso_witness:
  "\<exists>ps'. quadro_linha [Pais_kw ''USA'' 0 1 0 1 [''F'']] [''1'', ''BRA'', ''M''] = Inr ps' \<and>
     (\<forall>ps''. alcanca ps' ps'' \<longrightarrow>
        (\<exists>p \<in> set ps''. nome p = pais_de [''1'', ''BRA'', ''M''] \<and>
           genero_de [''1'', ''BRA'', ''M''] \<in> conjunto_generos p))"
  using alcanca_progresso [of "[''1'', ''BRA'', ''M'']" "[Pais_kw ''USA'' 0 1 0 1 [''F'']]"]
  by simp

end
