(* ===== verification/Classificador_Laco.thy ===== *)
theory Classificador_Laco
  imports Classificador "HOL-Library.While_Combinator"
begin

text \<open>
  The loops of \<^verbatim>\<open>ordena\<close> kept as loops, to show that they stop and how long they
  run. The \<^verbatim>\<open>while j >= 0\<close> loop of the source leaves through \<^verbatim>\<open>break\<close> as soon as
  \<^verbatim>\<open>paises[j]\<close> is not smaller than the key, so it is a loop whose guard is
  "\<^verbatim>\<open>j >= 0\<close> and \<^verbatim>\<open>paises[j]\<close> is smaller than the key" (\<open>laco_guarda\<close>) and whose body
  shifts \<^verbatim>\<open>paises[j]\<close> one place to the right and decrements \<^verbatim>\<open>j\<close> (\<open>laco_corpo\<close>).
  \<open>ordena_while_laco\<close> runs it with \<open>while_option\<close>, where not stopping would be the
  value \<open>None\<close>; the state carries a counter of the iterations. \<open>ordena_for_laco\<close>
  and \<open>ordena_laco\<close> are the \<^verbatim>\<open>for\<close> loop and the function over it, adding up the
  counters; \<open>inversoes\<close> is what the counter turns out to be. The subscripts are
  the plain \<open>!\<close> and list update here: the lemmas relate each loop to its counterpart
  in \<open>Classificador\<close>, whose subscripts are checked, for the indices at which the
  source runs it.
\<close>

section \<open>Definitions\<close>

type_synonym estado_laco = "Pais list \<times> int \<times> nat"

definition laco_guarda :: "Pais \<Rightarrow> estado_laco \<Rightarrow> bool" where
  "laco_guarda chave_i = (\<lambda>(paises, j, passos). j \<ge> 0 \<and> desloca (paises ! nat j) chave_i)"

definition laco_corpo :: "estado_laco \<Rightarrow> estado_laco" where
  "laco_corpo = (\<lambda>(paises, j, passos). (paises[nat (j + 1) := paises ! nat j], j - 1, Suc passos))"

definition ordena_while_laco :: "Pais list \<Rightarrow> Pais \<Rightarrow> int \<Rightarrow> nat \<Rightarrow> estado_laco option" where
  "ordena_while_laco paises chave_i j passos =
     while_option (laco_guarda chave_i) laco_corpo (paises, j, passos)"

fun ordena_for_laco :: "Pais list \<Rightarrow> nat \<Rightarrow> int list \<Rightarrow> (Pais list \<times> nat) option" where
  "ordena_for_laco paises passos [] = Some (paises, passos)"
| "ordena_for_laco paises passos (i # is) =
     (case ordena_while_laco paises (paises ! nat i) (i - 1) passos of
        None \<Rightarrow> None
      | Some (paises', j, passos') \<Rightarrow>
          ordena_for_laco (paises'[nat (j + 1) := paises ! nat i]) passos' is)"

definition ordena_laco :: "Pais list \<Rightarrow> (Pais list \<times> nat) option" where
  "ordena_laco paises = ordena_for_laco paises 0 (map int [1..<length paises])"

text \<open>
  The inversions of a list: the pairs of an element and a later one that ranks above
  it, which are the pairs the sort has to put in order. \<open>custo pre rest\<close> counts, for
  each element of \<open>rest\<close> in turn, the elements before it, \<open>pre\<close> included, that it
  has to pass.
\<close>

fun inversoes :: "Pais list \<Rightarrow> nat" where
  "inversoes [] = 0"
| "inversoes (x # xs) = length (filter (\<lambda>y. menor x y) xs) + inversoes xs"

fun custo :: "Pais list \<Rightarrow> Pais list \<Rightarrow> nat" where
  "custo pre [] = 0"
| "custo pre (x # rest) = length (filter (\<lambda>y. menor y x) pre) + custo (x # pre) rest"

lemmas classificador_laco_defs [medalhas_defs] =
  ordena_laco_def ordena_while_laco_def laco_guarda_def laco_corpo_def while_option_unfold

section \<open>The shifting loop\<close>

lemma ordena_while_laco_unfold:
  "ordena_while_laco paises chave_i j passos =
     (if j \<ge> 0 \<and> desloca (paises ! nat j) chave_i
      then ordena_while_laco (paises[nat (j + 1) := paises ! nat j]) chave_i (j - 1) (Suc passos)
      else Some (paises, j, passos))"
  unfolding ordena_while_laco_def
  by (subst while_option_unfold) (simp add: laco_guarda_def laco_corpo_def)

lemma ordena_while_laco_para:
  assumes "- 1 \<le> j" and "j + 1 < int (length paises)"
  shows "\<exists>paises' j'. ordena_while paises chave_i j = Inr (paises', j') \<and>
     ordena_while_laco paises chave_i j passos = Some (paises', j', passos + nat (j - j')) \<and>
     - 1 \<le> j' \<and> j' \<le> j \<and> length paises' = length paises"
  using assms
proof (induction "nat (j + 1)" arbitrary: j paises passos)
  case 0
  then have "j = - 1" by simp
  then show ?case by (simp add: ordena_while_laco_unfold)
next
  case (Suc k)
  then have j: "0 \<le> j" "nat j < length paises" by simp_all
  then have get: "py_get paises j = Inr (paises ! nat j)"
    using py_get_nat [of "nat j" paises] by simp
  show ?case
  proof (cases "desloca (paises ! nat j) chave_i")
    case False
    with j get show ?thesis
      by (simp add: ordena_while.simps [of paises] ordena_while_laco_unfold [of paises])
  next
    case True
    let ?ps = "paises[nat (j + 1) := paises ! nat j]"
    from Suc.prems j have set: "py_set paises (j + 1) (paises ! nat j) = Inr ?ps"
      using py_set_nat [of "nat (j + 1)" paises] by simp
    from Suc.hyps(2) Suc.prems have "k = nat (j - 1 + 1)" "- 1 \<le> j - 1"
      "j - 1 + 1 < int (length ?ps)"
      by simp_all
    from Suc.hyps(1) [OF this, of "Suc passos"]
    obtain paises' j' where
      r: "ordena_while ?ps chave_i (j - 1) = Inr (paises', j')"
      and l: "ordena_while_laco ?ps chave_i (j - 1) (Suc passos) =
        Some (paises', j', Suc passos + nat (j - 1 - j'))"
      and b: "- 1 \<le> j'" "j' \<le> j - 1" "length paises' = length ?ps"
      by blast
    from b have "Suc passos + nat (j - 1 - j') = passos + nat (j - j')" by simp
    with True j get set r l b show ?thesis
      by (simp add: ordena_while.simps [of paises] ordena_while_laco_unfold [of paises])
  qed
qed

section \<open>The loop over the indices\<close>

lemma ordena_for_laco_para:
  assumes "list_all (\<lambda>i. 0 \<le> i \<and> i < int (length paises)) is"
  shows "\<exists>paises' passos'. ordena_for paises is = Inr paises' \<and>
     ordena_for_laco paises passos is = Some (paises', passos') \<and>
     passos' \<le> passos + sum_list (map nat is) \<and> length paises' = length paises"
  using assms
proof (induction "is" arbitrary: paises passos)
  case Nil
  show ?case by simp
next
  case (Cons i "is")
  from Cons.prems have i: "0 \<le> i" "i < int (length paises)" by simp_all
  then have get: "py_get paises i = Inr (paises ! nat i)"
    using py_get_nat [of "nat i" paises] by simp
  from i ordena_while_laco_para [of "i - 1" paises "paises ! nat i" passos]
  obtain ps1 j where w: "ordena_while paises (paises ! nat i) (i - 1) = Inr (ps1, j)"
    and l: "ordena_while_laco paises (paises ! nat i) (i - 1) passos =
      Some (ps1, j, passos + nat (i - 1 - j))"
    and b: "- 1 \<le> j" "j \<le> i - 1" "length ps1 = length paises"
    by auto
  let ?ps = "ps1[nat (j + 1) := paises ! nat i]"
  from b i have set: "py_set ps1 (j + 1) (paises ! nat i) = Inr ?ps"
    using py_set_nat [of "nat (j + 1)" ps1] by simp
  from Cons.prems b have "list_all (\<lambda>i. 0 \<le> i \<and> i < int (length ?ps)) is"
    by simp
  from Cons.IH [OF this, of "passos + nat (i - 1 - j)"]
  obtain paises' passos' where f: "ordena_for ?ps is = Inr paises'"
    and fl: "ordena_for_laco ?ps (passos + nat (i - 1 - j)) is = Some (paises', passos')"
    and p: "passos' \<le> passos + nat (i - 1 - j) + sum_list (map nat is)"
    and len: "length paises' = length ?ps"
    by blast
  from p b have "passos' \<le> passos + sum_list (map nat (i # is))" by simp
  with get w l set f fl len b show ?case
    by (simp add: ordena_passo_def)
qed

lemma soma_indices: "2 * sum_list (map nat (map int [1..<n])) = n * (n - 1)"
proof (induction n)
  case 0
  show ?case by simp
next
  case (Suc m)
  then show ?case by (cases m) (simp_all add: algebra_simps)
qed

lemma ordena_laco_para:
  "\<exists>passos. ordena_laco paises = Some (sort_key chave paises, passos) \<and>
     2 * passos \<le> length paises * (length paises - 1)"
proof -
  have "list_all (\<lambda>i. 0 \<le> i \<and> i < int (length paises)) (map int [1..<length paises])"
    by (simp add: list_all_iff)
  from ordena_for_laco_para [OF this, of 0]
  obtain paises' passos where o: "ordena paises = Inr paises'"
    and l: "ordena_laco paises = Some (paises', passos)"
    and p: "passos \<le> sum_list (map nat (map int [1..<length paises]))"
    by (auto simp: ordena_def ordena_laco_def)
  from p soma_indices [of "length paises"] have "2 * passos \<le> length paises * (length paises - 1)"
    by simp
  with o l show ?thesis by (simp add: ordena_Inr_iff)
qed

lemma ordena_laco_exemplo:
  "ordena_laco [Pais_pos ''QAT'' 1 0 0 1, Pais_pos ''USA'' 0 1 0 1, Pais_pos ''BRA'' 0 0 1 1] =
     Some ([Pais_pos ''BRA'' 0 0 1 1, Pais_pos ''USA'' 0 1 0 1, Pais_pos ''QAT'' 1 0 0 1], 3)"
  by (simp add: ordena_laco_def ordena_while_laco_unfold desloca_def)

section \<open>The number of shifts\<close>

lemma custo_mset: "mset pre = mset pre' \<Longrightarrow> custo pre rest = custo pre' rest"
proof (induction rest arbitrary: pre pre')
  case Nil
  show ?case by simp
next
  case (Cons x rest)
  from Cons.prems have "length (filter (\<lambda>y. menor y x) pre) = length (filter (\<lambda>y. menor y x) pre')"
    by (rule length_filter_mset)
  moreover from Cons.prems have "custo (x # pre) rest = custo (x # pre') rest"
    by (intro Cons.IH) simp
  ultimately show ?case by simp
qed

lemma soma_indicadora:
  "sum_list (map (\<lambda>z. if P z then Suc 0 else 0) xs) = length (filter P xs)"
  by (induction xs) simp_all

lemma custo_inversoes:
  "custo pre rest =
     inversoes rest + sum_list (map (\<lambda>x. length (filter (\<lambda>y. menor y x) pre)) rest)"
proof (induction rest arbitrary: pre)
  case Nil
  show ?case by simp
next
  case (Cons x rest)
  have "sum_list (map (\<lambda>z. length (filter (\<lambda>y. menor y z) (x # pre))) rest) =
      sum_list (map (\<lambda>z. length (filter (\<lambda>y. menor y z) pre)) rest) +
      length (filter (\<lambda>z. menor x z) rest)"
    by (induction rest) simp_all
  with Cons [of "x # pre"] show ?case by simp
qed

lemma custo_Nil: "custo [] ps = inversoes ps"
  by (simp add: custo_inversoes)

lemma cauda_menor_filter:
  assumes "sorted (map chave ps)"
  shows "length (cauda_menor x ps) = length (filter (\<lambda>y. menor y x) ps)"
proof -
  have "filter (\<lambda>y. menor y x) (frente x ps) = []"
  proof -
    have "\<not> menor y x" if "y \<in> set (frente x ps)" for y
      using frente_ge [OF assms that] by (simp add: menor_chave not_less)
    then show ?thesis by (simp add: filter_empty_conv)
  qed
  moreover have "filter (\<lambda>y. menor y x) (cauda_menor x ps) = cauda_menor x ps"
    by (auto simp: filter_id_conv dest: set_cauda_menor)
  ultimately have "filter (\<lambda>y. menor y x) (frente x ps @ cauda_menor x ps) = cauda_menor x ps"
    by (simp del: frente_cauda)
  then show ?thesis by simp
qed

lemma ordena_while_laco_hole:
  "ordena_while_laco (pre @ x # rest) c (int (length pre) - 1) passos =
     Some (frente c pre @ (if cauda_menor c pre = [] then x else hd (cauda_menor c pre)) #
             cauda_menor c pre @ rest,
           int (length (frente c pre)) - 1, passos + length (cauda_menor c pre))"
proof -
  have len: "length (frente c pre) + length (cauda_menor c pre) = length pre"
    using arg_cong [OF frente_cauda [of c pre], of length] by (simp del: frente_cauda)
  from ordena_while_laco_para [of "int (length pre) - 1" "pre @ x # rest" c passos]
  obtain paises' j' where "ordena_while (pre @ x # rest) c (int (length pre) - 1) = Inr (paises', j')"
    and l: "ordena_while_laco (pre @ x # rest) c (int (length pre) - 1) passos =
      Some (paises', j', passos + nat (int (length pre) - 1 - j'))"
    by auto
  then have "paises' = frente c pre @ (if cauda_menor c pre = [] then x else hd (cauda_menor c pre)) #
      cauda_menor c pre @ rest" and j': "j' = int (length (frente c pre)) - 1"
    by (simp_all add: ordena_while_hole)
  moreover from j' len have "nat (int (length pre) - 1 - j') = length (cauda_menor c pre)"
    by simp
  ultimately show ?thesis using l by simp
qed

lemma ordena_for_laco_passo:
  "ordena_for_laco (pre @ x # rest) passos (int (length pre) # is) =
     ordena_for_laco (insere x pre @ rest) (passos + length (cauda_menor x pre)) is"
proof -
  have "(frente x pre @ (if cauda_menor x pre = [] then x else hd (cauda_menor x pre)) #
      cauda_menor x pre @ rest)[length (frente x pre) := x] =
      frente x pre @ x # cauda_menor x pre @ rest"
    by (simp add: list_update_append)
  then show ?thesis
    by (simp add: ordena_while_laco_hole insere_def)
qed

lemma ordena_for_laco_foldl:
  assumes "sorted (map chave pre)"
  shows "ordena_for_laco (pre @ rest) passos (map int [length pre ..< length pre + length rest]) =
     Some (foldl (\<lambda>acc x. insere x acc) pre rest, passos + custo pre rest)"
  using assms
proof (induction rest arbitrary: pre passos)
  case Nil
  show ?case by simp
next
  case (Cons x rest)
  have idx: "[length pre ..< length pre + length (x # rest)] =
      length pre # [length (insere x pre) ..< length (insere x pre) + length rest]"
    by (simp add: upt_rec)
  from Cons.prems have s: "sorted (map chave (insere x pre))" by (rule sorted_insere)
  have c: "custo (insere x pre) rest = custo (x # pre) rest"
    by (rule custo_mset) simp
  have "ordena_for_laco (pre @ x # rest) passos (map int [length pre ..< length pre + length (x # rest)]) =
      ordena_for_laco (insere x pre @ rest) (passos + length (cauda_menor x pre))
        (map int [length (insere x pre) ..< length (insere x pre) + length rest])"
    unfolding idx by (simp only: list.map ordena_for_laco_passo)
  also have "\<dots> = Some (foldl (\<lambda>acc x. insere x acc) (insere x pre) rest,
      passos + length (cauda_menor x pre) + custo (insere x pre) rest)"
    using s by (rule Cons.IH)
  also have "passos + length (cauda_menor x pre) + custo (insere x pre) rest =
      passos + custo pre (x # rest)"
    using Cons.prems by (simp add: c cauda_menor_filter)
  finally show ?case by simp
qed

lemma ordena_laco_exato: "ordena_laco ps = Some (sort_key chave ps, inversoes ps)"
proof (cases ps)
  case Nil
  then show ?thesis by (simp add: ordena_laco_def)
next
  case (Cons x rest)
  have "[1..<length ps] = [length [x] ..< length [x] + length rest]"
    by (simp add: Cons)
  then have "ordena_laco ps =
      ordena_for_laco ([x] @ rest) 0 (map int [length [x] ..< length [x] + length rest])"
    by (simp only: ordena_laco_def) (simp add: Cons)
  also have "\<dots> = Some (foldl (\<lambda>acc x. insere x acc) [x] rest, 0 + custo [x] rest)"
    by (rule ordena_for_laco_foldl) simp
  also have "foldl (\<lambda>acc x. insere x acc) [x] rest = ordena_ref ps"
    by (simp add: ordena_ref_def Cons insere_def)
  also have "0 + custo [x] rest = inversoes ps"
    using custo_Nil [of ps] by (simp add: Cons)
  finally show ?thesis by (simp add: ordena_ref_sort_key)
qed

lemma inversoes_zero: "inversoes ps = 0 \<longleftrightarrow> sorted_wrt antes ps"
  by (induction ps) (auto simp: filter_empty_conv antes_not_menor)

section \<open>Properties of the loops\<close>

text \<open>
  C12. The loops of \<^verbatim>\<open>ordena\<close> stop, and how long they run. Run as loops, with a
  counter of the iterations of the \<^verbatim>\<open>while\<close> loop that shift an element, the function
  returns on every list; what it returns is the result of \<open>ordena\<close>, the stable sort
  of the list; the counter is exactly the number of inversions of the list, the pairs
  of an element and a later one that ranks above it; so it is at most \<open>n (n - 1) / 2\<close>
  for a list of \<open>n\<close> elements, and it is 0 exactly when the list is already ranked.
\<close>

theorem ordena_laco_termina:
  "ordena_laco paises = Some (sort_key chave paises, inversoes paises) \<and>
   ordena paises = Inr (sort_key chave paises) \<and>
   2 * inversoes paises \<le> length paises * (length paises - 1) \<and>
   (inversoes paises = 0 \<longleftrightarrow> sorted_wrt antes paises)"
  using ordena_laco_para [of paises]
  by (simp add: ordena_laco_exato ordena_sort_key inversoes_zero)

end
