(* ===== verification/Spec2Isabelle.thy ===== *)
theory Spec2Isabelle
  imports Principal Agregador_Mapa Agregador_Alcance Classificador_Laco
begin

text \<open>
  \<^bold>\<open>The program.\<close> \<^verbatim>\<open>src/medalhas.py\<close> reads a comma-separated file of medal-winning
  performances and prints a medal table and the list of the countries whose medal
  winners all have one gender. \<^verbatim>\<open>main\<close> chains six functions: \<^verbatim>\<open>le_arquivo\<close> (reads the
  lines, drops the header, splits on commas), \<^verbatim>\<open>filtro_tabela\<close> (keeps the fields 1, 4
  and 5 of each row), \<^verbatim>\<open>quadro\<close> (builds one \<^verbatim>\<open>Pais\<close> accumulator per country by linear
  search-or-append, reading the projected row as medal code, country, gender),
  \<^verbatim>\<open>ordena\<close> (insertion sort in place, by gold, then silver, then bronze, descending),
  \<^verbatim>\<open>filtrar_paises_genero_unico\<close> (recursion on an index, keeps the accumulators with
  exactly one gender), and the two printing functions \<^verbatim>\<open>exibir_quadro\<close> and
  \<^verbatim>\<open>exibir_paises_formatado\<close>. The functions share no state but the list of
  accumulators: \<^verbatim>\<open>quadro\<close> creates it, \<^verbatim>\<open>ordena\<close> mutates it in place and returns the
  same object, and \<^verbatim>\<open>main\<close> then passes it, under its old name, to the filter.

  \<^bold>\<open>The theories.\<close>
  \<^item> \<open>Medalhas_Prelude\<close>: exceptions as the type \<open>erro\<close>, results as \<open>erro + 'a\<close>, the
    list subscripts of the source language (\<open>py_get\<close>, \<open>py_set\<close>: negative indices
    count from the end, \<open>IndexError\<close> out of range), the raising loop \<open>map_res\<close>, first
    occurrences (\<open>primeiros\<close>), and the lemma collections.
  \<^item> \<open>Modelo\<close>: \<^verbatim>\<open>class Medalha\<close> as the datatype \<open>Medalha\<close> with \<open>Medalha_value\<close>,
    \<^verbatim>\<open>class Pais\<close> as the record \<open>Pais\<close> (integers unbounded, \<^verbatim>\<open>generos\<close> an option
    because the dataclass defaults it to \<^verbatim>\<open>None\<close>), the constructor \<open>Pais_init\<close>, the
    invariants \<open>pais_ok\<close> and \<open>quadro_ok\<close>, and the order of the ranking in three
    forms: \<open>menor\<close> (what the loop tests), \<open>antes\<close> (what the ranking promises) and
    \<open>chave\<close> (a key in the lexicographic order of triples).
  \<^item> \<open>Texto\<close>: the text operations the program calls: \<open>readlines\<close> (lines with
    their line feed), \<open>split\<close> (\<^verbatim>\<open>str.split\<close> with a one-character separator),
    \<open>str_int\<close> over \<open>digitos\<close> (an integer in decimal) and \<open>ljust\<close> (the format
    \<^verbatim>\<open><n\<close>), with the inverses \<open>junta\<close> and \<open>int_str\<close>. Lemmas: the round trips
    \<open>concat (readlines s) = s\<close>, \<open>junta (split s) = s\<close>, \<open>split (junta ws) = ws\<close>,
    \<open>int_str (str_int i) = i\<close>; where the line feeds are; the number of lines and of
    fields; the number of digits; the length of a padded text.
  \<^item> \<open>Leitor\<close>: \<^verbatim>\<open>le_arquivo\<close> as \<open>le_linhas\<close> (the loop over
    \<^verbatim>\<open>range(1, len(linhas))\<close>), \<open>erro_leitura\<close> (the message of the handler) and
    \<open>le_arquivo\<close>, over a file system that is a parameter. Lemmas: the loop is
    \<open>map split\<close> over the lines after the first; joining the fields gives the lines
    back; the last field of a row keeps the line feed of its line, and the last
    field of the last row has none when the text does not end with one.
  \<^item> \<open>Projetor\<close>: \<^verbatim>\<open>filtro_tabela\<close> as \<open>filtro_item\<close> (loop body) and \<open>filtro_tabela\<close>.
    Lemmas: the closed form; \<open>IndexError\<close> exactly on a row shorter than six fields.
  \<^item> \<open>Agregador\<close>: \<^verbatim>\<open>quadro\<close> as \<open>conta_medalha\<close>, \<open>registra_genero\<close>,
    \<open>atualiza_pais\<close> (inner loop with \<^verbatim>\<open>break\<close>), \<open>novo_pais\<close>, \<open>quadro_linha\<close> (outer
    loop body), \<open>quadro_laco\<close>, \<open>quadro\<close>. Lemmas: every step keeps \<open>quadro_ok\<close>; the
    result is \<open>quadro_spec\<close>, one summary per country in order of first appearance;
    the totals add up to the number of rows with a recognised code; the order of the
    rows does not change what is counted; rows whose code is no medal count
    nothing but register country and gender; \<open>IndexError\<close> exactly on a row shorter
    than three fields.
  \<^item> \<open>Agregador_Mapa\<close>: what \<^verbatim>\<open>quadro\<close> promises, as a keyed mapping from the name of
    a country to its counters and its set of genders, with the names in order of first
    appearance (\<open>mapa_passo\<close>, \<open>mapa_quadro\<close>), the abstraction \<open>abs_quadro\<close> of a list
    of objects, and the merge \<open>funde\<close> of two mappings. Lemmas: the body of the loop
    simulates \<open>mapa_passo\<close> from any list, with or without the invariant; the mapping
    of a concatenation is the merge of the mappings.
  \<^item> \<open>Agregador_Alcance\<close>: the loop of \<^verbatim>\<open>quadro\<close> as a transition system, the inductive
    relation \<open>alcanca\<close>. Lemmas, by induction over the steps: objects are never
    removed or renamed and counters and gender sets only grow (\<open>estende\<close>); the
    invariant is kept; the lists reached from the empty list are the results of
    \<^verbatim>\<open>quadro\<close>. The invariant is exact: \<open>tabela_de\<close> writes, for a list that
    satisfies \<open>quadro_ok\<close>, rows from which \<^verbatim>\<open>quadro\<close> returns that list
    (\<open>linhas_de\<close> the rows of one object), so the reachable lists are exactly the
    lists that satisfy the invariant. \<open>tabela_de\<close> and \<open>linhas_de\<close> translate no
    code: they are the witness of that proof.
  \<^item> \<open>Classificador\<close>: \<^verbatim>\<open>ordena\<close> as \<open>desloca\<close> (the nested comparison),
    \<open>ordena_while\<close> (the shifting loop, on the list and the integer \<^verbatim>\<open>j\<close>),
    \<open>ordena_passo\<close>, \<open>ordena_for\<close>, \<open>ordena\<close>, all through checked subscripts. Lemmas:
    the loops never raise and compute \<open>ordena_ref\<close>, insertion in front of the longest
    suffix of smaller elements; \<open>ordena_ref\<close> is \<open>sort_key chave\<close>, the stable sort of
    the library; hence order, permutation, stability, idempotence, and the bounds of
    the loop index.
  \<^item> \<open>Classificador_Laco\<close>: the same loops kept as loops, with \<open>while_option\<close> of the
    library: \<open>laco_guarda\<close> and \<open>laco_corpo\<close> are the guard and the body of the
    \<^verbatim>\<open>while\<close> loop, \<open>ordena_while_laco\<close>, \<open>ordena_for_laco\<close> and \<open>ordena_laco\<close> the
    loops and the function, with a counter of the shifts in the state. Lemmas: each
    loop returns \<open>Some\<close>, with the result of its counterpart in \<open>Classificador\<close>; the
    \<^verbatim>\<open>while\<close> loop started at \<open>j\<close> runs \<open>j - j'\<close> times, and the function shifts
    exactly as many times as the list has inversions (\<open>inversoes\<close>), at most
    \<open>n (n - 1) / 2\<close> times and not at all on a ranked list.
  \<^item> \<open>Filtro_Genero\<close>: \<^verbatim>\<open>filtrar_paises_genero_unico\<close> as a function of the list and
    an integer index, with its termination proof. Lemmas: for every index the
    recursion is \<open>filtra_lista\<close> on a part of the list (a negative index reads from
    the end and then runs over the whole list); \<open>TypeError\<close> exactly when a gender
    list is \<^verbatim>\<open>None\<close>; on a table that satisfies \<open>quadro_ok\<close> it is \<open>filter\<close> by
    "one gender".
  \<^item> \<open>Filtro_Limite\<close>: the same function under a limit on the depth of the call
    stack, \<open>filtrar_limitado\<close>, whose first argument is the number of nested calls
    still allowed. Lemmas: one call more than the list has elements is enough, and
    then the result is the one of \<open>filtrar_paises_genero_unico\<close>; with fewer the call
    raises \<open>RecursionError\<close> (or \<open>TypeError\<close>, if it meets an object without gender
    list first).
  \<^item> \<open>Relatorio\<close>: \<^verbatim>\<open>exibir_quadro\<close> and \<^verbatim>\<open>exibir_paises_formatado\<close> as functions
    to the list of printed lines, with the format strings \<open>cabecalho\<close>,
    \<open>linha_quadro\<close>, \<open>titulo_genero_unico\<close> and \<open>linha_pais\<close>. Lemmas: the number and
    the lengths of the lines, exactly 40 characters when every value fits its column
    (\<open>alinhado\<close>); the words of a line are the name and the counters
    (\<open>le_linha_quadro\<close> reads a line back).
  \<^item> \<open>Principal\<close>: \<open>main_nucleo\<close>, the four calls of \<^verbatim>\<open>main\<close> between reading and
    printing, with the aliasing written out (the filter receives the list as
    \<open>ordena\<close> left it), and \<open>main\<close>, the whole program: a function of the file system
    and the argument vector to the printed lines and the outcome, which is the normal
    end or the exception that ends the program. \<open>main_nucleo_limitado\<close> and
    \<open>main_limitado\<close> are the same two over \<open>filtrar_limitado\<close>, and \<open>executa\<close> is the
    module run as a script: the printed lines and the exit status of the process.
    Lemmas: the closed forms (\<open>main_nucleo_eq\<close>, \<open>main_eq\<close>,
    \<open>main_limitado_eq\<close>, \<open>executa_eq\<close>) in terms of \<open>classificacao\<close> and \<open>relatorio\<close>;
    what holds of every result; the runs that end normally (\<open>main_Inr_iff\<close>) and the
    ones that end with an exception (\<open>main_Inl\<close>); the exit status is 0 exactly when
    the output is a report (\<open>executa_estado\<close>); the genders of an object of the
    ranking are the values of field 5 in the rows of its country, so a country with a
    medal on an unterminated last line and another on an earlier line is never in
    the single-gender report.
  \<^item> This theory: the properties that span components. The filter commutes with
    the ranking, which is why the aliasing of \<^verbatim>\<open>main\<close> only changes the order of the
    second report; the values passed from stage to stage have the shape the next
    stage reads; the counters of a table of fewer than 100000 rows fit the columns of
    the printed table; and the columns the program reads, field 1 for the medal code
    and field 4 for the country, where the specification says the opposite: on every
    table in the format of the specification no medal is counted and the
    accumulators are named after the medal codes.

  \<^bold>\<open>Conventions.\<close> A function that can raise returns \<open>erro + 'a\<close>, and every subscript
  of the source is a \<open>py_get\<close> or \<open>py_set\<close> in the model, so "does not raise" is a
  theorem and not an assumption. Loops are recursive functions: structural recursion
  over the rows where the source iterates over a list, and \<^theory_text>\<open>function\<close> with a
  measure for the \<^verbatim>\<open>while j >= 0\<close> loop (measure \<open>j + 1\<close>) and for the index recursion
  of the filter (measure \<open>length - index\<close>). Every function of the model is total,
  and the loops of \<open>Classificador_Laco\<close>, where not stopping would be the value
  \<open>None\<close>, are proved to return \<open>Some\<close> on every list.
  The only bound is the one of \<open>filtrar_limitado\<close>, the number \<open>d\<close> of nested calls
  that the interpreter allows: it is a parameter, not a constant, because the limit of
  the interpreter is configurable (1000 by default, of which the calls around the
  filter use a few); \<open>d\<close> is enough exactly when the list has fewer than \<open>d\<close>
  elements. \<open>main\<close> uses the unbounded filter and \<open>main_limitado\<close> the bounded one;
  they agree for tables with fewer than \<open>d\<close> countries, and \<open>executa\<close> is stated
  over the bounded one.
  Mutation is state passing; the only aliasing that a result
  depends on, between the argument and the result of \<^verbatim>\<open>ordena\<close>, is explicit in
  \<open>main_nucleo\<close>. Strings are lists of characters; a character is a code point
  below 256, which covers the literals of the program, and the length of a string is
  its number of characters, which is what the padding of the format counts. Input and
  output are values: the file system is the argument \<open>fs\<close>, a function from a name
  to the text of the file or to the error number and text of the \<^verbatim>\<open>IOError\<close>; the
  standard output is the list of the printed lines, one for each call of \<^verbatim>\<open>print\<close>;
  \<^verbatim>\<open>sys.exit(1)\<close> is the exception value \<open>SystemExit 1\<close>. The exit status of
  \<open>executa\<close> is the argument of \<^verbatim>\<open>sys.exit\<close> as an integer; the program only ever
  passes 1, so the truncation of a status to eight bits by the operating system never
  applies. The error number of an \<^verbatim>\<open>IOError\<close> is an integer and its text a string:
  \<^verbatim>\<open>open\<close> and \<^verbatim>\<open>readlines\<close> raise it from a failed system call, which always sets
  both; an \<^verbatim>\<open>IOError\<close> built without them, which would print \<^verbatim>\<open>None\<close>, is not
  among the values of \<open>fs\<close>. The type \<open>erro\<close> lists the exceptions that can end a
  function of the program: \<open>IndexError\<close> from a subscript, \<open>TypeError\<close> from
  \<^verbatim>\<open>len(None)\<close>, \<open>RecursionError\<close> from the limit of the interpreter, and
  \<open>SystemExit\<close> from \<^verbatim>\<open>sys.exit\<close>. The counter of shifts in the state of
  \<open>Classificador_Laco\<close> is a ghost: the guard and the result never read it, and
  dropping it gives the loop of the source.

  \<^bold>\<open>Not modelled.\<close> The operating system: how a file name becomes a text (encodings,
  the translation of line ends by the text mode), the bytes written to the standard
  output, and the traceback that an uncaught exception writes to the standard error.
  A file whose bytes are not valid in the encoding: \<^verbatim>\<open>readlines\<close> then raises a
  \<^verbatim>\<open>UnicodeDecodeError\<close>, which is no \<^verbatim>\<open>IOError\<close> and is not caught; \<open>fs\<close> gives only a
  text or an \<^verbatim>\<open>IOError\<close>.
  Characters above code point 255 in names. Memory exhaustion. No line of the program
  controls any of these, so there is nothing in the source to translate.

  \<^bold>\<open>Plan.\<close> What is left: the gender sets of the mapping related to the
  single-gender filter (a country is selected exactly when its set in \<open>mapa_quadro\<close>
  is a singleton); the report read back as a whole (\<open>le_linha_quadro\<close> over the
  output of \<open>main\<close>); a reader that strips the line end, as the repair of the
  defect of the last field, proved equal to the present one on the fields the pipeline
  uses when the file has more than six columns.
\<close>

section \<open>The filter and the ranking\<close>

lemma filtrar_ordena_comuta:
  assumes "list_all tem_generos ps"
  shows "filtra_lista (sort_key chave ps) = Inr (sort_key chave (filter genero_unico ps))"
proof -
  from assms have "list_all tem_generos (sort_key chave ps)"
    by (simp add: list_all_iff)
  then show ?thesis by (simp add: filtra_lista_eq filter_sort)
qed

text \<open>
  C30. The filter does not depend on the ranking: filtering the ranked list gives the
  ranking of the filtered list. So the single-gender list of the program, which is
  taken from the list after \<open>ordena\<close> has sorted it in place, holds the accumulators
  that the filter selects from the unsorted table, in ranking order.
\<close>

theorem filtrar_apos_ordena:
  assumes "ordena paises = Inr ordenados"
    and "filtrar_paises_genero_unico paises 0 = Inr unicos"
  shows "filtrar_paises_genero_unico ordenados 0 = ordena unicos"
proof -
  from assms(2) have g: "list_all tem_generos paises" and u: "unicos = filter genero_unico paises"
    by (simp_all add: filtrar_zero filtra_lista_eq split: if_splits)
  from assms(1) have o: "ordenados = sort_key chave paises"
    by (simp add: ordena_Inr_iff)
  show ?thesis
    by (simp add: o u filtrar_zero filtrar_ordena_comuta [OF g] ordena_sort_key)
qed

theorem filtrar_apos_ordena_witness:
  "filtrar_paises_genero_unico
     [Pais_kw ''USA'' 0 0 2 2 [''F'', ''M''], Pais_kw ''BRA'' 0 0 1 1 [''M''],
      Pais_kw ''QAT'' 1 0 0 1 [''M'']] 0 =
   ordena [Pais_kw ''QAT'' 1 0 0 1 [''M''], Pais_kw ''BRA'' 0 0 1 1 [''M'']]"
proof -
  have o: "ordena [Pais_kw ''QAT'' 1 0 0 1 [''M''], Pais_kw ''BRA'' 0 0 1 1 [''M''],
       Pais_kw ''USA'' 0 0 2 2 [''F'', ''M'']] =
     Inr [Pais_kw ''USA'' 0 0 2 2 [''F'', ''M''], Pais_kw ''BRA'' 0 0 1 1 [''M''],
       Pais_kw ''QAT'' 1 0 0 1 [''M'']]"
    by (simp add: classificador_defs)
  have f: "filtrar_paises_genero_unico [Pais_kw ''QAT'' 1 0 0 1 [''M''],
       Pais_kw ''BRA'' 0 0 1 1 [''M''], Pais_kw ''USA'' 0 0 2 2 [''F'', ''M'']] 0 =
     Inr [Pais_kw ''QAT'' 1 0 0 1 [''M''], Pais_kw ''BRA'' 0 0 1 1 [''M'']]"
    by (simp add: filtrar_zero)
  from filtrar_apos_ordena [OF o f] show ?thesis .
qed

section \<open>The columns the program reads\<close>

lemma classificacao_sem_medalhas:
  assumes "list_all (\<lambda>item. \<not> reconhecida (item ! 1)) tabela"
  shows "classificacao tabela =
     map (\<lambda>n. Pais_kw n 0 0 0 0
            (primeiros (map (\<lambda>item. item ! 5) (filter (\<lambda>item. item ! 4 = n) tabela))))
       (primeiros (map (\<lambda>item. item ! 4) tabela))"
proof -
  from assms have r: "list_all (\<lambda>linha. \<not> reconhecida (medalha_de linha)) (map projeta tabela)"
    by (simp add: list_all_iff medalha_de_def projeta_def)
  have q: "quadro_spec (map projeta tabela) =
     map (\<lambda>n. Pais_kw n 0 0 0 0
            (primeiros (map (\<lambda>item. item ! 5) (filter (\<lambda>item. item ! 4 = n) tabela))))
       (primeiros (map (\<lambda>item. item ! 4) tabela))"
    by (simp add: quadro_spec_def resumo_nao_reconhecida [OF r] filter_map comp_def
        pais_de_def genero_de_def projeta_def)
  have "chave p = (0, 0, 0)" if "p \<in> set (quadro_spec (map projeta tabela))" for p
    using that unfolding q by (auto simp: chave_def)
  then have "sort_key chave (quadro_spec (map projeta tabela)) = quadro_spec (map projeta tabela)"
    by (rule sort_key_chaves_iguais)
  then show ?thesis by (simp add: classificacao_def q)
qed

text \<open>
  C39. The column layout the code reads. The pipeline takes field 1 of a row for the
  medal code, field 4 for the country and field 5 for the gender. So on every table
  whose rows have six fields and whose field 1 never holds one of the codes '1', '2'
  and '3', as when it holds the country code, the pipeline succeeds, counts no medal
  at all and returns one accumulator for every value of field 4 in the order of first
  appearance; and when field 4 holds the medal codes, as in the format the
  specification describes, the ranking has at most three accumulators, named after
  the codes.
\<close>

theorem formato_da_especificacao:
  assumes "list_all (\<lambda>item. 6 \<le> length item) tabela"
    and "list_all (\<lambda>item. \<not> reconhecida (item ! 1)) tabela"
  shows "\<exists>quadro_organizado paises_genero.
     main_nucleo tabela = Inr (quadro_organizado, paises_genero) \<and>
     map nome quadro_organizado = primeiros (map (\<lambda>item. item ! 4) tabela) \<and>
     list_all (\<lambda>p. quant_ouro p = 0 \<and> quant_prata p = 0 \<and> quant_bronze p = 0 \<and>
                   quant_total p = 0) quadro_organizado \<and>
     (list_all (\<lambda>item. reconhecida (item ! 4)) tabela \<longrightarrow>
        set (map nome quadro_organizado) \<subseteq> {''1'', ''2'', ''3''} \<and>
        length quadro_organizado \<le> 3)"
proof -
  let ?q = "classificacao tabela"
  note q = classificacao_sem_medalhas [OF assms(2)]
  have n: "map nome ?q = primeiros (map (\<lambda>item. item ! 4) tabela)"
    unfolding q by (simp add: comp_def)
  have z: "list_all (\<lambda>p. quant_ouro p = 0 \<and> quant_prata p = 0 \<and> quant_bronze p = 0 \<and>
      quant_total p = 0) ?q"
    unfolding q by (simp add: list_all_iff)
  have s: "set (map nome ?q) \<subseteq> {''1'', ''2'', ''3''} \<and> length ?q \<le> 3"
    if "list_all (\<lambda>item. reconhecida (item ! 4)) tabela"
  proof -
    from that have sub: "set (map nome ?q) \<subseteq> {''1'', ''2'', ''3''}"
      unfolding n by (auto simp: list_all_iff reconhecida_iff)
    have "length ?q = card (set (map nome ?q))"
      by (simp only: length_classificacao nome_classificacao)
    also from sub have "\<dots> \<le> card {''1'', ''2'', ''3''}" by (intro card_mono) simp_all
    also have "\<dots> = 3" by simp
    finally show ?thesis using sub by simp
  qed
  from assms(1) have "main_nucleo tabela =
      Inr (?q, filter (\<lambda>p. card (conjunto_generos p) = 1) ?q)"
    by (simp add: main_nucleo_eq)
  with n z s show ?thesis by blast
qed

theorem formato_da_especificacao_witness:
  "\<exists>quadro_organizado paises_genero.
     main_nucleo
       [[''x'', ''BRA'', ''x'', ''x'', ''1'', ''M''], [''x'', ''USA'', ''x'', ''x'', ''2'', ''F''],
        [''x'', ''BRA'', ''x'', ''x'', ''3'', ''M''], [''x'', ''FRA'', ''x'', ''x'', ''1'', ''M'']] =
       Inr (quadro_organizado, paises_genero) \<and>
     map nome quadro_organizado = [''1'', ''2'', ''3''] \<and>
     list_all (\<lambda>p. quant_ouro p = 0 \<and> quant_prata p = 0 \<and> quant_bronze p = 0 \<and>
                   quant_total p = 0) quadro_organizado \<and>
     set (map nome quadro_organizado) \<subseteq> {''1'', ''2'', ''3''} \<and>
     length quadro_organizado \<le> 3"
  using formato_da_especificacao
    [of "[[''x'', ''BRA'', ''x'', ''x'', ''1'', ''M''], [''x'', ''USA'', ''x'', ''x'', ''2'', ''F''],
      [''x'', ''BRA'', ''x'', ''x'', ''3'', ''M''], [''x'', ''FRA'', ''x'', ''x'', ''1'', ''M'']]"]
  by (simp add: reconhecida_iff)


text \<open>The four rows of the scenario of the specification, which have the code in field
  0, the country in field 1 and the gender in field 4: two accumulators named after
  the genders, with no medal.\<close>

lemma exemplo_do_cenario:
  "main_nucleo
     [[''1'', ''BRA'', ''x'', ''x'', ''M'', ''x''], [''2'', ''USA'', ''x'', ''x'', ''F'', ''x''],
      [''3'', ''BRA'', ''x'', ''x'', ''M'', ''x''], [''1'', ''FRA'', ''x'', ''x'', ''M'', ''x'']] =
   Inr ([Pais_kw ''M'' 0 0 0 0 [''x''], Pais_kw ''F'' 0 0 0 0 [''x'']],
        [Pais_kw ''M'' 0 0 0 0 [''x''], Pais_kw ''F'' 0 0 0 0 [''x'']])"
  by (simp add: main_nucleo_eq classificacao_def medalhas_defs conjunto_generos_def chave_def)

section \<open>The widths of the table\<close>

lemma alinhado_resumo:
  assumes "length tabela < 100000" and "length n \<le> 15"
  shows "alinhado (resumo tabela n)"
proof -
  have c: "conta tabela n m < 100000" for m
    using conta_le [of tabela n m] assms(1) by simp
  have t: "conta tabela n BRONZE + conta tabela n PRATA + conta tabela n OURO < 100000"
    using conta_soma_le [of tabela n] assms(1) by simp
  have "cabe 5 (conta tabela n OURO)" "cabe 5 (conta tabela n PRATA)"
    "cabe 5 (conta tabela n BRONZE + conta tabela n PRATA + conta tabela n OURO)"
    using c t by (simp_all add: cabe_iff)
  moreover have "cabe 6 (conta tabela n BRONZE)"
    using c [of BRONZE] by (simp add: cabe_iff)
  ultimately show ?thesis using assms(2) by (simp add: alinhado_def)
qed

lemma classificacao_alinhada:
  assumes "length tabela < 100000" and "list_all (\<lambda>item. length (item ! 4) \<le> 15) tabela"
  shows "list_all alinhado (classificacao tabela)"
proof -
  have "alinhado p" if "p \<in> set (quadro_spec (map projeta tabela))" for p
  proof -
    from that obtain item where "item \<in> set tabela" and p: "p = resumo (map projeta tabela) (item ! 4)"
      by (auto simp: quadro_spec_def pais_de_def projeta_def)
    with assms(2) have "length (item ! 4) \<le> 15" by (simp add: list_all_iff)
    with assms(1) show ?thesis unfolding p by (intro alinhado_resumo) simp_all
  qed
  then show ?thesis by (simp add: classificacao_def list_all_iff)
qed

section \<open>The printed table\<close>

text \<open>
  C23. The table of the program is aligned: for a table of fewer than 100000 rows
  whose country names (field 4) have at most 15 characters, every counter of the
  ranking fits its column, and every line of the medal table, the heading included,
  has exactly 40 characters. This holds of the closed form of the ranking and of
  every ranking that the pipeline \<open>main_nucleo\<close> returns for the table.
\<close>

theorem quadro_impresso_alinhado:
  assumes "length tabela < 100000"
    and "list_all (\<lambda>item. length (item ! 4) \<le> 15) tabela"
  shows "list_all alinhado (classificacao tabela) \<and>
     list_all (\<lambda>l. length l = 40) (exibir_quadro (classificacao tabela)) \<and>
     (\<forall>quadro_organizado paises_genero.
        main_nucleo tabela = Inr (quadro_organizado, paises_genero) \<longrightarrow>
        list_all alinhado quadro_organizado \<and>
        list_all (\<lambda>l. length l = 40) (exibir_quadro quadro_organizado))"
proof -
  from assms have a: "list_all alinhado (classificacao tabela)"
    by (rule classificacao_alinhada)
  then have l: "list_all (\<lambda>l. length l = 40) (exibir_quadro (classificacao tabela))"
    by (simp add: exibir_quadro_def list_all_iff length_linha_quadro)
  have "quadro_organizado = classificacao tabela"
    if "main_nucleo tabela = Inr (quadro_organizado, paises_genero)"
    for quadro_organizado paises_genero
    using that by (simp add: main_nucleo_eq split: if_splits)
  with a l show ?thesis by blast
qed

theorem quadro_impresso_alinhado_witness:
  "main_nucleo
     [[''x'', ''1'', ''x'', ''x'', ''BRA'', ''M''], [''x'', ''2'', ''x'', ''x'', ''USA'', ''F'']] =
     Inr ([Pais_kw ''BRA'' 0 0 1 1 [''M''], Pais_kw ''USA'' 0 1 0 1 [''F'']],
          [Pais_kw ''BRA'' 0 0 1 1 [''M''], Pais_kw ''USA'' 0 1 0 1 [''F'']]) \<and>
   list_all alinhado [Pais_kw ''BRA'' 0 0 1 1 [''M''], Pais_kw ''USA'' 0 1 0 1 [''F'']] \<and>
   list_all (\<lambda>l. length l = 40)
     (exibir_quadro [Pais_kw ''BRA'' 0 0 1 1 [''M''], Pais_kw ''USA'' 0 1 0 1 [''F'']])"
proof -
  have m: "main_nucleo
     [[''x'', ''1'', ''x'', ''x'', ''BRA'', ''M''], [''x'', ''2'', ''x'', ''x'', ''USA'', ''F'']] =
     Inr ([Pais_kw ''BRA'' 0 0 1 1 [''M''], Pais_kw ''USA'' 0 1 0 1 [''F'']],
          [Pais_kw ''BRA'' 0 0 1 1 [''M''], Pais_kw ''USA'' 0 1 0 1 [''F'']])"
    by (simp add: main_nucleo_eq classificacao_def medalhas_defs conjunto_generos_def chave_def)
  from quadro_impresso_alinhado
    [of "[[''x'', ''1'', ''x'', ''x'', ''BRA'', ''M''], [''x'', ''2'', ''x'', ''x'', ''USA'', ''F'']]"]
  have "list_all alinhado [Pais_kw ''BRA'' 0 0 1 1 [''M''], Pais_kw ''USA'' 0 1 0 1 [''F'']] \<and>
   list_all (\<lambda>l. length l = 40)
     (exibir_quadro [Pais_kw ''BRA'' 0 0 1 1 [''M''], Pais_kw ''USA'' 0 1 0 1 [''F'']])"
    unfolding m by simp
  with m show ?thesis by simp
qed

section \<open>The values passed between the stages\<close>

lemma quadro_tres:
  assumes "list_all (\<lambda>linha. length linha = 3) tabela_filtrada"
  shows "quadro tabela_filtrada = Inr (quadro_spec tabela_filtrada)"
proof -
  from assms have "list_all (\<lambda>linha. 3 \<le> length linha) tabela_filtrada"
    by (simp add: list_all_iff)
  then show ?thesis by (simp add: quadro_eq)
qed

text \<open>
  C13. The shape of the values between the stages. When the projection returns, every
  projected row has exactly three fields; the aggregator, the ranker and the filter
  then all return; and every object of the table, of the ranking and of the
  single-gender list has its fields as the next stage reads them: a gender list that
  is a list and not \<^verbatim>\<open>None\<close>, counters that are not negative, a total that is their
  sum. So no stage after the projection can raise.
\<close>

theorem estagios_bem_formados:
  assumes "filtro_tabela tabela = Inr tabela_filtrada"
  shows "list_all (\<lambda>linha. length linha = 3) tabela_filtrada \<and>
     (\<exists>tabela_enumerada quadro_organizado paises_genero.
        quadro tabela_filtrada = Inr tabela_enumerada \<and>
        list_all pais_ok tabela_enumerada \<and> list_all tem_generos tabela_enumerada \<and>
        ordena tabela_enumerada = Inr quadro_organizado \<and>
        list_all pais_ok quadro_organizado \<and> list_all tem_generos quadro_organizado \<and>
        filtrar_paises_genero_unico quadro_organizado 0 = Inr paises_genero \<and>
        list_all pais_ok paises_genero \<and> list_all genero_unico paises_genero)"
proof -
  from assms have t: "list_all (\<lambda>linha. length linha = 3) tabela_filtrada"
    by (rule filtro_tabela_tres)
  let ?q = "quadro_spec tabela_filtrada" and ?o = "sort_key chave (quadro_spec tabela_filtrada)"
  have q: "quadro tabela_filtrada = Inr ?q" using t by (rule quadro_tres)
  have okq: "quadro_ok ?q" by (rule quadro_ok_quadro_spec)
  have oko: "quadro_ok ?o" by (rule quadro_ok_classificado)
  have o: "ordena ?q = Inr ?o" by (rule ordena_sort_key)
  have f: "filtrar_paises_genero_unico ?o 0 = Inr (filter genero_unico ?o)"
    using oko by (simp add: filtrar_zero filtra_lista_eq quadro_ok_tem_generos)
  from oko have "list_all pais_ok (filter genero_unico ?o)"
    by (auto simp: quadro_ok_def list_all_iff)
  with t q o f okq oko show ?thesis
    by (simp add: quadro_ok_tem_generos) (simp add: quadro_ok_def list_all_iff)
qed

theorem estagios_bem_formados_witness:
  "list_all (\<lambda>linha. length linha = 3) [[''1'', ''BRA'', ''M''], [''2'', ''USA'', ''F'']] \<and>
   (\<exists>tabela_enumerada quadro_organizado paises_genero.
      quadro [[''1'', ''BRA'', ''M''], [''2'', ''USA'', ''F'']] = Inr tabela_enumerada \<and>
      list_all pais_ok tabela_enumerada \<and> list_all tem_generos tabela_enumerada \<and>
      ordena tabela_enumerada = Inr quadro_organizado \<and>
      list_all pais_ok quadro_organizado \<and> list_all tem_generos quadro_organizado \<and>
      filtrar_paises_genero_unico quadro_organizado 0 = Inr paises_genero \<and>
      list_all pais_ok paises_genero \<and> list_all genero_unico paises_genero)"
proof -
  have "filtro_tabela [[''x'', ''1'', ''x'', ''x'', ''BRA'', ''M''], [''x'', ''2'', ''x'', ''x'', ''USA'', ''F'']] =
      Inr [[''1'', ''BRA'', ''M''], [''2'', ''USA'', ''F'']]"
    by (simp add: filtro_tabela_eq projeta_def)
  from estagios_bem_formados [OF this] show ?thesis .
qed

end
